theory Spec2Isabelle
  imports Main "HOL-Library.Word" "HOL-Library.Sublist"
begin

unbundle bit_operations_syntax

section \<open>The process and its environment\<close>

text \<open>
  Both source files (\<^verbatim>\<open>mnt.cc\<close>, \<^verbatim>\<open>cgroup.cc\<close>) do their work through calls into
  the kernel, libc and nsjail's own \<^verbatim>\<open>util\<close>/\<^verbatim>\<open>subproc\<close> helpers. The embedding keeps
  every such call: a call is a value of \<open>call\<close>, the environment's reply is an \<open>answer\<close>
  in the shape of the C ABI (the returned integer, \<^verbatim>\<open>errno\<close>, and the value written to
  an out-parameter), and the environment itself is a function from the events so far and
  the call being made to the answer. The process state is the list of events (oldest
  first) together with the function-local \<^verbatim>\<open>static uint64_t df_counter\<close> of
  \<^verbatim>\<open>mountPt\<close>.

  Log statements (\<^verbatim>\<open>LOG_D\<close>, \<^verbatim>\<open>PLOG_W\<close>, ...) write diagnostics only and decide no
  branch; they are left out. \<^verbatim>\<open>TEMP_FAILURE_RETRY(e)\<close> is the libc macro that re-issues
  \<open>e\<close> while it fails with \<^verbatim>\<open>EINTR\<close>; a call made under it is one event whose answer is
  that of the last attempt, which is why \<open>errno_t\<close> has no \<^verbatim>\<open>EINTR\<close>.
\<close>

datatype errno_t = EPERM | ENOENT | EACCES | EEXIST | EINVAL | EOTHER

datatype answer = Answer (ret: int) (errno: errno_t) (outv: nat)

datatype call =
    SYS_stat string
  | SYS_symlink string string
  | SYS_mkdir string nat
  | SYS_open string nat nat
  | SYS_close int
  | SYS_mount "string option" string "string option" "64 word" "string option"
  | SYS_unlink string
  | SYS_statvfs string
  | SYS_access string nat
  | SYS_chroot string
  | SYS_chdir string
  | SYS_umount2 string nat
  | SYS_pivot_root string string
  | SYS_wait4 int nat
  | UTIL_createDirRecursively string
  | UTIL_writeToFd int string
  | UTIL_writeBufToFile string string nat
  | UTIL_rnd64
  | SUBPROC_cloneProc nat

type_synonym event = "call \<times> answer"

type_synonym kernel = "event list \<Rightarrow> call \<Rightarrow> answer"

record proc =
  history :: "event list"
  df_counter :: "64 word"

definition sys :: "kernel \<Rightarrow> call \<Rightarrow> proc \<Rightarrow> answer \<times> proc" where
  "sys k c s = (k (history s) c, s\<lparr>history := history s @ [(c, k (history s) c)]\<rparr>)"

text \<open>A \<^verbatim>\<open>bool\<close>-returning helper of \<^verbatim>\<open>util\<close> answers true as any non-zero \<open>ret\<close>.\<close>

definition truthy :: "answer \<Rightarrow> bool" where
  "truthy a = (ret a \<noteq> 0)"

subsection \<open>Constants of the system headers (Linux, x86-64)\<close>

definition PATH_MAX :: nat where "PATH_MAX = 4096"

definition O_RDONLY :: nat where "O_RDONLY = 0"
definition O_WRONLY :: nat where "O_WRONLY = 1"
definition O_CREAT :: nat where "O_CREAT = 64"
definition O_EXCL :: nat where "O_EXCL = 128"
definition O_CLOEXEC :: nat where "O_CLOEXEC = 524288"
definition R_OK :: nat where "R_OK = 4"
definition MNT_DETACH :: nat where "MNT_DETACH = 2"
definition CLONE_FS :: nat where "CLONE_FS = 512"
definition SIGCHLD :: nat where "SIGCHLD = 17"

subsection \<open>Strings and formatting\<close>

text \<open>
  \<open>c_str\<close> is what a C function sees of a \<^verbatim>\<open>std::string\<close>: the bytes before the first
  NUL. \<open>snprintf\<close> on a buffer of \<open>n\<close> bytes keeps at most \<open>n - 1\<close> characters of
  the formatted text. \<open>to_string\<close> is \<^verbatim>\<open>std::to_string\<close> (and \<^verbatim>\<open>%u\<close>, \<^verbatim>\<open>%d\<close>) on a
  non-negative value, \<open>hex_string\<close> is \<^verbatim>\<open>%x\<close>.
\<close>

definition c_str :: "string \<Rightarrow> string" where
  "c_str s = takeWhile (\<lambda>c. c \<noteq> CHR 0x00) s"

definition snprintf :: "nat \<Rightarrow> string \<Rightarrow> string" where
  "snprintf n s = take (n - 1) s"

definition digit_char :: "nat \<Rightarrow> char" where
  "digit_char d = (if d < 16 then ''0123456789abcdef'' ! d else CHR ''?'')"

function to_string :: "nat \<Rightarrow> string" where
  "to_string n = (if n < 10 then [digit_char n] else to_string (n div 10) @ [digit_char (n mod 10)])"
  by pat_completeness auto
termination
  by (relation "measure id") auto

function hex_string :: "nat \<Rightarrow> string" where
  "hex_string n = (if n < 16 then [digit_char n] else hex_string (n div 16) @ [digit_char (n mod 16)])"
  by pat_completeness auto
termination
  by (relation "measure id") auto

declare to_string.simps [simp del]
declare hex_string.simps [simp del]

definition to_string_int :: "int \<Rightarrow> string" where
  "to_string_int i = (if i < 0 then CHR ''-'' # to_string (nat (- i)) else to_string (nat i))"

section \<open>The configuration record\<close>

text \<open>
  \<^verbatim>\<open>mount_t\<close>, \<^verbatim>\<open>isDir_t\<close>, \<^verbatim>\<open>ns_mode_t\<close> and \<^verbatim>\<open>nsjconf_t\<close> are declared in
  \<^verbatim>\<open>nsjail.h\<close>/\<^verbatim>\<open>mnt.h\<close>; the fields below are the ones the two source files read or
  write, with the widths their uses show (\<^verbatim>\<open>uintptr_t flags\<close>, \<^verbatim>\<open>(size_t)0\<close>, \<^verbatim>\<open>0U\<close>,
  \<^verbatim>\<open>%u\<close>, \<^verbatim>\<open>%x\<close>). An \<^verbatim>\<open>isDir_t\<close> is a C enum and can hold a value that is none of
  its three enumerators, which \<^verbatim>\<open>addMountPt\<close> handles in its \<^verbatim>\<open>default:\<close> branch:
  \<open>NS_DIR_INVALID\<close> stands for any such value.
\<close>

datatype isDir_t = NS_DIR_NO | NS_DIR_YES | NS_DIR_MAYBE | NS_DIR_INVALID int

datatype ns_mode_t =
  MODE_LISTEN_TCP | MODE_STANDALONE_ONCE | MODE_STANDALONE_EXECVE | MODE_STANDALONE_RERUN

record mount_t =
  src :: string
  src_content :: string
  dst :: string
  fs_type :: string
  options :: string
  flags :: "64 word"
  is_dir :: bool
  is_symlink :: bool
  is_mandatory :: bool
  mounted :: bool

record nsjconf_t =
  mode :: ns_mode_t
  clone_newns :: bool
  chroot :: string
  cwd :: string
  orig_uid :: "32 word"
  mountpts :: "mount_t list"
  cgroup_mem_mount :: string
  cgroup_mem_parent :: string
  cgroup_mem_max :: "64 word"
  cgroup_pids_mount :: string
  cgroup_pids_parent :: string
  cgroup_pids_max :: "32 word"
  cgroup_net_cls_mount :: string
  cgroup_net_cls_parent :: string
  cgroup_net_cls_classid :: "32 word"
  cgroup_cpu_mount :: string
  cgroup_cpu_parent :: string
  cgroup_cpu_ms_per_sec :: "32 word"

section \<open>cgroup.cc\<close>

text \<open>
  The four installers. Each builds its group path with \<^verbatim>\<open>snprintf\<close> into a
  \<^verbatim>\<open>PATH_MAX\<close> buffer, creates the directory with mode 0700 (448), tolerating
  \<^verbatim>\<open>EEXIST\<close>, and pokes the control files with \<^verbatim>\<open>util::writeBufToFile\<close>.
  \<open>cgroup_path\<close> is the \<^verbatim>\<open>"%s/%s/NSJAIL.%d"\<close> format the four share.
\<close>

definition cgroup_path :: "string \<Rightarrow> string \<Rightarrow> int \<Rightarrow> string" where
  "cgroup_path mnt parent pid =
     snprintf PATH_MAX (c_str mnt @ ''/'' @ c_str parent @ ''/NSJAIL.'' @ to_string_int pid)"

definition initNsFromParentMem :: "kernel \<Rightarrow> nsjconf_t \<Rightarrow> int \<Rightarrow> proc \<Rightarrow> bool \<times> proc" where
  "initNsFromParentMem k nsjconf pid s0 =
     (if cgroup_mem_max nsjconf = 0 then (True, s0)
      else
        let mem_cgroup_path = cgroup_path (cgroup_mem_mount nsjconf) (cgroup_mem_parent nsjconf) pid;
            (a1, s1) = sys k (SYS_mkdir mem_cgroup_path 448) s0
        in if ret a1 = - 1 \<and> errno a1 \<noteq> EEXIST then (False, s1)
        else
          let mem_max_str = to_string (unat (cgroup_mem_max nsjconf));
              fname = snprintf PATH_MAX (mem_cgroup_path @ ''/memory.limit_in_bytes'');
              (a2, s2) = sys k (UTIL_writeBufToFile fname mem_max_str (O_WRONLY OR O_CLOEXEC)) s1
          in if \<not> truthy a2 then (False, s2)
          else
            let fname = snprintf PATH_MAX (mem_cgroup_path @ ''/memory.oom_control'');
                (a3, s3) = sys k (UTIL_writeBufToFile fname ''0'' (O_WRONLY OR O_CLOEXEC)) s2
            in if \<not> truthy a3 then (False, s3)
            else
              let pid_str = to_string_int pid;
                  fname = snprintf PATH_MAX (mem_cgroup_path @ ''/tasks'');
                  (a4, s4) = sys k (UTIL_writeBufToFile fname pid_str (O_WRONLY OR O_CLOEXEC)) s3
              in if \<not> truthy a4 then (False, s4) else (True, s4))"

definition initNsFromParentPids :: "kernel \<Rightarrow> nsjconf_t \<Rightarrow> int \<Rightarrow> proc \<Rightarrow> bool \<times> proc" where
  "initNsFromParentPids k nsjconf pid s0 =
     (if cgroup_pids_max nsjconf = 0 then (True, s0)
      else
        let pids_cgroup_path = cgroup_path (cgroup_pids_mount nsjconf) (cgroup_pids_parent nsjconf) pid;
            (a1, s1) = sys k (SYS_mkdir pids_cgroup_path 448) s0
        in if ret a1 = - 1 \<and> errno a1 \<noteq> EEXIST then (False, s1)
        else
          let pids_max_str = to_string (unat (cgroup_pids_max nsjconf));
              fname = snprintf PATH_MAX (pids_cgroup_path @ ''/pids.max'');
              (a2, s2) = sys k (UTIL_writeBufToFile fname pids_max_str (O_WRONLY OR O_CLOEXEC)) s1
          in if \<not> truthy a2 then (False, s2)
          else
            let pid_str = to_string_int pid;
                fname = snprintf PATH_MAX (pids_cgroup_path @ ''/tasks'');
                (a3, s3) = sys k (UTIL_writeBufToFile fname pid_str (O_WRONLY OR O_CLOEXEC)) s2
            in if \<not> truthy a3 then (False, s3) else (True, s3))"

definition initNsFromParentNetCls :: "kernel \<Rightarrow> nsjconf_t \<Rightarrow> int \<Rightarrow> proc \<Rightarrow> bool \<times> proc" where
  "initNsFromParentNetCls k nsjconf pid s0 =
     (if cgroup_net_cls_classid nsjconf = 0 then (True, s0)
      else
        let net_cls_cgroup_path =
              cgroup_path (cgroup_net_cls_mount nsjconf) (cgroup_net_cls_parent nsjconf) pid;
            (a1, s1) = sys k (SYS_mkdir net_cls_cgroup_path 448) s0
        in if ret a1 = - 1 \<and> errno a1 \<noteq> EEXIST then (False, s1)
        else
          let net_cls_classid_str =
                snprintf 512 (''0x'' @ hex_string (unat (cgroup_net_cls_classid nsjconf)));
              fname = snprintf PATH_MAX (net_cls_cgroup_path @ ''/net_cls.classid'');
              (a2, s2) = sys k (UTIL_writeBufToFile fname net_cls_classid_str (O_WRONLY OR O_CLOEXEC)) s1
          in if \<not> truthy a2 then (False, s2)
          else
            let pid_str = to_string_int pid;
                fname = snprintf PATH_MAX (net_cls_cgroup_path @ ''/tasks'');
                (a3, s3) = sys k (UTIL_writeBufToFile fname pid_str (O_WRONLY OR O_CLOEXEC)) s2
            in if \<not> truthy a3 then (False, s3) else (True, s3))"

text \<open>The quota is \<^verbatim>\<open>cgroup_cpu_ms_per_sec * 1000U\<close>, a product of \<^verbatim>\<open>unsigned int\<close>: it wraps.\<close>

definition initNsFromParentCpu :: "kernel \<Rightarrow> nsjconf_t \<Rightarrow> int \<Rightarrow> proc \<Rightarrow> bool \<times> proc" where
  "initNsFromParentCpu k nsjconf pid s0 =
     (if cgroup_cpu_ms_per_sec nsjconf = 0 then (True, s0)
      else
        let cpu_cgroup_path = cgroup_path (cgroup_cpu_mount nsjconf) (cgroup_cpu_parent nsjconf) pid;
            (a1, s1) = sys k (SYS_mkdir cpu_cgroup_path 448) s0
        in if ret a1 = - 1 \<and> errno a1 \<noteq> EEXIST then (False, s1)
        else
          let cpu_ms_per_sec_str =
                snprintf 512 (to_string (unat (cgroup_cpu_ms_per_sec nsjconf * 1000)));
              fname = snprintf PATH_MAX (cpu_cgroup_path @ ''/cpu.cfs_quota_us'');
              (a2, s2) = sys k (UTIL_writeBufToFile fname cpu_ms_per_sec_str (O_WRONLY OR O_CLOEXEC)) s1
          in if \<not> truthy a2 then (False, s2)
          else
            let cpu_period_us = ''1000000'';
                fname = snprintf PATH_MAX (cpu_cgroup_path @ ''/cpu.cfs_period_us'');
                (a3, s3) = sys k (UTIL_writeBufToFile fname cpu_period_us (O_WRONLY OR O_CLOEXEC)) s2
            in if \<not> truthy a3 then (False, s3)
            else
              let pid_str = to_string_int pid;
                  fname = snprintf PATH_MAX (cpu_cgroup_path @ ''/tasks'');
                  (a4, s4) = sys k (UTIL_writeBufToFile fname pid_str (O_WRONLY OR O_CLOEXEC)) s3
              in if \<not> truthy a4 then (False, s4) else (True, s4))"

definition initNsFromParent :: "kernel \<Rightarrow> nsjconf_t \<Rightarrow> int \<Rightarrow> proc \<Rightarrow> bool \<times> proc" where
  "initNsFromParent k nsjconf pid s0 =
     (let (r1, s1) = initNsFromParentMem k nsjconf pid s0 in
      if \<not> r1 then (False, s1)
      else
        let (r2, s2) = initNsFromParentPids k nsjconf pid s1 in
        if \<not> r2 then (False, s2)
        else
          let (r3, s3) = initNsFromParentNetCls k nsjconf pid s2 in
          if \<not> r3 then (False, s3)
          else
            let (r4, s4) = initNsFromParentCpu k nsjconf pid s3 in
            if \<not> r4 then (False, s4) else (True, s4))"

section \<open>mnt.cc\<close>

subsection \<open>Mount flags and the flag formatter\<close>

text \<open>The \<^verbatim>\<open>MS_*\<close> values of \<^verbatim>\<open><sys/mount.h>\<close> and the \<^verbatim>\<open>ST_*\<close> values of \<^verbatim>\<open><sys/statvfs.h>\<close>.\<close>

definition MS_RDONLY :: "64 word" where "MS_RDONLY = 1"
definition MS_NOSUID :: "64 word" where "MS_NOSUID = 2"
definition MS_NODEV :: "64 word" where "MS_NODEV = 4"
definition MS_NOEXEC :: "64 word" where "MS_NOEXEC = 8"
definition MS_SYNCHRONOUS :: "64 word" where "MS_SYNCHRONOUS = 16"
definition MS_REMOUNT :: "64 word" where "MS_REMOUNT = 32"
definition MS_MANDLOCK :: "64 word" where "MS_MANDLOCK = 64"
definition MS_DIRSYNC :: "64 word" where "MS_DIRSYNC = 128"
definition MS_NOATIME :: "64 word" where "MS_NOATIME = 1024"
definition MS_NODIRATIME :: "64 word" where "MS_NODIRATIME = 2048"
definition MS_BIND :: "64 word" where "MS_BIND = 4096"
definition MS_MOVE :: "64 word" where "MS_MOVE = 8192"
definition MS_REC :: "64 word" where "MS_REC = 16384"
definition MS_SILENT :: "64 word" where "MS_SILENT = 32768"
definition MS_POSIXACL :: "64 word" where "MS_POSIXACL = 65536"
definition MS_UNBINDABLE :: "64 word" where "MS_UNBINDABLE = 131072"
definition MS_PRIVATE :: "64 word" where "MS_PRIVATE = 262144"
definition MS_SLAVE :: "64 word" where "MS_SLAVE = 524288"
definition MS_SHARED :: "64 word" where "MS_SHARED = 1048576"
definition MS_RELATIME :: "64 word" where "MS_RELATIME = 2097152"
definition MS_KERNMOUNT :: "64 word" where "MS_KERNMOUNT = 4194304"
definition MS_I_VERSION :: "64 word" where "MS_I_VERSION = 8388608"
definition MS_STRICTATIME :: "64 word" where "MS_STRICTATIME = 16777216"
definition MS_LAZYTIME :: "64 word" where "MS_LAZYTIME = 33554432"

definition ST_RDONLY :: "64 word" where "ST_RDONLY = 1"
definition ST_NOSUID :: "64 word" where "ST_NOSUID = 2"
definition ST_NODEV :: "64 word" where "ST_NODEV = 4"
definition ST_NOEXEC :: "64 word" where "ST_NOEXEC = 8"
definition ST_SYNCHRONOUS :: "64 word" where "ST_SYNCHRONOUS = 16"
definition ST_MANDLOCK :: "64 word" where "ST_MANDLOCK = 64"
definition ST_NOATIME :: "64 word" where "ST_NOATIME = 1024"
definition ST_NODIRATIME :: "64 word" where "ST_NODIRATIME = 2048"
definition ST_RELATIME :: "64 word" where "ST_RELATIME = 4096"

text \<open>
  Modelled from the spec: \<^verbatim>\<open>NS_VALSTR_STRUCT\<close> is a macro of \<^verbatim>\<open>macros.h\<close>, which is not
  among the sources; the spec describes the table it builds as pairs (bitmask, name), the
  name being the flag's identifier.
\<close>

definition mountFlags :: "(64 word \<times> string) list" where
  "mountFlags =
     [(MS_RDONLY, ''MS_RDONLY''), (MS_NOSUID, ''MS_NOSUID''), (MS_NODEV, ''MS_NODEV''),
      (MS_NOEXEC, ''MS_NOEXEC''), (MS_SYNCHRONOUS, ''MS_SYNCHRONOUS''),
      (MS_REMOUNT, ''MS_REMOUNT''), (MS_MANDLOCK, ''MS_MANDLOCK''), (MS_DIRSYNC, ''MS_DIRSYNC''),
      (MS_NOATIME, ''MS_NOATIME''), (MS_NODIRATIME, ''MS_NODIRATIME''), (MS_BIND, ''MS_BIND''),
      (MS_MOVE, ''MS_MOVE''), (MS_REC, ''MS_REC''), (MS_SILENT, ''MS_SILENT''),
      (MS_POSIXACL, ''MS_POSIXACL''), (MS_UNBINDABLE, ''MS_UNBINDABLE''),
      (MS_PRIVATE, ''MS_PRIVATE''), (MS_SLAVE, ''MS_SLAVE''), (MS_SHARED, ''MS_SHARED''),
      (MS_RELATIME, ''MS_RELATIME''), (MS_KERNMOUNT, ''MS_KERNMOUNT''),
      (MS_I_VERSION, ''MS_I_VERSION''), (MS_STRICTATIME, ''MS_STRICTATIME''),
      (MS_LAZYTIME, ''MS_LAZYTIME'')]"

text \<open>
  The loop of \<^verbatim>\<open>flagsToStr\<close> over the table, carrying \<^verbatim>\<open>res\<close> and
  \<^verbatim>\<open>knownFlagMask\<close>.
\<close>

fun flagsToStr_loop ::
  "64 word \<Rightarrow> (64 word \<times> string) list \<Rightarrow> string \<Rightarrow> 64 word \<Rightarrow> string \<times> 64 word" where
  "flagsToStr_loop fl [] res knownFlagMask = (res, knownFlagMask)"
| "flagsToStr_loop fl ((flag, name) # rest) res knownFlagMask =
     flagsToStr_loop fl rest
       (if fl AND flag \<noteq> 0 then res @ name @ ''|'' else res)
       (knownFlagMask OR flag)"

text \<open>
  \<^verbatim>\<open>"%#tx"\<close>: hexadecimal in the alternate form, which prefixes \<^verbatim>\<open>0x\<close> to a non-zero
  value and prints zero as \<^verbatim>\<open>0\<close>.
\<close>

definition fmt_alt_hex :: "64 word \<Rightarrow> string" where
  "fmt_alt_hex v = (if v = 0 then ''0'' else ''0x'' @ hex_string (unat v))"

definition flagsToStr :: "64 word \<Rightarrow> string" where
  "flagsToStr fl =
     (let (res, knownFlagMask) = flagsToStr_loop fl mountFlags [] 0 in
      if fl AND NOT knownFlagMask = 0 \<and> res \<noteq> [] then butlast res
      else res @ fmt_alt_hex (fl AND NOT knownFlagMask))"

subsection \<open>Probing and mounting one descriptor\<close>

text \<open>\<^verbatim>\<open>S_ISDIR(m)\<close> is \<^verbatim>\<open>(m & S_IFMT) == S_IFDIR\<close>; a \<^verbatim>\<open>NULL\<close> path is \<open>None\<close>.\<close>

definition S_ISDIR :: "nat \<Rightarrow> bool" where
  "S_ISDIR m = (m AND 61440 = 16384)"

definition isDir :: "kernel \<Rightarrow> string option \<Rightarrow> proc \<Rightarrow> bool \<times> proc" where
  "isDir k path s0 =
     (case path of
        None \<Rightarrow> (True, s0)
      | Some p \<Rightarrow>
          let (a1, s1) = sys k (SYS_stat p) s0 in
          if ret a1 = - 1 then (False, s1)
          else if S_ISDIR (outv a1) then (True, s1)
          else (False, s1))"

text \<open>
  Lines 191--220 of \<^verbatim>\<open>mountPt\<close>: the mount call itself, with the source path that the
  earlier part has settled on. Modes are 0711 = 457 and 0644 = 420.
\<close>

definition mountPt_mount ::
  "kernel \<Rightarrow> mount_t \<Rightarrow> string \<Rightarrow> string \<Rightarrow> proc \<Rightarrow> (bool \<times> mount_t) \<times> proc" where
  "mountPt_mount k mpt srcpath dstpath s0 =
     (let flags' = flags mpt AND NOT MS_RDONLY;
          (a1, s1) = sys k (SYS_mount (Some srcpath) dstpath (Some (c_str (fs_type mpt))) flags'
                              (Some (c_str (options mpt)))) s0
      in if ret a1 = - 1 then ((False, mpt), s1)
         else
           let mpt = mpt\<lparr>mounted := True\<rparr>;
               s2 = (if src_content mpt \<noteq> [] then snd (sys k (SYS_unlink srcpath) s1) else s1)
           in ((True, mpt), s2))"

definition mountPt ::
  "kernel \<Rightarrow> mount_t \<Rightarrow> string \<Rightarrow> string \<Rightarrow> proc \<Rightarrow> (bool \<times> mount_t) \<times> proc" where
  "mountPt k mpt newroot tmpdir s0 =
     (let dstpath = snprintf PATH_MAX (newroot @ ''/'' @ c_str (dst mpt));
          srcpath = (if src mpt \<noteq> [] then snprintf PATH_MAX (c_str (src mpt))
                     else snprintf PATH_MAX ''none'');
          (a1, s1) = sys k (UTIL_createDirRecursively dstpath) s0
      in if \<not> truthy a1 then ((False, mpt), s1)
         else if is_symlink mpt then
           (let (a2, s2) = sys k (SYS_symlink srcpath dstpath) s1 in
            if ret a2 = - 1 then
              (if is_mandatory mpt then ((False, mpt), s2) else ((True, mpt), s2))
            else ((True, mpt), s2))
         else
           let s3 = (if is_dir mpt then snd (sys k (SYS_mkdir dstpath 457) s1)
                     else
                       let (a, s) = sys k (SYS_open dstpath (O_CREAT OR O_RDONLY OR O_CLOEXEC) 420) s1 in
                       if ret a \<ge> 0 then snd (sys k (SYS_close (ret a)) s) else s)
           in if src_content mpt \<noteq> [] then
                (let s4 = s3\<lparr>df_counter := df_counter s3 + 1\<rparr>;
                     srcpath = snprintf PATH_MAX
                                 (tmpdir @ ''/dynamic_file.'' @ to_string (unat (df_counter s4)));
                     (a5, s5) = sys k (SYS_open srcpath (O_CREAT OR O_EXCL OR O_CLOEXEC OR O_WRONLY) 420) s4;
                     fd = ret a5
                 in if fd < 0 then ((False, mpt), s5)
                    else
                      let (a6, s6) = sys k (UTIL_writeToFd fd (src_content mpt)) s5 in
                      if \<not> truthy a6 then ((False, mpt), snd (sys k (SYS_close fd) s6))
                      else
                        let s7 = snd (sys k (SYS_close fd) s6);
                            mpt = mpt\<lparr>flags := flags mpt OR (MS_BIND OR MS_REC OR MS_PRIVATE)\<rparr>
                        in mountPt_mount k mpt srcpath dstpath s7)
              else mountPt_mount k mpt srcpath dstpath s3)"

text \<open>The table and the loop of \<^verbatim>\<open>remountRO\<close>, carrying \<^verbatim>\<open>new_flags\<close>.\<close>

definition mountPairs :: "(64 word \<times> 64 word) list" where
  "mountPairs =
     [(MS_RDONLY, ST_RDONLY), (MS_NOSUID, ST_NOSUID), (MS_NODEV, ST_NODEV),
      (MS_NOEXEC, ST_NOEXEC), (MS_SYNCHRONOUS, ST_SYNCHRONOUS), (MS_MANDLOCK, ST_MANDLOCK),
      (MS_NOATIME, ST_NOATIME), (MS_NODIRATIME, ST_NODIRATIME), (MS_RELATIME, ST_RELATIME)]"

fun remountRO_loop :: "64 word \<Rightarrow> (64 word \<times> 64 word) list \<Rightarrow> 64 word \<Rightarrow> 64 word" where
  "remountRO_loop f_flag [] new_flags = new_flags"
| "remountRO_loop f_flag ((mount_flag, vfs_flag) # rest) new_flags =
     remountRO_loop f_flag rest
       (if f_flag AND vfs_flag \<noteq> 0 then new_flags OR mount_flag else new_flags)"

definition remountRO :: "kernel \<Rightarrow> mount_t \<Rightarrow> proc \<Rightarrow> bool \<times> proc" where
  "remountRO k mpt s0 =
     (if \<not> mounted mpt then (True, s0)
      else if is_symlink mpt then (True, s0)
      else if flags mpt AND MS_RDONLY = 0 then (True, s0)
      else
        let (a1, s1) = sys k (SYS_statvfs (c_str (dst mpt))) s0 in
        if ret a1 = - 1 then (False, s1)
        else
          let new_flags = remountRO_loop (word_of_nat (outv a1)) mountPairs
                            (MS_REMOUNT OR MS_RDONLY OR MS_BIND);
              (a2, s2) = sys k (SYS_mount (Some (c_str (dst mpt))) (c_str (dst mpt)) None new_flags None) s1
          in if ret a2 = - 1 then (False, s2) else (True, s2))"

subsection \<open>Scratch directories\<close>

text \<open>
  \<^verbatim>\<open>getenv\<close> reads the process environment, which nothing here changes: it is a
  parameter \<open>env\<close>. What it returns, and the \<^verbatim>\<open>name\<close> of \<^verbatim>\<open>getDir\<close>, is a
  \<^verbatim>\<open>const char*\<close>: a \<^verbatim>\<open>std::string\<close> takes its characters up to the first NUL.
  Mode 0755 is 493. \<open>getDir_last\<close> is lines 314--332 of \<^verbatim>\<open>getDir\<close>,
  which run whether or not \<^verbatim>\<open>TMPDIR\<close> is set.
\<close>

type_synonym environ = "string \<Rightarrow> string option"

definition mkdirAndTest :: "kernel \<Rightarrow> string \<Rightarrow> proc \<Rightarrow> bool \<times> proc" where
  "mkdirAndTest k dir s0 =
     (let (a1, s1) = sys k (SYS_mkdir (c_str dir) 493) s0 in
      if ret a1 = - 1 \<and> errno a1 \<noteq> EEXIST then (False, s1)
      else
        let (a2, s2) = sys k (SYS_access (c_str dir) R_OK) s1 in
        if ret a2 = - 1 then (False, s2) else (True, s2))"

definition getDir_last :: "kernel \<Rightarrow> nsjconf_t \<Rightarrow> string \<Rightarrow> proc \<Rightarrow> string option \<times> proc" where
  "getDir_last k nsjconf name s0 =
     (let dir = ''/dev/shm/nsjail.'' @ to_string (unat (orig_uid nsjconf)) @ ''.'' @ c_str name;
          (r1, s1) = mkdirAndTest k dir s0
      in if r1 then (Some dir, s1)
         else
           let (a2, s2) = sys k UTIL_rnd64 s1;
               rnd = (word_of_nat (outv a2) :: 64 word);
               dir = ''/tmp/nsjail.'' @ to_string (unat (orig_uid nsjconf)) @ ''.'' @ c_str name @ ''.''
                       @ to_string (unat rnd);
               (r3, s3) = mkdirAndTest k dir s2
           in if r3 then (Some dir, s3) else (None, s3))"

definition getDir :: "kernel \<Rightarrow> environ \<Rightarrow> nsjconf_t \<Rightarrow> string \<Rightarrow> proc \<Rightarrow> string option \<times> proc" where
  "getDir k env nsjconf name s0 =
     (let dir = ''/run/user/'' @ ''/nsjail.'' @ to_string (unat (orig_uid nsjconf)) @ ''.'' @ c_str name;
          (r1, s1) = mkdirAndTest k dir s0
      in if r1 then (Some dir, s1)
         else
           let dir = ''/tmp/nsjail.'' @ to_string (unat (orig_uid nsjconf)) @ ''.'' @ c_str name;
               (r2, s2) = mkdirAndTest k dir s1
           in if r2 then (Some dir, s2)
              else
                (case env ''TMPDIR'' of
                   Some tmp \<Rightarrow>
                     let dir = c_str tmp @ ''/'' @ ''nsjail.'' @ to_string (unat (orig_uid nsjconf)) @ ''.''
                                 @ c_str name;
                         (r3, s3) = mkdirAndTest k dir s2
                     in if r3 then (Some dir, s3) else getDir_last k nsjconf name s3
                 | None \<Rightarrow> getDir_last k nsjconf name s2))"

subsection \<open>Building the namespace\<close>

text \<open>
  \<^verbatim>\<open>initNsInternal\<close> is one long function; the embedding names its stretches.
  \<open>initNsInternal_chroot\<close> is the branch taken without \<^verbatim>\<open>CLONE_NEWNS\<close> (lines
  340--356); \<open>initNsInternal_setup\<close> is lines 358--387 and yields \<^verbatim>\<open>destdir\<close> and
  \<^verbatim>\<open>tmpdir\<close>; \<open>mountPts_loop\<close> is the loop of lines 389--393, which updates the
  descriptors in place; \<open>initNsInternal_pivot\<close> is lines 395--418; \<open>remountRO_pass\<close> is
  the loop of lines 420--424.
\<close>

definition initNsInternal_chroot :: "kernel \<Rightarrow> nsjconf_t \<Rightarrow> proc \<Rightarrow> bool \<times> proc" where
  "initNsInternal_chroot k nsjconf s0 =
     (if chroot nsjconf = [] then (False, s0)
      else
        let (a1, s1) = sys k (SYS_chroot (c_str (chroot nsjconf))) s0 in
        if ret a1 = - 1 then (False, s1)
        else
          let (a2, s2) = sys k (SYS_chdir ''/'') s1 in
          if ret a2 = - 1 then (False, s2) else (True, s2))"

definition initNsInternal_setup ::
  "kernel \<Rightarrow> environ \<Rightarrow> nsjconf_t \<Rightarrow> proc \<Rightarrow> (string \<times> string) option \<times> proc" where
  "initNsInternal_setup k env nsjconf s0 =
     (let (a1, s1) = sys k (SYS_chdir ''/'') s0 in
      if ret a1 = - 1 then (None, s1)
      else
        let (destdir, s2) = getDir k env nsjconf ''root'' s1 in
        case destdir of
          None \<Rightarrow> (None, s2)
        | Some destdir \<Rightarrow>
            let (a3, s3) = sys k (SYS_mount (Some ''/'') ''/'' None (MS_REC OR MS_PRIVATE) None) s2 in
            if ret a3 = - 1 then (None, s3)
            else
              let (a4, s4) = sys k (SYS_mount None (c_str destdir) (Some ''tmpfs'') 0
                                      (Some ''size=16777216'')) s3 in
              if ret a4 = - 1 then (None, s4)
              else
                let (tmpdir, s5) = getDir k env nsjconf ''tmp'' s4 in
                case tmpdir of
                  None \<Rightarrow> (None, s5)
                | Some tmpdir \<Rightarrow>
                    let (a6, s6) = sys k (SYS_mount None (c_str tmpdir) (Some ''tmpfs'') 0
                                            (Some ''size=16777216'')) s5 in
                    if ret a6 = - 1 then (None, s6) else (Some (destdir, tmpdir), s6))"

fun mountPts_loop ::
  "kernel \<Rightarrow> string \<Rightarrow> string \<Rightarrow> mount_t list \<Rightarrow> proc \<Rightarrow> (bool \<times> mount_t list) \<times> proc" where
  "mountPts_loop k newroot tmpdir [] s0 = ((True, []), s0)"
| "mountPts_loop k newroot tmpdir (p # ps) s0 =
     (let ((r, p'), s1) = mountPt k p newroot tmpdir s0 in
      if \<not> r \<and> is_mandatory p' then ((False, p' # ps), s1)
      else
        let ((r', ps'), s2) = mountPts_loop k newroot tmpdir ps s1 in
        ((r', p' # ps'), s2))"

definition initNsInternal_pivot ::
  "kernel \<Rightarrow> nsjconf_t \<Rightarrow> string \<Rightarrow> string \<Rightarrow> proc \<Rightarrow> bool \<times> proc" where
  "initNsInternal_pivot k nsjconf destdir tmpdir s0 =
     (let (a1, s1) = sys k (SYS_umount2 (c_str tmpdir) MNT_DETACH) s0 in
      if ret a1 = - 1 then (False, s1)
      else
        let (a2, s2) = sys k (SYS_pivot_root (c_str destdir) (c_str destdir)) s1 in
        if ret a2 = - 1 then (False, s2)
        else
          let (a3, s3) = sys k (SYS_umount2 ''/'' MNT_DETACH) s2 in
          if ret a3 = - 1 then (False, s3)
          else
            let (a4, s4) = sys k (SYS_chdir (c_str (cwd nsjconf))) s3 in
            if ret a4 = - 1 then (False, s4) else (True, s4))"

fun remountRO_pass :: "kernel \<Rightarrow> mount_t list \<Rightarrow> proc \<Rightarrow> bool \<times> proc" where
  "remountRO_pass k [] s0 = (True, s0)"
| "remountRO_pass k (p # ps) s0 =
     (let (r, s1) = remountRO k p s0 in
      if \<not> r \<and> is_mandatory p then (False, s1) else remountRO_pass k ps s1)"

definition initNsInternal ::
  "kernel \<Rightarrow> environ \<Rightarrow> nsjconf_t \<Rightarrow> proc \<Rightarrow> (bool \<times> nsjconf_t) \<times> proc" where
  "initNsInternal k env nsjconf s0 =
     (if \<not> clone_newns nsjconf then
        (let (r, s1) = initNsInternal_chroot k nsjconf s0 in ((r, nsjconf), s1))
      else
        let (dirs, s1) = initNsInternal_setup k env nsjconf s0 in
        case dirs of
          None \<Rightarrow> ((False, nsjconf), s1)
        | Some (destdir, tmpdir) \<Rightarrow>
            let ((r2, mpts), s2) = mountPts_loop k (c_str destdir) (c_str tmpdir) (mountpts nsjconf) s1;
                nsjconf = nsjconf\<lparr>mountpts := mpts\<rparr>
            in if \<not> r2 then ((False, nsjconf), s2)
               else
                 let (r3, s3) = initNsInternal_pivot k nsjconf destdir tmpdir s2 in
                 if \<not> r3 then ((False, nsjconf), s3)
                 else
                   let (r4, s4) = remountRO_pass k (mountpts nsjconf) s3 in
                   ((r4, nsjconf), s4))"

text \<open>
  \<^verbatim>\<open>initNs\<close>. A process that calls \<^verbatim>\<open>exit\<close> does not return: the outcome of the call is
  either the returned boolean or the exit code. The sub-child gets its own copy of the
  configuration (the clone shares the filesystem context, not memory), so what the parent
  returns leaves \<^verbatim>\<open>nsjconf\<close> as it was. The \<^verbatim>\<open>wait4\<close> loop runs until the call returns
  \<^verbatim>\<open>pid\<close>, which may be never. \<^verbatim>\<open>WIFEXITED\<close> and \<^verbatim>\<open>WEXITSTATUS\<close> are the macros of
  \<^verbatim>\<open><sys/wait.h>\<close>.
\<close>

datatype outcome = Returned bool | Exited nat

definition WIFEXITED :: "nat \<Rightarrow> bool" where
  "WIFEXITED status = (status AND 127 = 0)"

definition WEXITSTATUS :: "nat \<Rightarrow> nat" where
  "WEXITSTATUS status = drop_bit 8 (status AND 65280)"

partial_function (option) wait4_loop :: "kernel \<Rightarrow> int \<Rightarrow> proc \<Rightarrow> (nat \<times> proc) option" where
  "wait4_loop k pid s0 =
     (case sys k (SYS_wait4 pid 0) s0 of
        (a1, s1) \<Rightarrow> if ret a1 \<noteq> pid then wait4_loop k pid s1 else Some (outv a1, s1))"

definition initNs ::
  "kernel \<Rightarrow> environ \<Rightarrow> nsjconf_t \<Rightarrow> proc \<Rightarrow> ((outcome \<times> nsjconf_t) \<times> proc) option" where
  "initNs k env nsjconf s0 =
     (if mode nsjconf \<noteq> MODE_STANDALONE_EXECVE then
        (let ((r, nsjconf'), s1) = initNsInternal k env nsjconf s0 in
         Some ((Returned r, nsjconf'), s1))
      else
        let (a1, s1) = sys k (SUBPROC_cloneProc (CLONE_FS OR SIGCHLD)) s0;
            pid = ret a1
        in if pid = - 1 then Some ((Returned False, nsjconf), s1)
           else if pid = 0 then
             (let ((r, nsjconf'), s2) = initNsInternal k env nsjconf s1 in
              Some ((Exited (if r then 0 else 255), nsjconf'), s2))
           else
             (case wait4_loop k pid s1 of
                None \<Rightarrow> None
              | Some (status, s2) \<Rightarrow>
                  if WIFEXITED status \<and> WEXITSTATUS status = 0
                  then Some ((Returned True, nsjconf), s2)
                  else Some ((Returned False, nsjconf), s2)))"

subsection \<open>Adding descriptors\<close>

text \<open>
  The parameters of \<^verbatim>\<open>addMountPt\<close> that share a name with a field of \<^verbatim>\<open>mount_t\<close> carry
  a prime here. A named environment variable replaces the string (with the characters of the
  \<^verbatim>\<open>const char*\<close> that \<^verbatim>\<open>getenv\<close> returns) before the parameter is appended; without
  one the string is kept. \<open>mount_t_new\<close> is the default-constructed \<^verbatim>\<open>mount_t mnt;\<close> of
  \<^verbatim>\<open>addMountPtHead\<close> and \<^verbatim>\<open>addMountPtTail\<close>: its strings are empty; its scalar fields
  are indeterminate in C++ and are all assigned before \<^verbatim>\<open>addMountPt\<close> returns true.
\<close>

definition mount_t_new :: mount_t where
  "mount_t_new = \<lparr>src = [], src_content = [], dst = [], fs_type = [], options = [], flags = 0,
     is_dir = False, is_symlink = False, is_mandatory = False, mounted = False\<rparr>"

definition addMountPt ::
  "kernel \<Rightarrow> environ \<Rightarrow> mount_t \<Rightarrow> string \<Rightarrow> string \<Rightarrow> string \<Rightarrow> string \<Rightarrow> 64 word \<Rightarrow> isDir_t \<Rightarrow> bool
     \<Rightarrow> string \<Rightarrow> string \<Rightarrow> string \<Rightarrow> bool \<Rightarrow> proc \<Rightarrow> (bool \<times> mount_t) \<times> proc" where
  "addMountPt k env mnt src' dst' fstype options' flags' is_dir' is_mandatory' src_env dst_env
       src_content' is_symlink' s0 =
     (case (if src_env \<noteq> [] then map_option c_str (env (c_str src_env)) else Some (src mnt)) of
        None \<Rightarrow> ((False, mnt), s0)
      | Some e \<Rightarrow>
          let mnt = mnt\<lparr>src := e @ src'\<rparr> in
          case (if dst_env \<noteq> [] then map_option c_str (env (c_str dst_env)) else Some (dst mnt)) of
            None \<Rightarrow> ((False, mnt), s0)
          | Some e \<Rightarrow>
             let mnt = mnt\<lparr>dst := e @ dst'\<rparr>;
                 mnt = mnt\<lparr>fs_type := fstype\<rparr>;
                 mnt = mnt\<lparr>options := options'\<rparr>;
                 mnt = mnt\<lparr>flags := flags'\<rparr>;
                 mnt = mnt\<lparr>is_symlink := is_symlink'\<rparr>;
                 mnt = mnt\<lparr>is_mandatory := is_mandatory'\<rparr>;
                 mnt = mnt\<lparr>mounted := False\<rparr>;
                 mnt = mnt\<lparr>src_content := src_content'\<rparr>
             in case is_dir' of
                  NS_DIR_YES \<Rightarrow> ((True, mnt\<lparr>is_dir := True\<rparr>), s0)
                | NS_DIR_NO \<Rightarrow> ((True, mnt\<lparr>is_dir := False\<rparr>), s0)
                | NS_DIR_MAYBE \<Rightarrow>
                    if src_content' \<noteq> [] then ((True, mnt\<lparr>is_dir := False\<rparr>), s0)
                    else if src mnt = [] then ((True, mnt\<lparr>is_dir := True\<rparr>), s0)
                    else if flags mnt AND MS_BIND \<noteq> 0 then
                      (let (r, s1) = isDir k (Some (c_str (src mnt))) s0 in
                       ((True, mnt\<lparr>is_dir := r\<rparr>), s1))
                    else ((True, mnt\<lparr>is_dir := True\<rparr>), s0)
                | NS_DIR_INVALID v \<Rightarrow> ((False, mnt), s0))"

definition addMountPtHead ::
  "kernel \<Rightarrow> environ \<Rightarrow> nsjconf_t \<Rightarrow> string \<Rightarrow> string \<Rightarrow> string \<Rightarrow> string \<Rightarrow> 64 word \<Rightarrow> isDir_t \<Rightarrow> bool
     \<Rightarrow> string \<Rightarrow> string \<Rightarrow> string \<Rightarrow> bool \<Rightarrow> proc \<Rightarrow> (bool \<times> nsjconf_t) \<times> proc" where
  "addMountPtHead k env nsjconf src' dst' fstype options' flags' is_dir' is_mandatory' src_env
       dst_env src_content' is_symlink' s0 =
     (let ((r, mnt), s1) = addMountPt k env mount_t_new src' dst' fstype options' flags' is_dir'
                             is_mandatory' src_env dst_env src_content' is_symlink' s0
      in if \<not> r then ((False, nsjconf), s1)
         else ((True, nsjconf\<lparr>mountpts := mnt # mountpts nsjconf\<rparr>), s1))"

definition addMountPtTail ::
  "kernel \<Rightarrow> environ \<Rightarrow> nsjconf_t \<Rightarrow> string \<Rightarrow> string \<Rightarrow> string \<Rightarrow> string \<Rightarrow> 64 word \<Rightarrow> isDir_t \<Rightarrow> bool
     \<Rightarrow> string \<Rightarrow> string \<Rightarrow> string \<Rightarrow> bool \<Rightarrow> proc \<Rightarrow> (bool \<times> nsjconf_t) \<times> proc" where
  "addMountPtTail k env nsjconf src' dst' fstype options' flags' is_dir' is_mandatory' src_env
       dst_env src_content' is_symlink' s0 =
     (let ((r, mnt), s1) = addMountPt k env mount_t_new src' dst' fstype options' flags' is_dir'
                             is_mandatory' src_env dst_env src_content' is_symlink' s0
      in if \<not> r then ((False, nsjconf), s1)
         else ((True, nsjconf\<lparr>mountpts := mountpts nsjconf @ [mnt]\<rparr>), s1))"

section \<open>Definitions that follow the specification\<close>

text \<open>
  The definitions of this section are not translations of the source: they restate what
  the specification says, in the vocabulary of the embedding, so that the theorems can
  compare the code with it.
\<close>

subsection \<open>The events a function adds\<close>

definition new_events :: "proc \<Rightarrow> proc \<Rightarrow> event list" where
  "new_events s s' = drop (length (history s)) (history s')"

subsection \<open>The cgroup installer as a plan of calls (specification, 4.5)\<close>

text \<open>
  Per controller with a non-zero limit: create \<^verbatim>\<open>mount/parent/NSJAIL.<pid>\<close> with mode
  0700, an existing entry being acceptable; write the limit files; write the pid to
  \<^verbatim>\<open>tasks\<close>. A controller with limit zero contributes nothing. A plan is carried out call
  by call and stops at the first call that fails.
\<close>

definition call_failed :: "event \<Rightarrow> bool" where
  "call_failed e =
     (case fst e of
        SYS_mkdir p m \<Rightarrow> ret (snd e) = - 1 \<and> errno (snd e) \<noteq> EEXIST
      | _ \<Rightarrow> \<not> truthy (snd e))"

fun run_plan :: "kernel \<Rightarrow> call list \<Rightarrow> proc \<Rightarrow> bool \<times> proc" where
  "run_plan k [] s = (True, s)"
| "run_plan k (c # cs) s =
     (let (a, s') = sys k c s in if call_failed (c, a) then (False, s') else run_plan k cs s')"

definition mem_plan :: "nsjconf_t \<Rightarrow> int \<Rightarrow> call list" where
  "mem_plan nsjconf pid =
     (if cgroup_mem_max nsjconf = 0 then []
      else
        let d = cgroup_path (cgroup_mem_mount nsjconf) (cgroup_mem_parent nsjconf) pid in
        [SYS_mkdir d 448,
         UTIL_writeBufToFile (snprintf PATH_MAX (d @ ''/memory.limit_in_bytes''))
           (to_string (unat (cgroup_mem_max nsjconf))) (O_WRONLY OR O_CLOEXEC),
         UTIL_writeBufToFile (snprintf PATH_MAX (d @ ''/memory.oom_control'')) ''0''
           (O_WRONLY OR O_CLOEXEC),
         UTIL_writeBufToFile (snprintf PATH_MAX (d @ ''/tasks'')) (to_string_int pid)
           (O_WRONLY OR O_CLOEXEC)])"

definition pids_plan :: "nsjconf_t \<Rightarrow> int \<Rightarrow> call list" where
  "pids_plan nsjconf pid =
     (if cgroup_pids_max nsjconf = 0 then []
      else
        let d = cgroup_path (cgroup_pids_mount nsjconf) (cgroup_pids_parent nsjconf) pid in
        [SYS_mkdir d 448,
         UTIL_writeBufToFile (snprintf PATH_MAX (d @ ''/pids.max''))
           (to_string (unat (cgroup_pids_max nsjconf))) (O_WRONLY OR O_CLOEXEC),
         UTIL_writeBufToFile (snprintf PATH_MAX (d @ ''/tasks'')) (to_string_int pid)
           (O_WRONLY OR O_CLOEXEC)])"

definition net_cls_plan :: "nsjconf_t \<Rightarrow> int \<Rightarrow> call list" where
  "net_cls_plan nsjconf pid =
     (if cgroup_net_cls_classid nsjconf = 0 then []
      else
        let d = cgroup_path (cgroup_net_cls_mount nsjconf) (cgroup_net_cls_parent nsjconf) pid in
        [SYS_mkdir d 448,
         UTIL_writeBufToFile (snprintf PATH_MAX (d @ ''/net_cls.classid''))
           (snprintf 512 (''0x'' @ hex_string (unat (cgroup_net_cls_classid nsjconf))))
           (O_WRONLY OR O_CLOEXEC),
         UTIL_writeBufToFile (snprintf PATH_MAX (d @ ''/tasks'')) (to_string_int pid)
           (O_WRONLY OR O_CLOEXEC)])"

definition cpu_plan :: "nsjconf_t \<Rightarrow> int \<Rightarrow> call list" where
  "cpu_plan nsjconf pid =
     (if cgroup_cpu_ms_per_sec nsjconf = 0 then []
      else
        let d = cgroup_path (cgroup_cpu_mount nsjconf) (cgroup_cpu_parent nsjconf) pid in
        [SYS_mkdir d 448,
         UTIL_writeBufToFile (snprintf PATH_MAX (d @ ''/cpu.cfs_quota_us''))
           (snprintf 512 (to_string (unat (cgroup_cpu_ms_per_sec nsjconf * 1000))))
           (O_WRONLY OR O_CLOEXEC),
         UTIL_writeBufToFile (snprintf PATH_MAX (d @ ''/cpu.cfs_period_us'')) ''1000000''
           (O_WRONLY OR O_CLOEXEC),
         UTIL_writeBufToFile (snprintf PATH_MAX (d @ ''/tasks'')) (to_string_int pid)
           (O_WRONLY OR O_CLOEXEC)])"

subsection \<open>Kernel mount calls among the events\<close>

definition is_mount :: "call \<Rightarrow> bool" where
  "is_mount c = (case c of SYS_mount sp dp ft fl opts \<Rightarrow> True | _ \<Rightarrow> False)"

definition mount_events :: "event list \<Rightarrow> event list" where
  "mount_events evs = filter (\<lambda>e. is_mount (fst e)) evs"

subsection \<open>The calls that decide the result of applying a descriptor (specification, 4.4.3)\<close>

text \<open>
  Applying a descriptor fails when the parent directories of the destination cannot be
  created, when the symlink of a mandatory descriptor fails, when the staged file cannot be
  opened or written, and when the kernel mount call fails; creating the destination node
  (\<^verbatim>\<open>mkdir\<close>, or \<^verbatim>\<open>open\<close> with create and read-only), \<^verbatim>\<open>close\<close> and \<^verbatim>\<open>unlink\<close> decide
  nothing. \<open>staging_flags\<close> are the flags of the exclusive open of the staged file, which
  tell it from the open that creates the destination.
\<close>

definition staging_flags :: nat where
  "staging_flags = O_CREAT OR O_EXCL OR O_CLOEXEC OR O_WRONLY"

definition checked_call_failed :: "mount_t \<Rightarrow> event \<Rightarrow> bool" where
  "checked_call_failed mpt e =
     (case fst e of
        UTIL_createDirRecursively p \<Rightarrow> \<not> truthy (snd e)
      | SYS_symlink p q \<Rightarrow> ret (snd e) = - 1 \<and> is_mandatory mpt
      | SYS_open p fl m \<Rightarrow> fl = staging_flags \<and> ret (snd e) < 0
      | UTIL_writeToFd fd b \<Rightarrow> \<not> truthy (snd e)
      | SYS_mount sp dp ft fl opts \<Rightarrow> ret (snd e) = - 1
      | _ \<Rightarrow> False)"

text \<open>
  What the re-mount pass reads of a descriptor is the same before and after the mount pass:
  the read-only bit of the flags, the symlink and mandatory marks, and the destination.
\<close>

definition same_for_remount :: "mount_t \<Rightarrow> mount_t \<Rightarrow> bool" where
  "same_for_remount p p' =
     (flags p' AND MS_RDONLY = flags p AND MS_RDONLY \<and> is_symlink p' = is_symlink p
      \<and> is_mandatory p' = is_mandatory p \<and> dst p' = dst p)"

subsection \<open>Reading a rendered flag string (specification, 8)\<close>

text \<open>
  The specification speaks of the output split on \<^verbatim>\<open>|\<close>, of the names of the known flags
  present in the input, and of the bits outside the table.
\<close>

fun split_on :: "char \<Rightarrow> string \<Rightarrow> string list" where
  "split_on c [] = [[]]"
| "split_on c (x # xs) =
     (if x = c then [] # split_on c xs
      else (case split_on c xs of w # ws \<Rightarrow> (x # w) # ws | [] \<Rightarrow> [[x]]))"

definition known_names :: "64 word \<Rightarrow> string list" where
  "known_names fl = map snd (filter (\<lambda>(flag, name). fl AND flag \<noteq> 0) mountFlags)"

definition known_mask :: "64 word" where
  "known_mask = foldr (OR) (map fst mountFlags) 0"

subsection \<open>The scratch-directory chooser (specification, 4.2)\<close>

text \<open>
  The candidates in their order: the four that do not depend on chance (the third only when
  \<^verbatim>\<open>TMPDIR\<close> is set), then the last resort with a random suffix. \<open>first_usable\<close> tries a
  list of directories in order and returns the first for which \<^verbatim>\<open>mkdirAndTest\<close> succeeds;
  \<open>choose_dir\<close> draws the random number only when the fixed candidates have all failed.
  \<open>mkdir_paths\<close> reads off the paths that were handed to \<^verbatim>\<open>mkdir\<close>.
\<close>

definition fixed_candidates :: "environ \<Rightarrow> nsjconf_t \<Rightarrow> string \<Rightarrow> string list" where
  "fixed_candidates env nsjconf name =
     [''/run/user//nsjail.'' @ to_string (unat (orig_uid nsjconf)) @ ''.'' @ c_str name,
      ''/tmp/nsjail.'' @ to_string (unat (orig_uid nsjconf)) @ ''.'' @ c_str name]
     @ (case env ''TMPDIR'' of
          Some tmp \<Rightarrow> [c_str tmp @ ''/nsjail.'' @ to_string (unat (orig_uid nsjconf)) @ ''.'' @ c_str name]
        | None \<Rightarrow> [])
     @ [''/dev/shm/nsjail.'' @ to_string (unat (orig_uid nsjconf)) @ ''.'' @ c_str name]"

definition random_candidate :: "nsjconf_t \<Rightarrow> string \<Rightarrow> 64 word \<Rightarrow> string" where
  "random_candidate nsjconf name rnd =
     ''/tmp/nsjail.'' @ to_string (unat (orig_uid nsjconf)) @ ''.'' @ c_str name @ ''.''
       @ to_string (unat rnd)"

fun first_usable :: "kernel \<Rightarrow> string list \<Rightarrow> proc \<Rightarrow> string option \<times> proc" where
  "first_usable k [] s = (None, s)"
| "first_usable k (d # ds) s =
     (let (ok, s') = mkdirAndTest k d s in if ok then (Some d, s') else first_usable k ds s')"

definition choose_dir :: "kernel \<Rightarrow> environ \<Rightarrow> nsjconf_t \<Rightarrow> string \<Rightarrow> proc \<Rightarrow> string option \<times> proc" where
  "choose_dir k env nsjconf name s =
     (case first_usable k (fixed_candidates env nsjconf name) s of
        (Some d, s1) \<Rightarrow> (Some d, s1)
      | (None, s1) \<Rightarrow>
          let (a, s2) = sys k UTIL_rnd64 s1 in
          first_usable k [random_candidate nsjconf name (word_of_nat (outv a))] s2)"

fun mkdir_paths :: "event list \<Rightarrow> string list" where
  "mkdir_paths [] = []"
| "mkdir_paths ((SYS_mkdir p m, a) # evs) = p # mkdir_paths evs"
| "mkdir_paths (e # evs) = mkdir_paths evs"

subsection \<open>The flags of the read-only re-mount (specification, 4.4.4)\<close>

text \<open>
  New flags = remount | read-only | bind, and in addition each of nosuid, nodev, noexec,
  sync, mandlock, noatime, nodiratime, relatime that the probe reports.
  \<open>mount_flags_arg\<close> reads the flags argument off a mount call.
\<close>

definition preserved_pairs :: "(64 word \<times> 64 word) list" where
  "preserved_pairs =
     [(MS_NOSUID, ST_NOSUID), (MS_NODEV, ST_NODEV), (MS_NOEXEC, ST_NOEXEC),
      (MS_SYNCHRONOUS, ST_SYNCHRONOUS), (MS_MANDLOCK, ST_MANDLOCK), (MS_NOATIME, ST_NOATIME),
      (MS_NODIRATIME, ST_NODIRATIME), (MS_RELATIME, ST_RELATIME)]"

definition remount_flags :: "64 word \<Rightarrow> 64 word" where
  "remount_flags f_flag =
     MS_REMOUNT OR MS_RDONLY OR MS_BIND
       OR foldr (OR) (map fst (filter (\<lambda>(m, v). f_flag AND v \<noteq> 0) preserved_pairs)) 0"

definition mount_flags_arg :: "call \<Rightarrow> 64 word" where
  "mount_flags_arg c = (case c of SYS_mount sp dp ft fl opts \<Rightarrow> fl | _ \<Rightarrow> 0)"

subsection \<open>Waiting for the sub-child\<close>

text \<open>
  \<open>wait_state k pid s n\<close> is the state after \<open>n\<close> calls of \<^verbatim>\<open>wait4(pid, &status, 0, NULL)\<close>
  from \<open>s\<close>, and \<open>wait_answer k pid s n\<close> is the answer to the next one. \<open>exit_status\<close>
  is the status the Linux kernel reports for a child that called \<^verbatim>\<open>exit(code)\<close>: the low
  eight bits of the code, shifted left by eight.
\<close>

fun wait_state :: "kernel \<Rightarrow> int \<Rightarrow> proc \<Rightarrow> nat \<Rightarrow> proc" where
  "wait_state k pid s 0 = s"
| "wait_state k pid s (Suc n) = wait_state k pid (snd (sys k (SYS_wait4 pid 0) s)) n"

definition wait_answer :: "kernel \<Rightarrow> int \<Rightarrow> proc \<Rightarrow> nat \<Rightarrow> answer" where
  "wait_answer k pid s n = fst (sys k (SYS_wait4 pid 0) (wait_state k pid s n))"

definition exit_status :: "nat \<Rightarrow> nat" where
  "exit_status code = push_bit 8 (code mod 256)"

section \<open>Concrete scenarios\<close>

text \<open>
  Configurations, environments and kernels on which the theorems are instantiated. \<open>k_ok\<close>
  is a kernel under which every call succeeds (a \<^verbatim>\<open>bool\<close> helper answers 1, a system call
  0).
\<close>

definition proc0 :: proc where
  "proc0 = \<lparr>history = [], df_counter = 0\<rparr>"

definition k_ok :: kernel where
  "k_ok h c =
     (case c of
        UTIL_createDirRecursively p \<Rightarrow> Answer 1 EOTHER 0
      | UTIL_writeToFd fd b \<Rightarrow> Answer 1 EOTHER 0
      | UTIL_writeBufToFile p b fl \<Rightarrow> Answer 1 EOTHER 0
      | _ \<Rightarrow> Answer 0 EOTHER 0)"

text \<open>
  Scenarios 4 and 5 of the specification at once: a memory limit of 67108864 bytes and
  250 ms/s of CPU for pid 1234, the other two controllers off.
\<close>

definition conf_mem_cpu :: nsjconf_t where
  "conf_mem_cpu =
     \<lparr>mode = MODE_STANDALONE_ONCE, clone_newns = True, chroot = [], cwd = ''/'',
      orig_uid = 1000, mountpts = [],
      cgroup_mem_mount = ''/sys/fs/cgroup/memory'', cgroup_mem_parent = ''NSJAIL'',
      cgroup_mem_max = 67108864,
      cgroup_pids_mount = ''/sys/fs/cgroup/pids'', cgroup_pids_parent = ''NSJAIL'',
      cgroup_pids_max = 0,
      cgroup_net_cls_mount = ''/sys/fs/cgroup/net_cls'', cgroup_net_cls_parent = ''NSJAIL'',
      cgroup_net_cls_classid = 0,
      cgroup_cpu_mount = ''/sys/fs/cgroup/cpu'', cgroup_cpu_parent = ''NSJAIL'',
      cgroup_cpu_ms_per_sec = 250\<rparr>"

definition conf_pids_net :: nsjconf_t where
  "conf_pids_net =
     conf_mem_cpu\<lparr>cgroup_mem_max := 0, cgroup_pids_max := 16, cgroup_net_cls_classid := 65537,
       cgroup_cpu_ms_per_sec := 0\<rparr>"

text \<open>A kernel that refuses the write of the CPU quota and nothing else.\<close>

definition k_noquota :: kernel where
  "k_noquota h c =
     (case c of
        UTIL_writeBufToFile p b fl \<Rightarrow>
          if b = ''250000'' then Answer 0 EACCES 0 else Answer 1 EOTHER 0
      | _ \<Rightarrow> Answer 0 EOTHER 0)"

text \<open>An environment with \<^verbatim>\<open>HOME\<close> and nothing else.\<close>

definition env_home :: environ where
  "env_home name = (if name = ''HOME'' then Some ''/home/user'' else None)"

text \<open>A finalized bind descriptor, to stand for what a configuration already holds.\<close>

definition mnt_bin :: mount_t where
  "mnt_bin = \<lparr>src = ''/bin'', src_content = [], dst = ''/bin'', fs_type = [], options = [],
     flags = 20481, is_dir = True, is_symlink = False, is_mandatory = True, mounted = False\<rparr>"

definition conf_bin :: nsjconf_t where
  "conf_bin = conf_mem_cpu\<lparr>mountpts := [mnt_bin]\<rparr>"

text \<open>
  A kernel under which \<^verbatim>\<open>stat\<close> reports a regular file (\<^verbatim>\<open>S_IFREG | 0644\<close> = 33188) and
  every other call succeeds.
\<close>

definition k_regfile :: kernel where
  "k_regfile h c = (case c of SYS_stat p \<Rightarrow> Answer 0 EOTHER 33188 | _ \<Rightarrow> k_ok h c)"

text \<open>
  What finalization makes of a non-mandatory bind of \<^verbatim>\<open>$HOME/.cache\<close> at \<^verbatim>\<open>/cache\<close>
  with flags \<^verbatim>\<open>MS_BIND | MS_REC\<close> (20480) and is-dir yes.
\<close>

definition mnt_cache :: mount_t where
  "mnt_cache = \<lparr>src = ''/home/user/.cache'', src_content = [], dst = ''/cache'', fs_type = [],
     options = [], flags = 20480, is_dir = True, is_symlink = False, is_mandatory = False,
     mounted = False\<rparr>"

text \<open>
  Scenario 2 of the specification: \<^verbatim>\<open>/etc/hostname\<close> synthesized from the five bytes
  \<^verbatim>\<open>"jail\n"\<close>, added with flags 0 and is-dir maybe. \<open>mnt_hostname\<close> is what finalization
  makes of it.
\<close>

definition jail_content :: string where
  "jail_content = ''jail'' @ [CHR 0x0A]"

definition mnt_hostname :: mount_t where
  "mnt_hostname = \<lparr>src = [], src_content = jail_content, dst = ''/etc/hostname'', fs_type = [],
     options = [], flags = 0, is_dir = False, is_symlink = False, is_mandatory = True,
     mounted = False\<rparr>"

text \<open>The first scratch directories \<^verbatim>\<open>getDir\<close> tries for uid 1000.\<close>

definition root_dir :: string where
  "root_dir = ''/run/user//nsjail.1000.root''"

definition tmp_dir :: string where
  "tmp_dir = ''/run/user//nsjail.1000.tmp''"

text \<open>
  A configuration without \<^verbatim>\<open>CLONE_NEWNS\<close>, with a chroot path and one descriptor, and
  a kernel that refuses \<^verbatim>\<open>chroot\<close>.
\<close>

definition conf_chroot :: nsjconf_t where
  "conf_chroot = conf_bin\<lparr>clone_newns := False, chroot := ''/srv/jail''\<rparr>"

definition k_nochroot :: kernel where
  "k_nochroot h c = (case c of SYS_chroot p \<Rightarrow> Answer (- 1) EPERM 0 | _ \<Rightarrow> k_ok h c)"

text \<open>
  An environment with \<^verbatim>\<open>TMPDIR\<close>; a kernel under which no directory can be created
  (\<^verbatim>\<open>mkdir\<close> fails with \<^verbatim>\<open>EACCES\<close>) and \<^verbatim>\<open>util::rnd64\<close> returns 42; and one under which
  \<^verbatim>\<open>/run/user\<close> and \<^verbatim>\<open>/tmp\<close> are not writable while the directory under \<^verbatim>\<open>TMPDIR\<close>
  exists already.
\<close>

definition env_tmpdir :: environ where
  "env_tmpdir name = (if name = ''TMPDIR'' then Some ''/var/tmp'' else None)"

definition k_nodirs :: kernel where
  "k_nodirs h c =
     (case c of
        SYS_mkdir p m \<Rightarrow> Answer (- 1) EACCES 0
      | UTIL_rnd64 \<Rightarrow> Answer 0 EOTHER 42
      | _ \<Rightarrow> k_ok h c)"

definition k_vartmp :: kernel where
  "k_vartmp h c =
     (case c of
        SYS_mkdir p m \<Rightarrow>
          if p = ''/var/tmp/nsjail.1000.root'' then Answer (- 1) EEXIST 0 else Answer (- 1) EACCES 0
      | _ \<Rightarrow> k_ok h c)"

text \<open>
  The bind of \<^verbatim>\<open>/bin\<close> once mounted; a kernel whose \<^verbatim>\<open>statvfs\<close> fails; and one whose
  \<^verbatim>\<open>statvfs\<close> reports \<^verbatim>\<open>ST_NOSUID | ST_NODEV | ST_RELATIME\<close> (4102).
\<close>

definition mnt_bin_mounted :: mount_t where
  "mnt_bin_mounted = mnt_bin\<lparr>mounted := True\<rparr>"

definition k_nostatvfs :: kernel where
  "k_nostatvfs h c = (case c of SYS_statvfs p \<Rightarrow> Answer (- 1) EACCES 0 | _ \<Rightarrow> k_ok h c)"

definition k_probe :: kernel where
  "k_probe h c = (case c of SYS_statvfs p \<Rightarrow> Answer 0 EOTHER 4102 | _ \<Rightarrow> k_ok h c)"

text \<open>
  Scenario 6 of the specification: a non-mandatory bind of \<^verbatim>\<open>$HOME/.cache\<close>, whose source
  is missing, in front of the mandatory read-only bind of \<^verbatim>\<open>/bin\<close>. Under \<open>k_nosrc\<close> the
  mount of the missing source fails with \<^verbatim>\<open>ENOENT\<close>; under \<open>k_nobin\<close> it is every mount of
  \<^verbatim>\<open>/bin\<close> that fails.
\<close>

definition conf_cache :: nsjconf_t where
  "conf_cache = conf_mem_cpu\<lparr>mountpts := [mnt_cache, mnt_bin]\<rparr>"

definition k_nosrc :: kernel where
  "k_nosrc h c =
     (case c of
        SYS_mount sp dp ft fl opts \<Rightarrow>
          if sp = Some ''/home/user/.cache'' then Answer (- 1) ENOENT 0 else Answer 0 EOTHER 0
      | _ \<Rightarrow> k_ok h c)"

definition k_nobin :: kernel where
  "k_nobin h c =
     (case c of
        SYS_mount sp dp ft fl opts \<Rightarrow>
          if sp = Some ''/bin'' then Answer (- 1) EACCES 0 else Answer 0 EOTHER 0
      | _ \<Rightarrow> k_ok h c)"

text \<open>The calls of \<^verbatim>\<open>initNsInternal\<close> up to the mount pass when the first candidates are usable.\<close>

definition setup_calls :: "call list" where
  "setup_calls =
     [SYS_chdir ''/'',
      SYS_mkdir ''/run/user//nsjail.1000.root'' 493, SYS_access ''/run/user//nsjail.1000.root'' 4,
      SYS_mount (Some ''/'') ''/'' None 278528 None,
      SYS_mount None ''/run/user//nsjail.1000.root'' (Some ''tmpfs'') 0 (Some ''size=16777216''),
      SYS_mkdir ''/run/user//nsjail.1000.tmp'' 493, SYS_access ''/run/user//nsjail.1000.tmp'' 4,
      SYS_mount None ''/run/user//nsjail.1000.tmp'' (Some ''tmpfs'') 0 (Some ''size=16777216'')]"

text \<open>
  The standalone-exec mode, without \<^verbatim>\<open>CLONE_NEWNS\<close> so that the construction is short.
  Under \<open>k_ok\<close> and \<open>k_nochroot\<close> the clone returns 0: the process is the sub-child.
  Under \<open>k_parent st\<close> the clone returns pid 4321, the first \<^verbatim>\<open>wait4\<close> is interrupted and
  the second returns the pid with status \<open>st\<close>. Under \<open>k_noclone\<close> the clone fails.
\<close>

definition conf_standalone :: nsjconf_t where
  "conf_standalone = conf_chroot\<lparr>mode := MODE_STANDALONE_EXECVE\<rparr>"

definition k_parent :: "nat \<Rightarrow> kernel" where
  "k_parent st h c =
     (case c of
        SUBPROC_cloneProc fl \<Rightarrow> Answer 4321 EOTHER 0
      | SYS_wait4 p opts \<Rightarrow> if length h < 2 then Answer (- 1) EOTHER 0 else Answer 4321 EOTHER st
      | _ \<Rightarrow> k_ok h c)"

definition k_noclone :: kernel where
  "k_noclone h c = (case c of SUBPROC_cloneProc fl \<Rightarrow> Answer (- 1) EOTHER 0 | _ \<Rightarrow> k_ok h c)"

text \<open>A kernel under which the write of the staged content fails and every other call succeeds.\<close>

definition k_nowrite :: kernel where
  "k_nowrite h c = (case c of UTIL_writeToFd fd b \<Rightarrow> Answer 0 EOTHER 0 | _ \<Rightarrow> k_ok h c)"

section \<open>Auxiliary facts\<close>

subsection \<open>Evaluation of the formatting functions\<close>

lemma to_string_small: "n < 10 \<Longrightarrow> to_string n = [digit_char n]"
  by (simp add: to_string.simps)

lemma to_string_large:
  "\<not> n < 10 \<Longrightarrow> to_string n = to_string (n div 10) @ [digit_char (n mod 10)]"
  by (subst to_string.simps) simp

lemma hex_string_small: "n < 16 \<Longrightarrow> hex_string n = [digit_char n]"
  by (simp add: hex_string.simps)

lemma hex_string_large:
  "\<not> n < 16 \<Longrightarrow> hex_string n = hex_string (n div 16) @ [digit_char (n mod 16)]"
  by (subst hex_string.simps) simp

lemmas fmt_eval = to_string_small to_string_large hex_string_small hex_string_large
  digit_char_def to_string_int_def

lemmas path_eval = snprintf_def c_str_def PATH_MAX_def cgroup_path_def

lemmas open_flags = O_RDONLY_def O_WRONLY_def O_CREAT_def O_EXCL_def O_CLOEXEC_def

lemmas ms_flags = MS_RDONLY_def MS_NOSUID_def MS_NODEV_def MS_NOEXEC_def MS_SYNCHRONOUS_def
  MS_REMOUNT_def MS_MANDLOCK_def MS_DIRSYNC_def MS_NOATIME_def MS_NODIRATIME_def MS_BIND_def
  MS_MOVE_def MS_REC_def MS_SILENT_def MS_POSIXACL_def MS_UNBINDABLE_def MS_PRIVATE_def
  MS_SLAVE_def MS_SHARED_def MS_RELATIME_def MS_KERNMOUNT_def MS_I_VERSION_def
  MS_STRICTATIME_def MS_LAZYTIME_def

lemmas st_flags = ST_RDONLY_def ST_NOSUID_def ST_NODEV_def ST_NOEXEC_def ST_SYNCHRONOUS_def
  ST_MANDLOCK_def ST_NOATIME_def ST_NODIRATIME_def ST_RELATIME_def

subsection \<open>One call\<close>

lemma sys_history: "history (snd (sys k c s)) = history s @ [(c, fst (sys k c s))]"
  by (simp add: sys_def)

lemma sys_df_counter: "df_counter (snd (sys k c s)) = df_counter s"
  by (simp add: sys_def)

subsection \<open>Plans of calls\<close>

lemma run_plan_append:
  "run_plan k (xs @ ys) s =
     (let (r, s') = run_plan k xs s in if r then run_plan k ys s' else (False, s'))"
  by (induction xs arbitrary: s) (simp_all add: Let_def case_prod_beta)

lemma run_plan_events:
  "\<exists>evs. history (snd (run_plan k cs s)) = history s @ evs
     \<and> df_counter (snd (run_plan k cs s)) = df_counter s
     \<and> map fst evs = take (length evs) cs
     \<and> (\<forall>e \<in> set (butlast evs). \<not> call_failed e)
     \<and> (fst (run_plan k cs s) \<longleftrightarrow> length evs = length cs \<and> (\<forall>e \<in> set evs. \<not> call_failed e))
     \<and> (\<not> fst (run_plan k cs s) \<longrightarrow> evs \<noteq> [] \<and> call_failed (last evs))"
proof (induction cs arbitrary: s)
  case Nil
  show ?case by simp
next
  case (Cons c cs)
  obtain a s1 where sys1: "sys k c s = (a, s1)" by (cases "sys k c s")
  have h1: "history s1 = history s @ [(c, a)]" and d1: "df_counter s1 = df_counter s"
    using sys_history [of k c s] sys_df_counter [of k c s] sys1 by simp_all
  show ?case
  proof (cases "call_failed (c, a)")
    case True
    then show ?thesis
      using sys1 h1 d1 by (intro exI [of _ "[(c, a)]"]) simp
  next
    case False
    from Cons.IH [of s1] obtain evs where
      evs: "history (snd (run_plan k cs s1)) = history s1 @ evs"
        "df_counter (snd (run_plan k cs s1)) = df_counter s1"
        "map fst evs = take (length evs) cs"
        "\<forall>e \<in> set (butlast evs). \<not> call_failed e"
        "fst (run_plan k cs s1) \<longleftrightarrow> length evs = length cs \<and> (\<forall>e \<in> set evs. \<not> call_failed e)"
        "\<not> fst (run_plan k cs s1) \<longrightarrow> evs \<noteq> [] \<and> call_failed (last evs)"
      by blast
    have bl: "\<forall>e \<in> set (butlast ((c, a) # evs)). \<not> call_failed e"
      using evs(4) False by (cases evs) auto
    show ?thesis
      using sys1 h1 d1 False evs(1,2,3,5,6) bl
      by (intro exI [of _ "(c, a) # evs"]) (simp del: butlast.simps)
  qed
qed

lemma initNsFromParentMem_plan:
  "initNsFromParentMem k c pid s = run_plan k (mem_plan c pid) s"
  by (simp add: initNsFromParentMem_def mem_plan_def call_failed_def Let_def case_prod_beta)

lemma initNsFromParentPids_plan:
  "initNsFromParentPids k c pid s = run_plan k (pids_plan c pid) s"
  by (simp add: initNsFromParentPids_def pids_plan_def call_failed_def Let_def case_prod_beta)

lemma initNsFromParentNetCls_plan:
  "initNsFromParentNetCls k c pid s = run_plan k (net_cls_plan c pid) s"
  by (simp add: initNsFromParentNetCls_def net_cls_plan_def call_failed_def Let_def case_prod_beta)

lemma initNsFromParentCpu_plan:
  "initNsFromParentCpu k c pid s = run_plan k (cpu_plan c pid) s"
  by (simp add: initNsFromParentCpu_def cpu_plan_def call_failed_def Let_def case_prod_beta)

lemma initNsFromParent_plan:
  "initNsFromParent k c pid s =
     run_plan k (mem_plan c pid @ pids_plan c pid @ net_cls_plan c pid @ cpu_plan c pid) s"
  by (simp add: initNsFromParent_def run_plan_append initNsFromParentMem_plan
      initNsFromParentPids_plan initNsFromParentNetCls_plan initNsFromParentCpu_plan
      Let_def case_prod_beta prod_eq_iff)

subsection \<open>The events and the descriptor that \<^verbatim>\<open>mountPt\<close> leaves\<close>

lemma new_events_append: "history s' = history s @ evs \<Longrightarrow> new_events s s' = evs"
  by (simp add: new_events_def)

lemma is_mount_simps:
  "is_mount (SYS_mount sp dp ft fl opts)"
  "\<not> is_mount (UTIL_createDirRecursively p)"
  "\<not> is_mount (SYS_symlink p q)"
  "\<not> is_mount (SYS_mkdir p m)"
  "\<not> is_mount (SYS_open p fl' m)"
  "\<not> is_mount (SYS_close fd)"
  "\<not> is_mount (UTIL_writeToFd fd b)"
  "\<not> is_mount (SYS_unlink p)"
  "\<not> is_mount (SYS_statvfs p)"
  "\<not> is_mount (SYS_chroot p)"
  "\<not> is_mount (SYS_chdir p)"
  by (simp_all add: is_mount_def)

lemma mountPt_mount_effect:
  fixes k :: kernel and mpt :: mount_t and srcpath dstpath s
  defines "M \<equiv> mountPt_mount k mpt srcpath dstpath s"
    and "c \<equiv> SYS_mount (Some srcpath) dstpath (Some (c_str (fs_type mpt)))
               (flags mpt AND NOT MS_RDONLY) (Some (c_str (options mpt)))"
  shows "\<exists>evs. history (snd M) = history s @ (c, k (history s) c) # evs
           \<and> (\<forall>e \<in> set evs. \<not> is_mount (fst e))
           \<and> df_counter (snd M) = df_counter s
           \<and> fst (fst M) = (ret (k (history s) c) \<noteq> - 1)
           \<and> snd (fst M) = mpt\<lparr>mounted := mounted mpt \<or> ret (k (history s) c) \<noteq> - 1\<rparr>"
  unfolding M_def c_def mountPt_mount_def
  by (simp add: Let_def case_prod_beta sys_def is_mount_simps)

lemma mount_events_simps:
  "mount_events [] = []"
  "mount_events ((c, a) # evs) = (if is_mount c then (c, a) # mount_events evs else mount_events evs)"
  "mount_events (xs @ ys) = mount_events xs @ mount_events ys"
  by (simp_all add: mount_events_def)

lemma sysE:
  assumes "sys k c s = (a, s')"
  obtains "history s' = history s @ [(c, a)]" and "df_counter s' = df_counter s"
  using assms by (auto simp: sys_def)

lemma mountPt_effect:
  assumes "mountPt k mpt newroot tmpdir s = ((r, mpt'), s')"
  shows "(mount_events (new_events s s') = [] \<and> mpt' = mpt)
       \<or> (\<exists>sp a. mount_events (new_events s s') =
                    [(SYS_mount (Some sp) (snprintf PATH_MAX (newroot @ ''/'' @ c_str (dst mpt)))
                        (Some (c_str (fs_type mpt)))
                        ((if src_content mpt \<noteq> []
                          then flags mpt OR (MS_BIND OR MS_REC OR MS_PRIVATE) else flags mpt)
                         AND NOT MS_RDONLY)
                        (Some (c_str (options mpt))), a)]
             \<and> \<not> is_symlink mpt
             \<and> r = (ret a \<noteq> - 1)
             \<and> mpt' = mpt\<lparr>flags := (if src_content mpt \<noteq> []
                                       then flags mpt OR (MS_BIND OR MS_REC OR MS_PRIVATE)
                                       else flags mpt),
                              mounted := mounted mpt \<or> ret a \<noteq> - 1\<rparr>)"
  using assms unfolding mountPt_def mountPt_mount_def
  by (auto simp: Let_def new_events_def mount_events_simps is_mount_simps sys_history
      sys_df_counter split: prod.splits if_splits elim!: sysE)

lemma mountPt_history:
  "\<exists>evs. history (snd (mountPt k mpt newroot tmpdir s)) = history s @ evs"
proof -
  obtain r mpt' s' where m: "mountPt k mpt newroot tmpdir s = ((r, mpt'), s')"
    by (metis prod.collapse)
  have "\<exists>evs. history s' = history s @ evs"
    using m unfolding mountPt_def mountPt_mount_def
    by (auto simp: Let_def sys_history split: prod.splits if_splits elim!: sysE)
  then show ?thesis by (simp add: m)
qed

lemma mountPt_keeps:
  assumes "mountPt k mpt newroot tmpdir s = ((r, mpt'), s')"
  shows "is_mandatory mpt' = is_mandatory mpt \<and> is_symlink mpt' = is_symlink mpt
       \<and> src_content mpt' = src_content mpt \<and> dst mpt' = dst mpt \<and> src mpt' = src mpt
       \<and> is_dir mpt' = is_dir mpt \<and> fs_type mpt' = fs_type mpt \<and> options mpt' = options mpt
       \<and> flags mpt' AND MS_RDONLY = flags mpt AND MS_RDONLY"
  using mountPt_effect [OF assms]
  by (auto simp: MS_RDONLY_def MS_BIND_def MS_REC_def MS_PRIVATE_def bit.conj_disj_distrib2)


subsection \<open>When \<^verbatim>\<open>mountPt\<close> succeeds, and the staged file\<close>

lemma checked_call_failed_simps:
  "checked_call_failed mpt (UTIL_createDirRecursively p, a) = (\<not> truthy a)"
  "checked_call_failed mpt (SYS_symlink p q, a) = (ret a = - 1 \<and> is_mandatory mpt)"
  "checked_call_failed mpt (SYS_open p fl m, a) = (fl = staging_flags \<and> ret a < 0)"
  "checked_call_failed mpt (UTIL_writeToFd fd b, a) = (\<not> truthy a)"
  "checked_call_failed mpt (SYS_mount sp dp ft mfl opts, a) = (ret a = - 1)"
  "\<not> checked_call_failed mpt (SYS_mkdir p m, a)"
  "\<not> checked_call_failed mpt (SYS_close fd, a)"
  "\<not> checked_call_failed mpt (SYS_unlink p, a)"
  by (simp_all add: checked_call_failed_def)

lemma staging_flags_neq: "O_CREAT OR O_RDONLY OR O_CLOEXEC \<noteq> staging_flags"
  by (simp add: staging_flags_def open_flags)

lemma mountPt_result:
  assumes "mountPt k mpt newroot tmpdir s = ((r, mpt'), s')"
  shows "r = (\<forall>e \<in> set (new_events s s'). \<not> checked_call_failed mpt e)"
  using assms unfolding mountPt_def mountPt_mount_def
  by (auto simp: Let_def new_events_def checked_call_failed_simps staging_flags_neq sys_history
      sys_df_counter staging_flags_def [symmetric] split: prod.splits if_splits elim!: sysE)

lemma mountPt_staging:
  assumes "mountPt k mpt newroot tmpdir s = ((r, mpt'), s')"
    and "src_content mpt \<noteq> []" and "mount_events (new_events s s') \<noteq> []"
  shows "\<exists>a5 a6 a7 a.
           sublist [(SYS_open (snprintf PATH_MAX (tmpdir @ ''/dynamic_file.''
                                 @ to_string (unat (df_counter s + 1)))) staging_flags 420, a5),
                    (UTIL_writeToFd (ret a5) (src_content mpt), a6),
                    (SYS_close (ret a5), a7),
                    (SYS_mount (Some (snprintf PATH_MAX (tmpdir @ ''/dynamic_file.''
                                 @ to_string (unat (df_counter s + 1)))))
                       (snprintf PATH_MAX (newroot @ ''/'' @ c_str (dst mpt)))
                       (Some (c_str (fs_type mpt)))
                       ((flags mpt OR (MS_BIND OR MS_REC OR MS_PRIVATE)) AND NOT MS_RDONLY)
                       (Some (c_str (options mpt))), a)]
             (new_events s s')
           \<and> 0 \<le> ret a5 \<and> truthy a6"
  using assms unfolding mountPt_def mountPt_mount_def
  by (auto simp: Let_def new_events_def mount_events_simps is_mount_simps sys_history
      sys_df_counter staging_flags_def sublist_Cons_right prefix_Cons
      split: prod.splits if_splits elim!: sysE)

subsection \<open>The mount pass\<close>

lemma mountPts_loop_append:
  "mountPts_loop k newroot tmpdir (xs @ ys) s =
     (let ((r, xs'), s1) = mountPts_loop k newroot tmpdir xs s in
      if \<not> r then ((False, xs' @ ys), s1)
      else
        let ((r', ys'), s2) = mountPts_loop k newroot tmpdir ys s1 in
        ((r', xs' @ ys'), s2))"
  by (induction xs arbitrary: s) (simp_all add: Let_def case_prod_beta)

lemma mountPts_loop_mounts:
  "\<exists>evs. history (snd (mountPts_loop k newroot tmpdir xs s)) = history s @ evs
         \<and> (\<forall>e \<in> set (mount_events evs). mount_flags_arg (fst e) AND MS_RDONLY = 0)"
proof (induction xs arbitrary: s)
  case Nil
  show ?case by (simp add: mount_events_simps)
next
  case (Cons p ps)
  obtain r p' s1 where m: "mountPt k p newroot tmpdir s = ((r, p'), s1)"
    by (metis prod.collapse)
  obtain evs1 where h1: "history s1 = history s @ evs1"
    using mountPt_history [of k p newroot tmpdir s] by (auto simp: m)
  have ne: "new_events s s1 = evs1"
    using h1 by (rule new_events_append)
  have f1: "\<forall>e \<in> set (mount_events evs1). mount_flags_arg (fst e) AND MS_RDONLY = 0"
    using mountPt_effect [OF m] unfolding ne by (auto simp: mount_flags_arg_def and.assoc)
  obtain evs2 where h2: "history (snd (mountPts_loop k newroot tmpdir ps s1)) = history s1 @ evs2"
    and f2: "\<forall>e \<in> set (mount_events evs2). mount_flags_arg (fst e) AND MS_RDONLY = 0"
    using Cons.IH [of s1] by blast
  show ?case
  proof (cases "\<not> r \<and> is_mandatory p'")
    case True
    then show ?thesis using h1 f1 by (simp add: m)
  next
    case False
    have "history (snd (mountPts_loop k newroot tmpdir (p # ps) s)) = history s @ (evs1 @ evs2)"
      using False h1 h2 by (auto simp: m Let_def case_prod_beta)
    moreover have "\<forall>e \<in> set (mount_events (evs1 @ evs2)).
        mount_flags_arg (fst e) AND MS_RDONLY = 0"
      using f1 f2 by (auto simp: mount_events_simps)
    ultimately show ?thesis by blast
  qed
qed

lemma mountPts_loop_keeps:
  "list_all2 same_for_remount xs (snd (fst (mountPts_loop k newroot tmpdir xs s)))"
proof (induction xs arbitrary: s)
  case Nil
  show ?case by simp
next
  case (Cons p ps)
  obtain r p' s1 where m: "mountPt k p newroot tmpdir s = ((r, p'), s1)"
    by (metis prod.collapse)
  have k1: "same_for_remount p p'"
    using mountPt_keeps [OF m] by (simp add: same_for_remount_def)
  have refl: "list_all2 same_for_remount ps ps"
    by (simp add: list_all2_same same_for_remount_def)
  show ?case
    using k1 refl Cons.IH [of s1] by (simp add: m Let_def case_prod_beta)
qed
subsection \<open>The read-only re-mount and a run of the full path\<close>

lemma remountRO_loop_foldr:
  "remountRO_loop f ps acc =
     acc OR foldr (OR) (map fst (filter (\<lambda>(m, v). f AND v \<noteq> 0) ps)) 0"
  by (induction ps arbitrary: acc) (auto simp: ac_simps)

lemma remountRO_loop_mountPairs:
  "remountRO_loop f mountPairs (MS_REMOUNT OR MS_RDONLY OR MS_BIND) = remount_flags f"
proof -
  have p: "mountPairs = (MS_RDONLY, ST_RDONLY) # preserved_pairs"
    by (simp add: mountPairs_def preserved_pairs_def)
  have absorb: "MS_REMOUNT OR MS_RDONLY OR MS_BIND OR (MS_RDONLY OR x)
      = MS_REMOUNT OR MS_RDONLY OR MS_BIND OR x" for x :: "64 word"
    by (simp add: ac_simps)
  show ?thesis
    unfolding remountRO_loop_foldr p remount_flags_def
    using absorb by (simp add: ac_simps)
qed

lemma remountRO_effect:
  assumes "remountRO k mpt s = (r, s')"
  shows "if mounted mpt \<and> \<not> is_symlink mpt \<and> flags mpt AND MS_RDONLY \<noteq> 0
         then history s' = history s @ new_events s s'
           \<and> (if ret (k (history s) (SYS_statvfs (c_str (dst mpt)))) = - 1
               then \<not> r \<and> new_events s s' =
                      [(SYS_statvfs (c_str (dst mpt)), k (history s) (SYS_statvfs (c_str (dst mpt))))]
               else \<exists>a. r = (ret a \<noteq> - 1) \<and> new_events s s' =
                      [(SYS_statvfs (c_str (dst mpt)), k (history s) (SYS_statvfs (c_str (dst mpt)))),
                       (SYS_mount (Some (c_str (dst mpt))) (c_str (dst mpt)) None
                          (remount_flags (word_of_nat
                             (outv (k (history s) (SYS_statvfs (c_str (dst mpt)))))))
                          None, a)])
         else r \<and> s' = s"
  using assms unfolding remountRO_def remountRO_loop_mountPairs
  by (auto simp: Let_def sys_def new_events_def split: if_splits)

lemma remountRO_pass_append:
  "remountRO_pass k (xs @ ys) s =
     (let (r, s1) = remountRO_pass k xs s in if \<not> r then (False, s1) else remountRO_pass k ys s1)"
  by (induction xs arbitrary: s) (simp_all add: Let_def case_prod_beta)

lemma setup_cache:
  "initNsInternal_setup k_nosrc env_home conf_cache proc0 =
     (Some (root_dir, tmp_dir), \<lparr>history = map (\<lambda>c. (c, Answer 0 EOTHER 0)) setup_calls, df_counter = 0\<rparr>)"
  "initNsInternal_setup k_nobin env_home conf_cache proc0 =
     (Some (root_dir, tmp_dir), \<lparr>history = map (\<lambda>c. (c, Answer 0 EOTHER 0)) setup_calls, df_counter = 0\<rparr>)"
  by (simp_all add: initNsInternal_setup_def getDir_def mkdirAndTest_def sys_def k_nosrc_def
      k_nobin_def k_ok_def proc0_def conf_cache_def conf_mem_cpu_def root_dir_def tmp_dir_def
      setup_calls_def Let_def c_str_def fmt_eval R_OK_def MS_REC_def MS_PRIVATE_def)

lemma loop_nosrc:
  "mountPts_loop k_nosrc root_dir tmp_dir [mnt_cache, mnt_bin] s =
     ((True, [mnt_cache, mnt_bin_mounted]),
      s\<lparr>history := history s @
         [(UTIL_createDirRecursively ''/run/user//nsjail.1000.root//cache'', Answer 1 EOTHER 0),
          (SYS_mkdir ''/run/user//nsjail.1000.root//cache'' 457, Answer 0 EOTHER 0),
          (SYS_mount (Some ''/home/user/.cache'') ''/run/user//nsjail.1000.root//cache'' (Some [])
             20480 (Some []), Answer (- 1) ENOENT 0),
          (UTIL_createDirRecursively ''/run/user//nsjail.1000.root//bin'', Answer 1 EOTHER 0),
          (SYS_mkdir ''/run/user//nsjail.1000.root//bin'' 457, Answer 0 EOTHER 0),
          (SYS_mount (Some ''/bin'') ''/run/user//nsjail.1000.root//bin'' (Some []) 20480 (Some []),
           Answer 0 EOTHER 0)]\<rparr>)"
  by (simp add: mountPt_def mountPt_mount_def mnt_cache_def mnt_bin_def mnt_bin_mounted_def
      root_dir_def sys_def k_nosrc_def k_ok_def truthy_def Let_def path_eval MS_RDONLY_def)

lemma loop_nobin:
  "mountPts_loop k_nobin root_dir tmp_dir [mnt_cache, mnt_bin] s =
     ((False, [mnt_cache\<lparr>mounted := True\<rparr>, mnt_bin]),
      s\<lparr>history := history s @
         [(UTIL_createDirRecursively ''/run/user//nsjail.1000.root//cache'', Answer 1 EOTHER 0),
          (SYS_mkdir ''/run/user//nsjail.1000.root//cache'' 457, Answer 0 EOTHER 0),
          (SYS_mount (Some ''/home/user/.cache'') ''/run/user//nsjail.1000.root//cache'' (Some [])
             20480 (Some []), Answer 0 EOTHER 0),
          (UTIL_createDirRecursively ''/run/user//nsjail.1000.root//bin'', Answer 1 EOTHER 0),
          (SYS_mkdir ''/run/user//nsjail.1000.root//bin'' 457, Answer 0 EOTHER 0),
          (SYS_mount (Some ''/bin'') ''/run/user//nsjail.1000.root//bin'' (Some []) 20480 (Some []),
           Answer (- 1) EACCES 0)]\<rparr>)"
  by (simp add: mountPt_def mountPt_mount_def mnt_cache_def mnt_bin_def
      root_dir_def sys_def k_nobin_def k_ok_def truthy_def Let_def path_eval MS_RDONLY_def)

lemma tail_nosrc:
  "initNsInternal_pivot k_nosrc (conf_cache\<lparr>mountpts := [mnt_cache, mnt_bin_mounted]\<rparr>)
       root_dir tmp_dir s =
     (True, s\<lparr>history := history s @
         [(SYS_umount2 ''/run/user//nsjail.1000.tmp'' 2, Answer 0 EOTHER 0),
          (SYS_pivot_root ''/run/user//nsjail.1000.root'' ''/run/user//nsjail.1000.root'',
           Answer 0 EOTHER 0),
          (SYS_umount2 ''/'' 2, Answer 0 EOTHER 0),
          (SYS_chdir ''/'', Answer 0 EOTHER 0)]\<rparr>)"
  "remountRO_pass k_nosrc [mnt_cache, mnt_bin_mounted] s =
     (True, s\<lparr>history := history s @
         [(SYS_statvfs ''/bin'', Answer 0 EOTHER 0),
          (SYS_mount (Some ''/bin'') ''/bin'' None 4129 None, Answer 0 EOTHER 0)]\<rparr>)"
  by (simp_all add: initNsInternal_pivot_def remountRO_def remountRO_loop_mountPairs
      remount_flags_def preserved_pairs_def sys_def k_nosrc_def k_ok_def Let_def
      mnt_cache_def mnt_bin_def mnt_bin_mounted_def c_str_def root_dir_def tmp_dir_def
      MNT_DETACH_def ms_flags st_flags mountPairs_def conf_cache_def conf_mem_cpu_def)

section \<open>Claims about cgroup.cc\<close>

text \<open>
  Claim C4. \<^verbatim>\<open>initNsFromParent\<close> processes the four controllers in the order memory,
  pids, net_cls, cpu. A controller whose limit is zero is skipped entirely: its installer
  returns true and leaves the process state as it was, so it creates no directory and writes
  no file. The calls made are an initial stretch of the plan of the enabled controllers
  (directory, limit files, \<^verbatim>\<open>tasks\<close>, in that order); the only call that can have failed is
  the last one made, so nothing is attempted after the first failure; and the result is true
  exactly when the whole plan was carried out and no call failed.
\<close>

theorem initNsFromParent_in_order:
  "initNsFromParent k nsjconf pid s =
     run_plan k (mem_plan nsjconf pid @ pids_plan nsjconf pid @ net_cls_plan nsjconf pid
                 @ cpu_plan nsjconf pid) s
   \<and> (cgroup_mem_max nsjconf = 0 \<longrightarrow> initNsFromParentMem k nsjconf pid s = (True, s))
   \<and> (cgroup_pids_max nsjconf = 0 \<longrightarrow> initNsFromParentPids k nsjconf pid s = (True, s))
   \<and> (cgroup_net_cls_classid nsjconf = 0 \<longrightarrow> initNsFromParentNetCls k nsjconf pid s = (True, s))
   \<and> (cgroup_cpu_ms_per_sec nsjconf = 0 \<longrightarrow> initNsFromParentCpu k nsjconf pid s = (True, s))
   \<and> (\<exists>evs. history (snd (initNsFromParent k nsjconf pid s)) = history s @ evs
         \<and> map fst evs =
             take (length evs) (mem_plan nsjconf pid @ pids_plan nsjconf pid
                                @ net_cls_plan nsjconf pid @ cpu_plan nsjconf pid)
         \<and> (\<forall>e \<in> set (butlast evs). \<not> call_failed e)
         \<and> (fst (initNsFromParent k nsjconf pid s) \<longleftrightarrow>
              length evs = length (mem_plan nsjconf pid @ pids_plan nsjconf pid
                                   @ net_cls_plan nsjconf pid @ cpu_plan nsjconf pid)
              \<and> (\<forall>e \<in> set evs. \<not> call_failed e))
         \<and> (\<not> fst (initNsFromParent k nsjconf pid s) \<longrightarrow> evs \<noteq> [] \<and> call_failed (last evs)))"
proof -
  let ?plan = "mem_plan nsjconf pid @ pids_plan nsjconf pid @ net_cls_plan nsjconf pid
               @ cpu_plan nsjconf pid"
  have run: "initNsFromParent k nsjconf pid s = run_plan k ?plan s"
    by (rule initNsFromParent_plan)
  have skip:
    "cgroup_mem_max nsjconf = 0 \<longrightarrow> initNsFromParentMem k nsjconf pid s = (True, s)"
    "cgroup_pids_max nsjconf = 0 \<longrightarrow> initNsFromParentPids k nsjconf pid s = (True, s)"
    "cgroup_net_cls_classid nsjconf = 0 \<longrightarrow> initNsFromParentNetCls k nsjconf pid s = (True, s)"
    "cgroup_cpu_ms_per_sec nsjconf = 0 \<longrightarrow> initNsFromParentCpu k nsjconf pid s = (True, s)"
    by (simp_all add: initNsFromParentMem_def initNsFromParentPids_def
        initNsFromParentNetCls_def initNsFromParentCpu_def)
  from run_plan_events [of k ?plan s] obtain evs where
    "history (snd (run_plan k ?plan s)) = history s @ evs"
    "map fst evs = take (length evs) ?plan"
    "\<forall>e \<in> set (butlast evs). \<not> call_failed e"
    "fst (run_plan k ?plan s) \<longleftrightarrow> length evs = length ?plan \<and> (\<forall>e \<in> set evs. \<not> call_failed e)"
    "\<not> fst (run_plan k ?plan s) \<longrightarrow> evs \<noteq> [] \<and> call_failed (last evs)"
    by blast
  then have "\<exists>evs. history (snd (initNsFromParent k nsjconf pid s)) = history s @ evs
         \<and> map fst evs = take (length evs) ?plan
         \<and> (\<forall>e \<in> set (butlast evs). \<not> call_failed e)
         \<and> (fst (initNsFromParent k nsjconf pid s) \<longleftrightarrow>
              length evs = length ?plan \<and> (\<forall>e \<in> set evs. \<not> call_failed e))
         \<and> (\<not> fst (initNsFromParent k nsjconf pid s) \<longrightarrow> evs \<noteq> [] \<and> call_failed (last evs))"
    unfolding run by blast
  with run skip show ?thesis by blast
qed

lemma plan_mem_cpu:
  "mem_plan conf_mem_cpu 1234 @ pids_plan conf_mem_cpu 1234 @ net_cls_plan conf_mem_cpu 1234
     @ cpu_plan conf_mem_cpu 1234 =
   [SYS_mkdir ''/sys/fs/cgroup/memory/NSJAIL/NSJAIL.1234'' 448,
    UTIL_writeBufToFile ''/sys/fs/cgroup/memory/NSJAIL/NSJAIL.1234/memory.limit_in_bytes''
      ''67108864'' 524289,
    UTIL_writeBufToFile ''/sys/fs/cgroup/memory/NSJAIL/NSJAIL.1234/memory.oom_control''
      ''0'' 524289,
    UTIL_writeBufToFile ''/sys/fs/cgroup/memory/NSJAIL/NSJAIL.1234/tasks'' ''1234'' 524289,
    SYS_mkdir ''/sys/fs/cgroup/cpu/NSJAIL/NSJAIL.1234'' 448,
    UTIL_writeBufToFile ''/sys/fs/cgroup/cpu/NSJAIL/NSJAIL.1234/cpu.cfs_quota_us''
      ''250000'' 524289,
    UTIL_writeBufToFile ''/sys/fs/cgroup/cpu/NSJAIL/NSJAIL.1234/cpu.cfs_period_us''
      ''1000000'' 524289,
    UTIL_writeBufToFile ''/sys/fs/cgroup/cpu/NSJAIL/NSJAIL.1234/tasks'' ''1234'' 524289]"
  by (simp add: mem_plan_def pids_plan_def net_cls_plan_def cpu_plan_def conf_mem_cpu_def
      path_eval open_flags fmt_eval)

lemma plan_pids_net:
  "mem_plan conf_pids_net 7 @ pids_plan conf_pids_net 7 @ net_cls_plan conf_pids_net 7
     @ cpu_plan conf_pids_net 7 =
   [SYS_mkdir ''/sys/fs/cgroup/pids/NSJAIL/NSJAIL.7'' 448,
    UTIL_writeBufToFile ''/sys/fs/cgroup/pids/NSJAIL/NSJAIL.7/pids.max'' ''16'' 524289,
    UTIL_writeBufToFile ''/sys/fs/cgroup/pids/NSJAIL/NSJAIL.7/tasks'' ''7'' 524289,
    SYS_mkdir ''/sys/fs/cgroup/net_cls/NSJAIL/NSJAIL.7'' 448,
    UTIL_writeBufToFile ''/sys/fs/cgroup/net_cls/NSJAIL/NSJAIL.7/net_cls.classid''
      ''0x10001'' 524289,
    UTIL_writeBufToFile ''/sys/fs/cgroup/net_cls/NSJAIL/NSJAIL.7/tasks'' ''7'' 524289]"
  by (simp add: mem_plan_def pids_plan_def net_cls_plan_def cpu_plan_def conf_pids_net_def
      conf_mem_cpu_def path_eval open_flags fmt_eval)

theorem initNsFromParent_in_order_witness:
  "fst (initNsFromParent k_ok conf_mem_cpu 1234 proc0)
   \<and> map fst (history (snd (initNsFromParent k_ok conf_mem_cpu 1234 proc0))) =
       [SYS_mkdir ''/sys/fs/cgroup/memory/NSJAIL/NSJAIL.1234'' 448,
        UTIL_writeBufToFile ''/sys/fs/cgroup/memory/NSJAIL/NSJAIL.1234/memory.limit_in_bytes''
          ''67108864'' 524289,
        UTIL_writeBufToFile ''/sys/fs/cgroup/memory/NSJAIL/NSJAIL.1234/memory.oom_control''
          ''0'' 524289,
        UTIL_writeBufToFile ''/sys/fs/cgroup/memory/NSJAIL/NSJAIL.1234/tasks'' ''1234'' 524289,
        SYS_mkdir ''/sys/fs/cgroup/cpu/NSJAIL/NSJAIL.1234'' 448,
        UTIL_writeBufToFile ''/sys/fs/cgroup/cpu/NSJAIL/NSJAIL.1234/cpu.cfs_quota_us''
          ''250000'' 524289,
        UTIL_writeBufToFile ''/sys/fs/cgroup/cpu/NSJAIL/NSJAIL.1234/cpu.cfs_period_us''
          ''1000000'' 524289,
        UTIL_writeBufToFile ''/sys/fs/cgroup/cpu/NSJAIL/NSJAIL.1234/tasks'' ''1234'' 524289]
   \<and> cgroup_pids_max conf_mem_cpu = 0
   \<and> initNsFromParentPids k_ok conf_mem_cpu 1234 proc0 = (True, proc0)
   \<and> cgroup_net_cls_classid conf_mem_cpu = 0
   \<and> initNsFromParentNetCls k_ok conf_mem_cpu 1234 proc0 = (True, proc0)
   \<and> \<not> fst (initNsFromParent k_noquota conf_mem_cpu 1234 proc0)
   \<and> map fst (history (snd (initNsFromParent k_noquota conf_mem_cpu 1234 proc0))) =
       [SYS_mkdir ''/sys/fs/cgroup/memory/NSJAIL/NSJAIL.1234'' 448,
        UTIL_writeBufToFile ''/sys/fs/cgroup/memory/NSJAIL/NSJAIL.1234/memory.limit_in_bytes''
          ''67108864'' 524289,
        UTIL_writeBufToFile ''/sys/fs/cgroup/memory/NSJAIL/NSJAIL.1234/memory.oom_control''
          ''0'' 524289,
        UTIL_writeBufToFile ''/sys/fs/cgroup/memory/NSJAIL/NSJAIL.1234/tasks'' ''1234'' 524289,
        SYS_mkdir ''/sys/fs/cgroup/cpu/NSJAIL/NSJAIL.1234'' 448,
        UTIL_writeBufToFile ''/sys/fs/cgroup/cpu/NSJAIL/NSJAIL.1234/cpu.cfs_quota_us''
          ''250000'' 524289]
   \<and> cgroup_mem_max conf_pids_net = 0
   \<and> initNsFromParentMem k_ok conf_pids_net 7 proc0 = (True, proc0)
   \<and> cgroup_cpu_ms_per_sec conf_pids_net = 0
   \<and> initNsFromParentCpu k_ok conf_pids_net 7 proc0 = (True, proc0)
   \<and> fst (initNsFromParent k_ok conf_pids_net 7 proc0)
   \<and> map fst (history (snd (initNsFromParent k_ok conf_pids_net 7 proc0))) =
       [SYS_mkdir ''/sys/fs/cgroup/pids/NSJAIL/NSJAIL.7'' 448,
        UTIL_writeBufToFile ''/sys/fs/cgroup/pids/NSJAIL/NSJAIL.7/pids.max'' ''16'' 524289,
        UTIL_writeBufToFile ''/sys/fs/cgroup/pids/NSJAIL/NSJAIL.7/tasks'' ''7'' 524289,
        SYS_mkdir ''/sys/fs/cgroup/net_cls/NSJAIL/NSJAIL.7'' 448,
        UTIL_writeBufToFile ''/sys/fs/cgroup/net_cls/NSJAIL/NSJAIL.7/net_cls.classid''
          ''0x10001'' 524289,
        UTIL_writeBufToFile ''/sys/fs/cgroup/net_cls/NSJAIL/NSJAIL.7/tasks'' ''7'' 524289]"
proof -
  note a = initNsFromParent_in_order [of k_ok conf_mem_cpu 1234 proc0]
  note b = initNsFromParent_in_order [of k_noquota conf_mem_cpu 1234 proc0]
  note c = initNsFromParent_in_order [of k_ok conf_pids_net 7 proc0]
  have z: "cgroup_pids_max conf_mem_cpu = 0" "cgroup_net_cls_classid conf_mem_cpu = 0"
    "cgroup_mem_max conf_pids_net = 0" "cgroup_cpu_ms_per_sec conf_pids_net = 0"
    by (simp_all add: conf_mem_cpu_def conf_pids_net_def)
  have ra: "initNsFromParent k_ok conf_mem_cpu 1234 proc0 =
      run_plan k_ok (mem_plan conf_mem_cpu 1234 @ pids_plan conf_mem_cpu 1234
        @ net_cls_plan conf_mem_cpu 1234 @ cpu_plan conf_mem_cpu 1234) proc0"
    using a by blast
  have rb: "initNsFromParent k_noquota conf_mem_cpu 1234 proc0 =
      run_plan k_noquota (mem_plan conf_mem_cpu 1234 @ pids_plan conf_mem_cpu 1234
        @ net_cls_plan conf_mem_cpu 1234 @ cpu_plan conf_mem_cpu 1234) proc0"
    using b by blast
  have rc: "initNsFromParent k_ok conf_pids_net 7 proc0 =
      run_plan k_ok (mem_plan conf_pids_net 7 @ pids_plan conf_pids_net 7
        @ net_cls_plan conf_pids_net 7 @ cpu_plan conf_pids_net 7) proc0"
    using c by blast
  have sk: "initNsFromParentPids k_ok conf_mem_cpu 1234 proc0 = (True, proc0)"
    "initNsFromParentNetCls k_ok conf_mem_cpu 1234 proc0 = (True, proc0)"
    "initNsFromParentMem k_ok conf_pids_net 7 proc0 = (True, proc0)"
    "initNsFromParentCpu k_ok conf_pids_net 7 proc0 = (True, proc0)"
    using a c z by blast+
  have ea: "fst (initNsFromParent k_ok conf_mem_cpu 1234 proc0)"
    "map fst (history (snd (initNsFromParent k_ok conf_mem_cpu 1234 proc0))) =
       mem_plan conf_mem_cpu 1234 @ pids_plan conf_mem_cpu 1234
        @ net_cls_plan conf_mem_cpu 1234 @ cpu_plan conf_mem_cpu 1234"
    unfolding ra plan_mem_cpu
    by (simp_all add: sys_def k_ok_def proc0_def call_failed_def truthy_def)
  have eb: "\<not> fst (initNsFromParent k_noquota conf_mem_cpu 1234 proc0)"
    "map fst (history (snd (initNsFromParent k_noquota conf_mem_cpu 1234 proc0))) =
       take 6 (mem_plan conf_mem_cpu 1234 @ pids_plan conf_mem_cpu 1234
        @ net_cls_plan conf_mem_cpu 1234 @ cpu_plan conf_mem_cpu 1234)"
    unfolding rb plan_mem_cpu
    by (simp_all add: sys_def k_noquota_def proc0_def call_failed_def truthy_def)
  have ec: "fst (initNsFromParent k_ok conf_pids_net 7 proc0)"
    "map fst (history (snd (initNsFromParent k_ok conf_pids_net 7 proc0))) =
       mem_plan conf_pids_net 7 @ pids_plan conf_pids_net 7
        @ net_cls_plan conf_pids_net 7 @ cpu_plan conf_pids_net 7"
    unfolding rc plan_pids_net
    by (simp_all add: sys_def k_ok_def proc0_def call_failed_def truthy_def)
  show ?thesis
    using z sk ea eb ec unfolding plan_mem_cpu plan_pids_net by simp
qed

section \<open>Claims about the descriptor table\<close>

text \<open>
  Claim C10. \<^verbatim>\<open>addMountPtHead\<close> and \<^verbatim>\<open>addMountPtTail\<close> return false exactly when a named
  source or destination environment variable is unset or the is-dir tag is none of yes, no,
  maybe; then the configuration, and with it the sequence of descriptors, is returned as it
  was. When they return true, the one finalized descriptor is inserted in front of the
  sequence by the head variant and behind it by the tail variant, and nothing else changes.
\<close>

theorem addMountPt_head_tail:
  fixes k :: kernel and env :: environ and nsjconf :: nsjconf_t and tag :: isDir_t
    and src' dst' fstype options' flags' is_mandatory' src_env dst_env src_content' is_symlink' s
  defines "H \<equiv> addMountPtHead k env nsjconf src' dst' fstype options' flags' tag is_mandatory'
                 src_env dst_env src_content' is_symlink' s"
    and "T \<equiv> addMountPtTail k env nsjconf src' dst' fstype options' flags' tag is_mandatory'
                 src_env dst_env src_content' is_symlink' s"
    and "A \<equiv> addMountPt k env mount_t_new src' dst' fstype options' flags' tag is_mandatory'
                 src_env dst_env src_content' is_symlink' s"
    and "unset \<equiv> (src_env \<noteq> [] \<and> env (c_str src_env) = None)
                   \<or> (dst_env \<noteq> [] \<and> env (c_str dst_env) = None)
                   \<or> (\<exists>v. tag = NS_DIR_INVALID v)"
  shows "(fst (fst H) \<longleftrightarrow> \<not> unset) \<and> (fst (fst T) \<longleftrightarrow> \<not> unset)
       \<and> (\<not> fst (fst H) \<longrightarrow> snd (fst H) = nsjconf)
       \<and> (\<not> fst (fst T) \<longrightarrow> snd (fst T) = nsjconf)
       \<and> (fst (fst H) \<longrightarrow>
            snd (fst H) = nsjconf\<lparr>mountpts := snd (fst A) # mountpts nsjconf\<rparr>)
       \<and> (fst (fst T) \<longrightarrow>
            snd (fst T) = nsjconf\<lparr>mountpts := mountpts nsjconf @ [snd (fst A)]\<rparr>)"
proof -
  have ok: "fst (fst A) \<longleftrightarrow> \<not> unset"
    unfolding A_def unset_def addMountPt_def
    by (cases tag) (auto simp: Let_def case_prod_beta split: option.splits)
  have h: "H = (if \<not> fst (fst A) then ((False, nsjconf), snd A)
                else ((True, nsjconf\<lparr>mountpts := snd (fst A) # mountpts nsjconf\<rparr>), snd A))"
    unfolding H_def A_def addMountPtHead_def by (simp add: case_prod_beta)
  have t: "T = (if \<not> fst (fst A) then ((False, nsjconf), snd A)
                else ((True, nsjconf\<lparr>mountpts := mountpts nsjconf @ [snd (fst A)]\<rparr>), snd A))"
    unfolding T_def A_def addMountPtTail_def by (simp add: case_prod_beta)
  show ?thesis
    unfolding h t using ok by simp
qed

theorem addMountPt_head_tail_witness:
  "fst (fst (addMountPtHead k_ok env_home conf_bin ''/.cache'' ''/cache'' [] [] 20480 NS_DIR_YES
              False ''HOME'' [] [] False proc0))
   \<and> mountpts (snd (fst (addMountPtHead k_ok env_home conf_bin ''/.cache'' ''/cache'' [] [] 20480
                          NS_DIR_YES False ''HOME'' [] [] False proc0))) = [mnt_cache, mnt_bin]
   \<and> fst (fst (addMountPtTail k_ok env_home conf_bin ''/.cache'' ''/cache'' [] [] 20480 NS_DIR_YES
              False ''HOME'' [] [] False proc0))
   \<and> mountpts (snd (fst (addMountPtTail k_ok env_home conf_bin ''/.cache'' ''/cache'' [] [] 20480
                          NS_DIR_YES False ''HOME'' [] [] False proc0))) = [mnt_bin, mnt_cache]
   \<and> \<not> fst (fst (addMountPtHead k_ok env_home conf_bin ''/.cache'' ''/cache'' [] [] 20480
                  NS_DIR_YES False ''XDG_CACHE_HOME'' [] [] False proc0))
   \<and> snd (fst (addMountPtHead k_ok env_home conf_bin ''/.cache'' ''/cache'' [] [] 20480
                  NS_DIR_YES False ''XDG_CACHE_HOME'' [] [] False proc0)) = conf_bin
   \<and> \<not> fst (fst (addMountPtTail k_ok env_home conf_bin ''/.cache'' ''/cache'' [] [] 20480
                  (NS_DIR_INVALID 3) False ''HOME'' [] [] False proc0))
   \<and> snd (fst (addMountPtTail k_ok env_home conf_bin ''/.cache'' ''/cache'' [] [] 20480
                  (NS_DIR_INVALID 3) False ''HOME'' [] [] False proc0)) = conf_bin"
proof -
  note ok = addMountPt_head_tail [where k = k_ok and env = env_home and nsjconf = conf_bin
      and src' = "''/.cache''" and dst' = "''/cache''" and fstype = "[]" and options' = "[]"
      and flags' = 20480 and tag = NS_DIR_YES and is_mandatory' = False and src_env = "''HOME''"
      and dst_env = "[]" and src_content' = "[]" and is_symlink' = False and s = proc0]
  note unset = addMountPt_head_tail [where k = k_ok and env = env_home and nsjconf = conf_bin
      and src' = "''/.cache''" and dst' = "''/cache''" and fstype = "[]" and options' = "[]"
      and flags' = 20480 and tag = NS_DIR_YES and is_mandatory' = False
      and src_env = "''XDG_CACHE_HOME''"
      and dst_env = "[]" and src_content' = "[]" and is_symlink' = False and s = proc0]
  note invalid = addMountPt_head_tail [where k = k_ok and env = env_home and nsjconf = conf_bin
      and src' = "''/.cache''" and dst' = "''/cache''" and fstype = "[]" and options' = "[]"
      and flags' = 20480 and tag = "NS_DIR_INVALID 3" and is_mandatory' = False
      and src_env = "''HOME''"
      and dst_env = "[]" and src_content' = "[]" and is_symlink' = False and s = proc0]
  have A: "addMountPt k_ok env_home mount_t_new ''/.cache'' ''/cache'' [] [] 20480 NS_DIR_YES
             False ''HOME'' [] [] False proc0 = ((True, mnt_cache), proc0)"
    by (simp add: addMountPt_def env_home_def c_str_def mount_t_new_def mnt_cache_def)
  have e: "env_home (c_str ''HOME'') \<noteq> None" "env_home (c_str ''XDG_CACHE_HOME'') = None"
    by (simp_all add: env_home_def c_str_def)
  have m: "mountpts conf_bin = [mnt_bin]"
    by (simp add: conf_bin_def)
  show ?thesis
    using ok unset invalid unfolding A using e m by simp
qed

text \<open>
  Claim C5. When \<^verbatim>\<open>addMountPt\<close> succeeds, the is-dir tag yes gives \<open>is_dir = True\<close> and no
  gives \<open>False\<close>; maybe gives \<open>False\<close> for a non-empty source-content, otherwise \<open>True\<close>
  for an empty source (the source after the environment variable has been prepended),
  otherwise the answer of \<^verbatim>\<open>isDir\<close> on the source path when the bind flag is set, and
  \<open>True\<close> when it is not. \<^verbatim>\<open>isDir\<close> on a path is true exactly when \<^verbatim>\<open>stat\<close> succeeds and
  reports a directory.
\<close>

theorem addMountPt_is_dir:
  fixes k :: kernel and env :: environ and mnt :: mount_t and tag :: isDir_t
    and src' dst' fstype options' flags' is_mandatory' src_env dst_env src_content' is_symlink' s
  defines "A \<equiv> addMountPt k env mnt src' dst' fstype options' flags' tag is_mandatory'
                 src_env dst_env src_content' is_symlink' s"
  assumes ok: "fst (fst A)"
  shows "(tag = NS_DIR_YES \<longrightarrow> is_dir (snd (fst A)))
       \<and> (tag = NS_DIR_NO \<longrightarrow> \<not> is_dir (snd (fst A)))
       \<and> (tag = NS_DIR_MAYBE \<longrightarrow>
            is_dir (snd (fst A)) =
              (if src_content' \<noteq> [] then False
               else if src (snd (fst A)) = [] then True
               else if flags' AND MS_BIND \<noteq> 0
                 then fst (isDir k (Some (c_str (src (snd (fst A))))) s)
               else True))
       \<and> (src_env = [] \<longrightarrow> src (snd (fst A)) = src mnt @ src')
       \<and> (\<forall>e. src_env \<noteq> [] \<and> env (c_str src_env) = Some e \<longrightarrow> src (snd (fst A)) = c_str e @ src')
       \<and> (\<forall>p. fst (isDir k (Some p) s) \<longleftrightarrow>
                 ret (k (history s) (SYS_stat p)) \<noteq> - 1
                 \<and> S_ISDIR (outv (k (history s) (SYS_stat p))))"
proof -
  have probe: "\<forall>p. fst (isDir k (Some p) s) \<longleftrightarrow>
      ret (k (history s) (SYS_stat p)) \<noteq> - 1 \<and> S_ISDIR (outv (k (history s) (SYS_stat p)))"
    by (simp add: isDir_def sys_def)
  have rest: "(tag = NS_DIR_YES \<longrightarrow> is_dir (snd (fst A)))
       \<and> (tag = NS_DIR_NO \<longrightarrow> \<not> is_dir (snd (fst A)))
       \<and> (tag = NS_DIR_MAYBE \<longrightarrow>
            is_dir (snd (fst A)) =
              (if src_content' \<noteq> [] then False
               else if src (snd (fst A)) = [] then True
               else if flags' AND MS_BIND \<noteq> 0
                 then fst (isDir k (Some (c_str (src (snd (fst A))))) s)
               else True))
       \<and> (src_env = [] \<longrightarrow> src (snd (fst A)) = src mnt @ src')
       \<and> (\<forall>e. src_env \<noteq> [] \<and> env (c_str src_env) = Some e \<longrightarrow> src (snd (fst A)) = c_str e @ src')"
    using ok unfolding A_def addMountPt_def
    by (cases tag) (auto simp: Let_def case_prod_beta split: option.splits if_splits)
  from rest probe show ?thesis by blast
qed

theorem addMountPt_is_dir_witness:
  "fst (fst (addMountPt k_regfile env_home mount_t_new ''/etc/passwd'' ''/etc/passwd'' [] []
               20480 NS_DIR_MAYBE True [] [] [] False proc0))
   \<and> \<not> is_dir (snd (fst (addMountPt k_regfile env_home mount_t_new ''/etc/passwd''
                 ''/etc/passwd'' [] [] 20480 NS_DIR_MAYBE True [] [] [] False proc0)))
   \<and> fst (fst (addMountPt k_regfile env_home mount_t_new [] ''/tmp'' ''tmpfs'' [] 0
                 NS_DIR_MAYBE True [] [] [] False proc0))
   \<and> is_dir (snd (fst (addMountPt k_regfile env_home mount_t_new [] ''/tmp'' ''tmpfs'' [] 0
                 NS_DIR_MAYBE True [] [] [] False proc0)))
   \<and> fst (fst (addMountPt k_regfile env_home mount_t_new ''/.cache'' ''/cache'' [] [] 20480
                 NS_DIR_YES False ''HOME'' [] [] False proc0))
   \<and> is_dir (snd (fst (addMountPt k_regfile env_home mount_t_new ''/.cache'' ''/cache'' [] []
                 20480 NS_DIR_YES False ''HOME'' [] [] False proc0)))
   \<and> src (snd (fst (addMountPt k_regfile env_home mount_t_new ''/.cache'' ''/cache'' [] []
                 20480 NS_DIR_YES False ''HOME'' [] [] False proc0))) = ''/home/user/.cache''
   \<and> fst (fst (addMountPt k_regfile env_home mount_t_new ''/bin'' ''/bin'' [] [] 20480
                 NS_DIR_NO True [] [] [] False proc0))
   \<and> \<not> is_dir (snd (fst (addMountPt k_regfile env_home mount_t_new ''/bin'' ''/bin'' [] [] 20480
                 NS_DIR_NO True [] [] [] False proc0)))"
proof -
  have ok: "fst (fst (addMountPt k_regfile env_home mount_t_new ''/etc/passwd'' ''/etc/passwd''
               [] [] 20480 NS_DIR_MAYBE True [] [] [] False proc0))"
    "fst (fst (addMountPt k_regfile env_home mount_t_new [] ''/tmp'' ''tmpfs'' [] 0
                 NS_DIR_MAYBE True [] [] [] False proc0))"
    "fst (fst (addMountPt k_regfile env_home mount_t_new ''/.cache'' ''/cache'' [] [] 20480
                 NS_DIR_YES False ''HOME'' [] [] False proc0))"
    "fst (fst (addMountPt k_regfile env_home mount_t_new ''/bin'' ''/bin'' [] [] 20480
                 NS_DIR_NO True [] [] [] False proc0))"
    by (simp_all add: addMountPt_def env_home_def c_str_def mount_t_new_def case_prod_beta
        Let_def MS_BIND_def)
  have e: "env_home (c_str ''HOME'') = Some ''/home/user''"
    by (simp add: env_home_def c_str_def)
  have b: "(20480 :: 64 word) AND MS_BIND \<noteq> 0" "src mount_t_new = []"
    by (simp_all add: MS_BIND_def mount_t_new_def)
  have st: "\<not> S_ISDIR (outv (k_regfile (history proc0) (SYS_stat ''/etc/passwd'')))"
    by (simp add: k_regfile_def S_ISDIR_def)
  show ?thesis
    using addMountPt_is_dir [OF ok(1)] addMountPt_is_dir [OF ok(2)] addMountPt_is_dir [OF ok(3)]
      addMountPt_is_dir [OF ok(4)] ok e b st
    by (simp add: c_str_def)
qed

text \<open>
  Claim C3, as stated, fails: finalization stores the caller's flags unchanged, also for a
  descriptor with source-content. \<^verbatim>\<open>/etc/hostname\<close> with content \<^verbatim>\<open>"jail\n"\<close> added with
  flags 0 sits in the sequence with flags 0, which contain none of bind, recursive and
  private (282624 together).
\<close>

theorem src_content_flags_counterexample:
  "fst (fst (addMountPtTail k_ok env_home conf_bin [] ''/etc/hostname'' [] [] 0 NS_DIR_MAYBE True
               [] [] jail_content False proc0))
   \<and> mountpts (snd (fst (addMountPtTail k_ok env_home conf_bin [] ''/etc/hostname'' [] [] 0
                           NS_DIR_MAYBE True [] [] jail_content False proc0)))
       = [mnt_bin, mnt_hostname]
   \<and> src_content mnt_hostname \<noteq> []
   \<and> flags mnt_hostname = 0
   \<and> MS_BIND OR MS_REC OR MS_PRIVATE = 282624
   \<and> flags mnt_hostname AND (MS_BIND OR MS_REC OR MS_PRIVATE) \<noteq> MS_BIND OR MS_REC OR MS_PRIVATE"
  by (simp add: addMountPtTail_def addMountPt_def mount_t_new_def mnt_hostname_def conf_bin_def
      jail_content_def MS_BIND_def MS_REC_def MS_PRIVATE_def Let_def)

lemma three_survive:
  "((x OR (MS_BIND OR MS_REC OR MS_PRIVATE)) AND NOT MS_RDONLY) AND (MS_BIND OR MS_REC OR MS_PRIVATE)
     = MS_BIND OR MS_REC OR MS_PRIVATE" for x :: "64 word"
proof -
  have a: "NOT MS_RDONLY AND (MS_BIND OR MS_REC OR MS_PRIVATE) = MS_BIND OR MS_REC OR MS_PRIVATE"
    by (simp add: MS_RDONLY_def MS_BIND_def MS_REC_def MS_PRIVATE_def)
  have "((x OR (MS_BIND OR MS_REC OR MS_PRIVATE)) AND NOT MS_RDONLY)
          AND (MS_BIND OR MS_REC OR MS_PRIVATE)
      = (x OR (MS_BIND OR MS_REC OR MS_PRIVATE))
          AND (NOT MS_RDONLY AND (MS_BIND OR MS_REC OR MS_PRIVATE))"
    by (simp only: and.assoc)
  also have "\<dots> = MS_BIND OR MS_REC OR MS_PRIVATE"
    unfolding a by (simp add: word_ao_absorbs)
  finally show ?thesis .
qed

lemma addMountPt_flags:
  assumes "fst (fst (addMountPt k env mnt src' dst' fstype options' flags' tag is_mandatory'
                       src_env dst_env src_content' is_symlink' s))"
  shows "flags (snd (fst (addMountPt k env mnt src' dst' fstype options' flags' tag is_mandatory'
                            src_env dst_env src_content' is_symlink' s))) = flags'"
  using assms unfolding addMountPt_def
  by (cases tag) (auto simp: Let_def case_prod_beta split: option.splits if_splits)

text \<open>
  Claim C3, amended. After finalization the flags of a descriptor are the flags the caller
  passed, and so are those of the descriptor that a successful \<^verbatim>\<open>addMountPtHead\<close> or
  \<^verbatim>\<open>addMountPtTail\<close> has put into the sequence. For a descriptor with non-empty source-content it is \<^verbatim>\<open>mountPt\<close>, in the mount
  pass, that ORs bind, recursive and private into the flags, after the staged file has been
  written and before it issues the kernel mount call: whenever the mount call for such a
  descriptor was issued, and so whenever the pass has marked it mounted, its flags are the
  former flags with the three added; the flags argument of that call is these flags with
  read-only cleared, which contain the three; and the call, the only mount call of
  \<^verbatim>\<open>mountPt\<close>, comes directly after the exclusive open of the staged file
  \<^verbatim>\<open>tmpdir/dynamic_file.<counter + 1>\<close>, the successful write of the content to the
  descriptor that open returned, and its close, with the staged file as the source. When
  \<^verbatim>\<open>mountPt\<close> issues no mount call, as when staging fails, it leaves the descriptor,
  flags included, as it was. The flags of a descriptor without source-content are left as
  they were.
\<close>

theorem src_content_flags_added_by_mountPt:
  fixes k :: kernel and env :: environ and mnt mpt :: mount_t and tag :: isDir_t
    and src' dst' fstype options' flags' is_mandatory' src_env dst_env src_content' is_symlink' s
    and newroot tmpdir s0 and nsjconf :: nsjconf_t
  defines "A \<equiv> addMountPt k env mnt src' dst' fstype options' flags' tag is_mandatory'
                 src_env dst_env src_content' is_symlink' s"
    and "H \<equiv> addMountPtHead k env nsjconf src' dst' fstype options' flags' tag is_mandatory'
                 src_env dst_env src_content' is_symlink' s"
    and "T \<equiv> addMountPtTail k env nsjconf src' dst' fstype options' flags' tag is_mandatory'
                 src_env dst_env src_content' is_symlink' s"
    and "M \<equiv> mountPt k mpt newroot tmpdir s0"
    and "B \<equiv> MS_BIND OR MS_REC OR MS_PRIVATE"
    and "staged \<equiv> snprintf PATH_MAX
                     (tmpdir @ ''/dynamic_file.'' @ to_string (unat (df_counter s0 + 1)))"
  shows "(fst (fst A) \<longrightarrow> flags (snd (fst A)) = flags')
       \<and> (src_content mpt \<noteq> [] \<and> mount_events (new_events s0 (snd M)) \<noteq> [] \<longrightarrow>
            flags (snd (fst M)) = flags mpt OR B \<and> flags (snd (fst M)) AND B = B)
       \<and> (src_content mpt \<noteq> [] \<and> \<not> mounted mpt \<and> mounted (snd (fst M)) \<longrightarrow>
            flags (snd (fst M)) = flags mpt OR B \<and> flags (snd (fst M)) AND B = B)
       \<and> (src_content mpt = [] \<longrightarrow> flags (snd (fst M)) = flags mpt)
       \<and> (mount_events (new_events s0 (snd M)) = [] \<longrightarrow> snd (fst M) = mpt)
       \<and> (src_content mpt \<noteq> [] \<longrightarrow>
            (\<forall>e \<in> set (mount_events (new_events s0 (snd M))).
               mount_flags_arg (fst e) = (flags mpt OR B) AND NOT MS_RDONLY
               \<and> mount_flags_arg (fst e) AND B = B))
       \<and> (src_content mpt \<noteq> [] \<and> mount_events (new_events s0 (snd M)) \<noteq> [] \<longrightarrow>
            (\<exists>a5 a6 a7 a.
               sublist [(SYS_open staged staging_flags 420, a5),
                        (UTIL_writeToFd (ret a5) (src_content mpt), a6),
                        (SYS_close (ret a5), a7),
                        (SYS_mount (Some staged)
                           (snprintf PATH_MAX (newroot @ ''/'' @ c_str (dst mpt)))
                           (Some (c_str (fs_type mpt))) ((flags mpt OR B) AND NOT MS_RDONLY)
                           (Some (c_str (options mpt))), a)]
                 (new_events s0 (snd M))
               \<and> 0 \<le> ret a5 \<and> truthy a6
               \<and> mount_events (new_events s0 (snd M)) =
                   [(SYS_mount (Some staged)
                       (snprintf PATH_MAX (newroot @ ''/'' @ c_str (dst mpt)))
                       (Some (c_str (fs_type mpt))) ((flags mpt OR B) AND NOT MS_RDONLY)
                       (Some (c_str (options mpt))), a)]))
       \<and> (fst (fst H) \<longrightarrow> flags (hd (mountpts (snd (fst H)))) = flags')
       \<and> (fst (fst T) \<longrightarrow> flags (last (mountpts (snd (fst T)))) = flags')"
proof -
  have fin: "fst (fst A) \<longrightarrow> flags (snd (fst A)) = flags'"
    unfolding A_def using addMountPt_flags by blast
  have head: "fst (fst H) \<longrightarrow> flags (hd (mountpts (snd (fst H)))) = flags'"
    unfolding H_def addMountPtHead_def
    using addMountPt_flags [of k env mount_t_new src' dst' fstype options' flags' tag
        is_mandatory' src_env dst_env src_content' is_symlink' s]
    by (simp add: Let_def case_prod_beta split: if_splits)
  have tail: "fst (fst T) \<longrightarrow> flags (last (mountpts (snd (fst T)))) = flags'"
    unfolding T_def addMountPtTail_def
    using addMountPt_flags [of k env mount_t_new src' dst' fstype options' flags' tag
        is_mandatory' src_env dst_env src_content' is_symlink' s]
    by (simp add: Let_def case_prod_beta split: if_splits)
  have absorb: "(flags mpt OR B) AND B = B"
    by (simp add: word_ao_absorbs)
  have m: "mountPt k mpt newroot tmpdir s0 = ((fst (fst M), snd (fst M)), snd M)"
    by (simp add: M_def)
  note eff = mountPt_effect [OF m]
  have old: "(src_content mpt \<noteq> [] \<and> mount_events (new_events s0 (snd M)) \<noteq> [] \<longrightarrow>
            flags (snd (fst M)) = flags mpt OR B \<and> flags (snd (fst M)) AND B = B)
       \<and> (src_content mpt \<noteq> [] \<and> \<not> mounted mpt \<and> mounted (snd (fst M)) \<longrightarrow>
            flags (snd (fst M)) = flags mpt OR B \<and> flags (snd (fst M)) AND B = B)
       \<and> (src_content mpt = [] \<longrightarrow> flags (snd (fst M)) = flags mpt)"
    using eff absorb unfolding B_def by auto
  have none: "mount_events (new_events s0 (snd M)) = [] \<longrightarrow> snd (fst M) = mpt"
    using eff by auto
  have arg: "src_content mpt \<noteq> [] \<longrightarrow>
            (\<forall>e \<in> set (mount_events (new_events s0 (snd M))).
               mount_flags_arg (fst e) = (flags mpt OR B) AND NOT MS_RDONLY
               \<and> mount_flags_arg (fst e) AND B = B)"
    using eff three_survive [of "flags mpt"] unfolding B_def
    by (auto simp: mount_flags_arg_def)
  have stg: "\<exists>a5 a6 a7 a.
               sublist [(SYS_open staged staging_flags 420, a5),
                        (UTIL_writeToFd (ret a5) (src_content mpt), a6),
                        (SYS_close (ret a5), a7),
                        (SYS_mount (Some staged)
                           (snprintf PATH_MAX (newroot @ ''/'' @ c_str (dst mpt)))
                           (Some (c_str (fs_type mpt))) ((flags mpt OR B) AND NOT MS_RDONLY)
                           (Some (c_str (options mpt))), a)]
                 (new_events s0 (snd M))
               \<and> 0 \<le> ret a5 \<and> truthy a6
               \<and> mount_events (new_events s0 (snd M)) =
                   [(SYS_mount (Some staged)
                       (snprintf PATH_MAX (newroot @ ''/'' @ c_str (dst mpt)))
                       (Some (c_str (fs_type mpt))) ((flags mpt OR B) AND NOT MS_RDONLY)
                       (Some (c_str (options mpt))), a)]"
    if sc: "src_content mpt \<noteq> []" and me: "mount_events (new_events s0 (snd M)) \<noteq> []"
  proof -
    let ?c = "SYS_mount (Some staged) (snprintf PATH_MAX (newroot @ ''/'' @ c_str (dst mpt)))
                (Some (c_str (fs_type mpt))) ((flags mpt OR B) AND NOT MS_RDONLY)
                (Some (c_str (options mpt)))"
    obtain a5 a6 a7 a where
      sub: "sublist [(SYS_open staged staging_flags 420, a5),
                     (UTIL_writeToFd (ret a5) (src_content mpt), a6),
                     (SYS_close (ret a5), a7), (?c, a)] (new_events s0 (snd M))"
      and ok: "0 \<le> ret a5" "truthy a6"
      using mountPt_staging [OF m sc me] unfolding staged_def B_def by blast
    have "(?c, a) \<in> set (new_events s0 (snd M))"
      using sub by (auto simp: sublist_def)
    then have "(?c, a) \<in> set (mount_events (new_events s0 (snd M)))"
      by (simp add: mount_events_def is_mount_simps)
    moreover obtain e where "mount_events (new_events s0 (snd M)) = [e]"
      using eff me by auto
    ultimately have "mount_events (new_events s0 (snd M)) = [(?c, a)]"
      by simp
    with sub ok show ?thesis
      by blast
  qed
  from fin old none arg stg head tail show ?thesis
    by blast
qed

lemma mountPt_hostname:
  "mountPt k_ok mnt_hostname root_dir tmp_dir proc0 =
     ((True, mnt_hostname\<lparr>flags := 282624, mounted := True\<rparr>),
      \<lparr>history =
         [(UTIL_createDirRecursively ''/run/user//nsjail.1000.root//etc/hostname'', Answer 1 EOTHER 0),
          (SYS_open ''/run/user//nsjail.1000.root//etc/hostname'' 524352 420, Answer 0 EOTHER 0),
          (SYS_close 0, Answer 0 EOTHER 0),
          (SYS_open ''/run/user//nsjail.1000.tmp/dynamic_file.1'' 524481 420, Answer 0 EOTHER 0),
          (UTIL_writeToFd 0 jail_content, Answer 1 EOTHER 0),
          (SYS_close 0, Answer 0 EOTHER 0),
          (SYS_mount (Some ''/run/user//nsjail.1000.tmp/dynamic_file.1'')
             ''/run/user//nsjail.1000.root//etc/hostname'' (Some []) 282624 (Some []),
           Answer 0 EOTHER 0),
          (SYS_unlink ''/run/user//nsjail.1000.tmp/dynamic_file.1'', Answer 0 EOTHER 0)],
       df_counter = 1\<rparr>)"
  by (simp add: mountPt_def mountPt_mount_def mnt_hostname_def root_dir_def tmp_dir_def
      proc0_def sys_def k_ok_def truthy_def Let_def path_eval open_flags fmt_eval
      jail_content_def MS_BIND_def MS_REC_def MS_PRIVATE_def MS_RDONLY_def)

lemma mountPt_hostname_nowrite:
  "mountPt k_nowrite mnt_hostname root_dir tmp_dir proc0 =
     ((False, mnt_hostname),
      \<lparr>history =
         [(UTIL_createDirRecursively ''/run/user//nsjail.1000.root//etc/hostname'', Answer 1 EOTHER 0),
          (SYS_open ''/run/user//nsjail.1000.root//etc/hostname'' 524352 420, Answer 0 EOTHER 0),
          (SYS_close 0, Answer 0 EOTHER 0),
          (SYS_open ''/run/user//nsjail.1000.tmp/dynamic_file.1'' 524481 420, Answer 0 EOTHER 0),
          (UTIL_writeToFd 0 jail_content, Answer 0 EOTHER 0),
          (SYS_close 0, Answer 0 EOTHER 0)],
       df_counter = 1\<rparr>)"
  by (simp add: mountPt_def mountPt_mount_def mnt_hostname_def root_dir_def tmp_dir_def
      proc0_def sys_def k_nowrite_def k_ok_def truthy_def Let_def path_eval open_flags fmt_eval
      jail_content_def)

theorem src_content_flags_added_by_mountPt_witness:
  "fst (fst (addMountPt k_ok env_home mount_t_new [] ''/etc/hostname'' [] [] 0 NS_DIR_MAYBE True
               [] [] jail_content False proc0))
   \<and> flags (snd (fst (addMountPt k_ok env_home mount_t_new [] ''/etc/hostname'' [] [] 0
                        NS_DIR_MAYBE True [] [] jail_content False proc0))) = 0
   \<and> src_content mnt_hostname \<noteq> []
   \<and> mount_events (new_events proc0 (snd (mountPt k_ok mnt_hostname root_dir tmp_dir proc0))) \<noteq> []
   \<and> \<not> mounted mnt_hostname
   \<and> mounted (snd (fst (mountPt k_ok mnt_hostname root_dir tmp_dir proc0)))
   \<and> flags (snd (fst (mountPt k_ok mnt_hostname root_dir tmp_dir proc0))) = 282624
   \<and> src_content mnt_bin = []
   \<and> flags (snd (fst (mountPt k_ok mnt_bin root_dir tmp_dir proc0))) = 20481
   \<and> mount_events (new_events proc0 (snd (mountPt k_ok mnt_hostname root_dir tmp_dir proc0))) =
       [(SYS_mount (Some ''/run/user//nsjail.1000.tmp/dynamic_file.1'')
           ''/run/user//nsjail.1000.root//etc/hostname'' (Some []) 282624 (Some []),
         Answer 0 EOTHER 0)]
   \<and> mount_events (new_events proc0 (snd (mountPt k_nowrite mnt_hostname root_dir tmp_dir proc0)))
       = []
   \<and> snd (fst (mountPt k_nowrite mnt_hostname root_dir tmp_dir proc0)) = mnt_hostname"
proof -
  note tw = src_content_flags_added_by_mountPt [where k = k_nowrite and mpt = mnt_hostname
      and newroot = root_dir and tmpdir = tmp_dir and ?s0.0 = proc0,
      THEN conjunct2, THEN conjunct2, THEN conjunct2, THEN conjunct2, THEN conjunct1]
  have nw: "mount_events (new_events proc0
      (snd (mountPt k_nowrite mnt_hostname root_dir tmp_dir proc0))) = []"
    unfolding mountPt_hostname_nowrite
    by (simp add: new_events_def proc0_def mount_events_simps is_mount_simps)
  have same: "snd (fst (mountPt k_nowrite mnt_hostname root_dir tmp_dir proc0)) = mnt_hostname"
    using tw nw by simp
  have ev: "mount_events (new_events proc0
      (snd (mountPt k_ok mnt_hostname root_dir tmp_dir proc0))) =
       [(SYS_mount (Some ''/run/user//nsjail.1000.tmp/dynamic_file.1'')
           ''/run/user//nsjail.1000.root//etc/hostname'' (Some []) 282624 (Some []),
         Answer 0 EOTHER 0)]"
    unfolding mountPt_hostname
    by (simp add: new_events_def proc0_def mount_events_simps is_mount_simps)
  note th = src_content_flags_added_by_mountPt [where k = k_ok and env = env_home
      and mnt = mount_t_new and src' = "[]" and dst' = "''/etc/hostname''" and fstype = "[]"
      and options' = "[]" and flags' = 0 and tag = NS_DIR_MAYBE and is_mandatory' = True
      and src_env = "[]" and dst_env = "[]" and src_content' = jail_content
      and is_symlink' = False and s = proc0 and newroot = root_dir and tmpdir = tmp_dir
      and ?s0.0 = proc0 and nsjconf = conf_bin]
  have a: "fst (fst (addMountPt k_ok env_home mount_t_new [] ''/etc/hostname'' [] [] 0
               NS_DIR_MAYBE True [] [] jail_content False proc0))"
    by (simp add: addMountPt_def mount_t_new_def jail_content_def Let_def)
  have c: "src_content mnt_hostname \<noteq> []" "\<not> mounted mnt_hostname" "flags mnt_hostname = 0"
    "src_content mnt_bin = []" "flags mnt_bin = 20481"
    by (simp_all add: mnt_hostname_def mnt_bin_def jail_content_def)
  have e: "mount_events (new_events proc0 (snd (mountPt k_ok mnt_hostname root_dir tmp_dir proc0)))
      \<noteq> []"
    unfolding mountPt_hostname by (simp add: new_events_def proc0_def mount_events_simps is_mount_simps)
  have b: "MS_BIND OR MS_REC OR MS_PRIVATE = 282624"
    by (simp add: MS_BIND_def MS_REC_def MS_PRIVATE_def)
  have m: "mounted (snd (fst (mountPt k_ok mnt_hostname root_dir tmp_dir proc0)))"
    unfolding mountPt_hostname by simp
  have old: "fst (fst (addMountPt k_ok env_home mount_t_new [] ''/etc/hostname'' [] [] 0
               NS_DIR_MAYBE True [] [] jail_content False proc0))
   \<and> flags (snd (fst (addMountPt k_ok env_home mount_t_new [] ''/etc/hostname'' [] [] 0
                        NS_DIR_MAYBE True [] [] jail_content False proc0))) = 0
   \<and> src_content mnt_hostname \<noteq> []
   \<and> mount_events (new_events proc0 (snd (mountPt k_ok mnt_hostname root_dir tmp_dir proc0))) \<noteq> []
   \<and> \<not> mounted mnt_hostname
   \<and> mounted (snd (fst (mountPt k_ok mnt_hostname root_dir tmp_dir proc0)))
   \<and> flags (snd (fst (mountPt k_ok mnt_hostname root_dir tmp_dir proc0))) = 282624
   \<and> src_content mnt_bin = []
   \<and> flags (snd (fst (mountPt k_ok mnt_bin root_dir tmp_dir proc0))) = 20481"
    using th [where mpt = mnt_hostname, THEN conjunct1]
      th [where mpt = mnt_hostname, THEN conjunct2, THEN conjunct1]
      th [where mpt = mnt_bin, THEN conjunct2, THEN conjunct2, THEN conjunct2, THEN conjunct1]
      a c e b m by simp
  show ?thesis
    using old ev nw same by simp
qed

section \<open>Claims about the namespace constructor\<close>

text \<open>
  Claim C9. Without \<^verbatim>\<open>CLONE_NEWNS\<close>, \<^verbatim>\<open>initNsInternal\<close> (and so \<^verbatim>\<open>initNs\<close> outside the
  standalone-exec mode) returns false with no call made when the chroot path is empty;
  otherwise it calls \<^verbatim>\<open>chroot\<close> on that path and, when that succeeded, \<^verbatim>\<open>chdir("/")\<close>, and
  returns true exactly when both calls succeed. These are its only calls; the configuration
  comes back unchanged, and neither the result nor the calls depend on the mount
  descriptors.
\<close>

theorem initNsInternal_without_newns:
  fixes k :: kernel and env :: environ and nsjconf :: nsjconf_t and s :: proc
  defines "I \<equiv> initNsInternal k env nsjconf s"
    and "a1 \<equiv> k (history s) (SYS_chroot (c_str (chroot nsjconf)))"
  defines "a2 \<equiv> k (history s @ [(SYS_chroot (c_str (chroot nsjconf)), a1)]) (SYS_chdir ''/'')"
  assumes off: "\<not> clone_newns nsjconf"
  shows "snd (fst I) = nsjconf
       \<and> (chroot nsjconf = [] \<longrightarrow> I = ((False, nsjconf), s))
       \<and> (chroot nsjconf \<noteq> [] \<longrightarrow>
            (fst (fst I) \<longleftrightarrow> ret a1 \<noteq> - 1 \<and> ret a2 \<noteq> - 1)
            \<and> history (snd I) = history s @ new_events s (snd I)
            \<and> new_events s (snd I) =
                 (SYS_chroot (c_str (chroot nsjconf)), a1)
                   # (if ret a1 = - 1 then [] else [(SYS_chdir ''/'', a2)]))
       \<and> (mode nsjconf \<noteq> MODE_STANDALONE_EXECVE \<longrightarrow>
            initNs k env nsjconf s = Some ((Returned (fst (fst I)), nsjconf), snd I))
       \<and> (\<forall>ms. initNsInternal k env (nsjconf\<lparr>mountpts := ms\<rparr>) s =
                  ((fst (fst I), nsjconf\<lparr>mountpts := ms\<rparr>), snd I))"
  using off unfolding I_def a2_def a1_def initNsInternal_def initNsInternal_chroot_def initNs_def
  by (simp add: Let_def sys_def new_events_def)

theorem initNsInternal_without_newns_witness:
  "\<not> clone_newns conf_chroot \<and> chroot conf_chroot \<noteq> []
   \<and> initNsInternal k_ok env_home conf_chroot proc0 =
       ((True, conf_chroot),
        \<lparr>history = [(SYS_chroot ''/srv/jail'', Answer 0 EOTHER 0), (SYS_chdir ''/'', Answer 0 EOTHER 0)],
         df_counter = 0\<rparr>)
   \<and> mountpts (snd (fst (initNsInternal k_ok env_home conf_chroot proc0))) = [mnt_bin]
   \<and> initNsInternal k_nochroot env_home conf_chroot proc0 =
       ((False, conf_chroot),
        \<lparr>history = [(SYS_chroot ''/srv/jail'', Answer (- 1) EPERM 0)], df_counter = 0\<rparr>)
   \<and> \<not> clone_newns (conf_chroot\<lparr>chroot := []\<rparr>)
   \<and> initNsInternal k_ok env_home (conf_chroot\<lparr>chroot := []\<rparr>) proc0 =
       ((False, conf_chroot\<lparr>chroot := []\<rparr>), proc0)"
proof -
  have c: "\<not> clone_newns conf_chroot" "chroot conf_chroot = ''/srv/jail''"
    "\<not> clone_newns (conf_chroot\<lparr>chroot := []\<rparr>)" "mountpts conf_chroot = [mnt_bin]"
    by (simp_all add: conf_chroot_def conf_bin_def)
  note ok = initNsInternal_without_newns [OF c(1), where k = k_ok and s = proc0 and env = env_home]
  note no = initNsInternal_without_newns [OF c(1), where k = k_nochroot and s = proc0 and env = env_home]
  note em = initNsInternal_without_newns [OF c(3), where k = k_ok and s = proc0 and env = env_home]
  have a: "k_ok [] (SYS_chroot ''/srv/jail'') = Answer 0 EOTHER 0"
    "k_ok [(SYS_chroot ''/srv/jail'', Answer 0 EOTHER 0)] (SYS_chdir ''/'') = Answer 0 EOTHER 0"
    "k_nochroot [] (SYS_chroot ''/srv/jail'') = Answer (- 1) EPERM 0"
    by (simp_all add: k_ok_def k_nochroot_def)
  have p: "history proc0 = []" "df_counter proc0 = 0"
    by (simp_all add: proc0_def)
  have dfc: "df_counter (snd (initNsInternal k env_home conf_chroot proc0)) = 0" for k
    by (simp add: initNsInternal_def initNsInternal_chroot_def c Let_def sys_def p case_prod_beta)
  have r1: "initNsInternal k_ok env_home conf_chroot proc0 =
       ((True, conf_chroot),
        \<lparr>history = [(SYS_chroot ''/srv/jail'', Answer 0 EOTHER 0), (SYS_chdir ''/'', Answer 0 EOTHER 0)],
         df_counter = 0\<rparr>)"
    using ok dfc [of k_ok] unfolding c p by (simp add: c_str_def a prod_eq_iff proc.equality)
  have r2: "initNsInternal k_nochroot env_home conf_chroot proc0 =
       ((False, conf_chroot),
        \<lparr>history = [(SYS_chroot ''/srv/jail'', Answer (- 1) EPERM 0)], df_counter = 0\<rparr>)"
    using no dfc [of k_nochroot] unfolding c p by (simp add: c_str_def a prod_eq_iff proc.equality)
  have r3: "initNsInternal k_ok env_home (conf_chroot\<lparr>chroot := []\<rparr>) proc0 =
       ((False, conf_chroot\<lparr>chroot := []\<rparr>), proc0)"
    using em by simp
  show ?thesis
    using c r1 r2 r3 by simp
qed

lemma mkdir_paths_append: "mkdir_paths (xs @ ys) = mkdir_paths xs @ mkdir_paths ys"
  by (induction xs rule: mkdir_paths.induct) simp_all

lemma mkdirAndTest_events:
  assumes "mkdirAndTest k d s = (ok, s')"
  shows "\<exists>evs. history s' = history s @ evs \<and> mkdir_paths evs = [c_str d]"
  using assms unfolding mkdirAndTest_def
  by (auto simp: Let_def split: prod.splits if_splits elim!: sysE)

lemma first_usable_events:
  assumes "first_usable k ds s = (r, s')"
  shows "\<exists>evs n. history s' = history s @ evs \<and> n \<le> length ds
           \<and> mkdir_paths evs = map c_str (take n ds)
           \<and> (case r of None \<Rightarrow> n = length ds | Some d \<Rightarrow> 0 < n \<and> d = ds ! (n - 1))"
  using assms
proof (induction ds arbitrary: s)
  case Nil
  then show ?case by simp
next
  case (Cons d ds)
  obtain ok s1 where t: "mkdirAndTest k d s = (ok, s1)"
    by (cases "mkdirAndTest k d s")
  from mkdirAndTest_events [OF t] obtain e1 where
    e1: "history s1 = history s @ e1" "mkdir_paths e1 = [c_str d]" by blast
  show ?case
  proof (cases ok)
    case True
    with Cons.prems t have "r = Some d" "s' = s1" by simp_all
    with e1 show ?thesis
      by (intro exI [of _ e1] exI [of _ 1]) simp
  next
    case False
    with Cons.prems t have "first_usable k ds s1 = (r, s')" by simp
    from Cons.IH [OF this] obtain evs n where
      r: "history s' = history s1 @ evs" "n \<le> length ds"
        "mkdir_paths evs = map c_str (take n ds)"
        "case r of None \<Rightarrow> n = length ds | Some d \<Rightarrow> 0 < n \<and> d = ds ! (n - 1)"
      by blast
    show ?thesis
      using e1 r
      by (intro exI [of _ "e1 @ evs"] exI [of _ "Suc n"])
        (auto simp: mkdir_paths_append split: option.splits)
  qed
qed

lemma getDir_last_choose:
  "getDir_last k nsjconf name s =
     (case first_usable k [''/dev/shm/nsjail.'' @ to_string (unat (orig_uid nsjconf)) @ ''.'' @ c_str name] s of
        (Some d, s1) \<Rightarrow> (Some d, s1)
      | (None, s1) \<Rightarrow>
          let (a, s2) = sys k UTIL_rnd64 s1 in
          first_usable k [random_candidate nsjconf name (word_of_nat (outv a))] s2)"
  by (simp add: getDir_last_def random_candidate_def Let_def case_prod_beta)

lemma first_usable_append:
  "first_usable k (xs @ ys) s =
     (case first_usable k xs s of (Some d, s1) \<Rightarrow> (Some d, s1) | (None, s1) \<Rightarrow> first_usable k ys s1)"
  by (induction xs arbitrary: s) (simp_all add: Let_def case_prod_beta)

lemma getDir_choose_dir: "getDir k env nsjconf name s = choose_dir k env nsjconf name s"
proof -
  have "choose_dir k env nsjconf name s =
      (case first_usable k
              ([''/run/user//nsjail.'' @ to_string (unat (orig_uid nsjconf)) @ ''.'' @ c_str name,
                ''/tmp/nsjail.'' @ to_string (unat (orig_uid nsjconf)) @ ''.'' @ c_str name]
               @ (case env ''TMPDIR'' of
                    Some tmp \<Rightarrow> [c_str tmp @ ''/nsjail.'' @ to_string (unat (orig_uid nsjconf)) @ ''.''
                                  @ c_str name]
                  | None \<Rightarrow> [])) s of
         (Some d, s1) \<Rightarrow> (Some d, s1)
       | (None, s1) \<Rightarrow> getDir_last k nsjconf name s1)"
    unfolding choose_dir_def fixed_candidates_def getDir_last_choose
    by (simp add: first_usable_append case_prod_beta split: option.splits)
  also have "\<dots> = getDir k env nsjconf name s"
    unfolding getDir_def
    by (cases "env ''TMPDIR''") (simp_all add: Let_def case_prod_beta)
  finally show ?thesis by simp
qed

lemma first_usable_Some:
  assumes "first_usable k ds s = (Some d, s')"
  shows "\<exists>xs ys s1. ds = xs @ d # ys \<and> first_usable k xs s = (None, s1)
           \<and> mkdirAndTest k d s1 = (True, s')"
  using assms
proof (induction ds arbitrary: s)
  case Nil
  then show ?case by simp
next
  case (Cons x ds)
  obtain ok s1 where t: "mkdirAndTest k x s = (ok, s1)"
    by (cases "mkdirAndTest k x s")
  show ?case
  proof (cases ok)
    case True
    with Cons.prems t have "x = d" "s1 = s'" by simp_all
    with t True show ?thesis
      by (intro exI [of _ "[]"] exI [of _ ds] exI [of _ s]) simp
  next
    case False
    with Cons.prems t have "first_usable k ds s1 = (Some d, s')" by simp
    from Cons.IH [OF this] obtain xs ys s2 where
      "ds = xs @ d # ys" "first_usable k xs s1 = (None, s2)" "mkdirAndTest k d s2 = (True, s')"
      by blast
    with t False show ?thesis
      by (intro exI [of _ "x # xs"] exI [of _ ys] exI [of _ s2]) simp
  qed
qed

lemma first_usable_None:
  assumes "first_usable k ds s = (None, s')" and "ds = xs @ d # ys"
  shows "\<not> fst (mkdirAndTest k d (snd (first_usable k xs s)))"
  using assms
proof (induction xs arbitrary: s ds)
  case Nil
  then show ?case
    by (cases "mkdirAndTest k d s") (auto split: if_splits)
next
  case (Cons x xs)
  obtain ok s1 where t: "mkdirAndTest k x s = (ok, s1)"
    by (cases "mkdirAndTest k x s")
  with Cons.prems have f: "\<not> ok" "first_usable k (xs @ d # ys) s1 = (None, s')"
    by (auto split: if_splits)
  from Cons.IH [OF f(2) refl] t f(1) show ?case by simp
qed

text \<open>
  Claim C8. \<^verbatim>\<open>getDir\<close> is the chooser of the specification: it tries
  \<^verbatim>\<open>/run/user//nsjail.<uid>.<label>\<close> (with the empty path segment),
  \<^verbatim>\<open>/tmp/nsjail.<uid>.<label>\<close>, \<^verbatim>\<open>$TMPDIR/nsjail.<uid>.<label>\<close> when \<^verbatim>\<open>TMPDIR\<close> is set,
  \<^verbatim>\<open>/dev/shm/nsjail.<uid>.<label>\<close> and \<^verbatim>\<open>/tmp/nsjail.<uid>.<label>.<random64>\<close>, in this
  order, and returns the first on which \<^verbatim>\<open>mkdirAndTest\<close> succeeds. The paths it hands to
  \<^verbatim>\<open>mkdir\<close> are an initial stretch of these candidates; it returns the last one tried, or
  null after all of them have been tried. \<^verbatim>\<open>mkdirAndTest\<close> succeeds exactly when
  \<^verbatim>\<open>mkdir\<close> succeeds or fails with \<^verbatim>\<open>EEXIST\<close> and \<^verbatim>\<open>access(R_OK)\<close> succeeds; of a list
  tried in order the one returned is the first that succeeds, and nothing is returned only
  when each one fails.
\<close>

theorem getDir_tries_candidates_in_order:
  fixes k :: kernel and env :: environ and nsjconf :: nsjconf_t and name :: string and s :: proc
  defines "G \<equiv> getDir k env nsjconf name s"
    and "fixed \<equiv> fixed_candidates env nsjconf name"
  shows "G = choose_dir k env nsjconf name s
       \<and> (\<exists>evs rnd n. history (snd G) = history s @ evs
             \<and> n \<le> length fixed + 1
             \<and> mkdir_paths evs = map c_str (take n (fixed @ [random_candidate nsjconf name rnd]))
             \<and> (case fst G of
                   None \<Rightarrow> n = length fixed + 1
                 | Some d \<Rightarrow> 0 < n \<and> d = (fixed @ [random_candidate nsjconf name rnd]) ! (n - 1)))
       \<and> (\<forall>ds d s0 s'. first_usable k ds s0 = (Some d, s') \<longrightarrow>
             (\<exists>xs ys s1. ds = xs @ d # ys \<and> first_usable k xs s0 = (None, s1)
                \<and> mkdirAndTest k d s1 = (True, s')))
       \<and> (\<forall>ds xs d ys s0 s'. first_usable k ds s0 = (None, s') \<and> ds = xs @ d # ys \<longrightarrow>
             \<not> fst (mkdirAndTest k d (snd (first_usable k xs s0))))
       \<and> (\<forall>d s0. fst (mkdirAndTest k d s0) \<longleftrightarrow>
             (ret (k (history s0) (SYS_mkdir (c_str d) 493)) \<noteq> - 1
              \<or> errno (k (history s0) (SYS_mkdir (c_str d) 493)) = EEXIST)
             \<and> ret (k (history s0 @ [(SYS_mkdir (c_str d) 493, k (history s0) (SYS_mkdir (c_str d) 493))])
                      (SYS_access (c_str d) R_OK)) \<noteq> - 1)"
proof -
  have eq: "G = choose_dir k env nsjconf name s"
    unfolding G_def by (rule getDir_choose_dir)
  have test: "\<forall>d s0. fst (mkdirAndTest k d s0) \<longleftrightarrow>
             (ret (k (history s0) (SYS_mkdir (c_str d) 493)) \<noteq> - 1
              \<or> errno (k (history s0) (SYS_mkdir (c_str d) 493)) = EEXIST)
             \<and> ret (k (history s0 @ [(SYS_mkdir (c_str d) 493, k (history s0) (SYS_mkdir (c_str d) 493))])
                      (SYS_access (c_str d) R_OK)) \<noteq> - 1"
    by (auto simp: mkdirAndTest_def sys_def Let_def)
  obtain r1 s1 where f1: "first_usable k fixed s = (r1, s1)"
    by (cases "first_usable k fixed s")
  from first_usable_events [OF f1] obtain e1 n1 where
    e1: "history s1 = history s @ e1" "n1 \<le> length fixed"
      "mkdir_paths e1 = map c_str (take n1 fixed)"
      "case r1 of None \<Rightarrow> n1 = length fixed | Some d \<Rightarrow> 0 < n1 \<and> d = fixed ! (n1 - 1)"
    by blast
  have trace: "\<exists>evs rnd n. history (snd G) = history s @ evs
             \<and> n \<le> length fixed + 1
             \<and> mkdir_paths evs = map c_str (take n (fixed @ [random_candidate nsjconf name rnd]))
             \<and> (case fst G of
                   None \<Rightarrow> n = length fixed + 1
                 | Some d \<Rightarrow> 0 < n \<and> d = (fixed @ [random_candidate nsjconf name rnd]) ! (n - 1))"
  proof (cases r1)
    case (Some d)
    then have g: "G = (Some d, s1)"
      using eq f1 by (simp add: choose_dir_def fixed_def)
    from Some e1(4) have n: "0 < n1" "d = fixed ! (n1 - 1)" by simp_all
    from n(1) e1(2) have "n1 - 1 < length fixed" by arith
    with n(2) have "d = (fixed @ [random_candidate nsjconf name 0]) ! (n1 - 1)"
      by (simp add: nth_append)
    with g e1 n show ?thesis
      by (intro exI [of _ e1] exI [of _ 0] exI [of _ n1]) simp
  next
    case None
    obtain a s2 where c: "sys k UTIL_rnd64 s1 = (a, s2)"
      by (cases "sys k UTIL_rnd64 s1")
    let ?rc = "random_candidate nsjconf name (word_of_nat (outv a))"
    obtain r2 s3 where f2: "first_usable k [?rc] s2 = (r2, s3)"
      by (cases "first_usable k [?rc] s2")
    have g: "G = (r2, s3)"
      using eq f1 None c f2 by (simp add: choose_dir_def fixed_def)
    have h2: "history s2 = history s1 @ [(UTIL_rnd64, a)]"
      using c by (auto elim: sysE)
    from first_usable_events [OF f2] obtain e2 n2 where
      e2: "history s3 = history s2 @ e2" "n2 \<le> length [?rc]"
        "mkdir_paths e2 = map c_str (take n2 [?rc])"
        "case r2 of None \<Rightarrow> n2 = length [?rc] | Some d \<Rightarrow> 0 < n2 \<and> d = [?rc] ! (n2 - 1)"
      by blast
    have n2: "n2 = 1"
      using e2(2,4) by (cases r2) auto
    from None e1(4) have n1: "n1 = length fixed" by simp
    have last: "case r2 of None \<Rightarrow> True | Some d \<Rightarrow> d = ?rc"
      using e2(4) n2 by (cases r2) auto
    show ?thesis
      using g e1(1,3) h2 e2(1,3) n1 n2 last
      by (intro exI [of _ "e1 @ (UTIL_rnd64, a) # e2"] exI [of _ "word_of_nat (outv a)"]
          exI [of _ "length fixed + 1"])
        (auto simp: mkdir_paths_append split: option.splits)
  qed
  from eq trace first_usable_Some first_usable_None test show ?thesis
    by blast
qed

theorem getDir_tries_candidates_in_order_witness:
  "fst (getDir k_ok env_home conf_mem_cpu ''root'' proc0) = Some ''/run/user//nsjail.1000.root''
   \<and> map fst (history (snd (getDir k_ok env_home conf_mem_cpu ''root'' proc0))) =
       [SYS_mkdir ''/run/user//nsjail.1000.root'' 493, SYS_access ''/run/user//nsjail.1000.root'' 4]
   \<and> fst (getDir k_vartmp env_tmpdir conf_mem_cpu ''root'' proc0) = Some ''/var/tmp/nsjail.1000.root''
   \<and> map fst (history (snd (getDir k_vartmp env_tmpdir conf_mem_cpu ''root'' proc0))) =
       [SYS_mkdir ''/run/user//nsjail.1000.root'' 493, SYS_mkdir ''/tmp/nsjail.1000.root'' 493,
        SYS_mkdir ''/var/tmp/nsjail.1000.root'' 493, SYS_access ''/var/tmp/nsjail.1000.root'' 4]
   \<and> fst (getDir k_nodirs env_home conf_mem_cpu ''root'' proc0) = None
   \<and> map fst (history (snd (getDir k_nodirs env_home conf_mem_cpu ''root'' proc0))) =
       [SYS_mkdir ''/run/user//nsjail.1000.root'' 493, SYS_mkdir ''/tmp/nsjail.1000.root'' 493,
        SYS_mkdir ''/dev/shm/nsjail.1000.root'' 493, UTIL_rnd64,
        SYS_mkdir ''/tmp/nsjail.1000.root.42'' 493]"
proof -
  have f: "fixed_candidates env_home conf_mem_cpu ''root'' =
      [''/run/user//nsjail.1000.root'', ''/tmp/nsjail.1000.root'', ''/dev/shm/nsjail.1000.root'']"
    "fixed_candidates env_tmpdir conf_mem_cpu ''root'' =
      [''/run/user//nsjail.1000.root'', ''/tmp/nsjail.1000.root'', ''/var/tmp/nsjail.1000.root'',
       ''/dev/shm/nsjail.1000.root'']"
    by (simp_all add: fixed_candidates_def env_home_def env_tmpdir_def conf_mem_cpu_def c_str_def
        fmt_eval)
  have r: "random_candidate conf_mem_cpu ''root'' 42 = ''/tmp/nsjail.1000.root.42''"
    by (simp add: random_candidate_def conf_mem_cpu_def c_str_def fmt_eval)
  have a: "getDir k_ok env_home conf_mem_cpu ''root'' proc0
      = choose_dir k_ok env_home conf_mem_cpu ''root'' proc0"
    using getDir_tries_candidates_in_order [of k_ok env_home conf_mem_cpu "''root''" proc0]
    by blast
  have b: "getDir k_vartmp env_tmpdir conf_mem_cpu ''root'' proc0
      = choose_dir k_vartmp env_tmpdir conf_mem_cpu ''root'' proc0"
    using getDir_tries_candidates_in_order [of k_vartmp env_tmpdir conf_mem_cpu "''root''" proc0]
    by blast
  have c: "getDir k_nodirs env_home conf_mem_cpu ''root'' proc0
      = choose_dir k_nodirs env_home conf_mem_cpu ''root'' proc0"
    using getDir_tries_candidates_in_order [of k_nodirs env_home conf_mem_cpu "''root''" proc0]
    by blast
  have ea: "choose_dir k_ok env_home conf_mem_cpu ''root'' proc0 =
      (Some ''/run/user//nsjail.1000.root'',
       \<lparr>history = [(SYS_mkdir ''/run/user//nsjail.1000.root'' 493, Answer 0 EOTHER 0),
                   (SYS_access ''/run/user//nsjail.1000.root'' 4, Answer 0 EOTHER 0)],
        df_counter = 0\<rparr>)"
    unfolding choose_dir_def f
    by (simp add: mkdirAndTest_def sys_def k_ok_def proc0_def c_str_def R_OK_def)
  have eb: "choose_dir k_vartmp env_tmpdir conf_mem_cpu ''root'' proc0 =
      (Some ''/var/tmp/nsjail.1000.root'',
       \<lparr>history = [(SYS_mkdir ''/run/user//nsjail.1000.root'' 493, Answer (- 1) EACCES 0),
                   (SYS_mkdir ''/tmp/nsjail.1000.root'' 493, Answer (- 1) EACCES 0),
                   (SYS_mkdir ''/var/tmp/nsjail.1000.root'' 493, Answer (- 1) EEXIST 0),
                   (SYS_access ''/var/tmp/nsjail.1000.root'' 4, Answer 0 EOTHER 0)],
        df_counter = 0\<rparr>)"
    unfolding choose_dir_def f
    by (simp add: mkdirAndTest_def sys_def k_vartmp_def k_ok_def proc0_def c_str_def R_OK_def)
  have ec: "choose_dir k_nodirs env_home conf_mem_cpu ''root'' proc0 =
      (None,
       \<lparr>history = [(SYS_mkdir ''/run/user//nsjail.1000.root'' 493, Answer (- 1) EACCES 0),
                   (SYS_mkdir ''/tmp/nsjail.1000.root'' 493, Answer (- 1) EACCES 0),
                   (SYS_mkdir ''/dev/shm/nsjail.1000.root'' 493, Answer (- 1) EACCES 0),
                   (UTIL_rnd64, Answer 0 EOTHER 42),
                   (SYS_mkdir ''/tmp/nsjail.1000.root.42'' 493, Answer (- 1) EACCES 0)],
        df_counter = 0\<rparr>)"
    unfolding choose_dir_def f
    by (simp add: mkdirAndTest_def sys_def k_nodirs_def proc0_def r c_str_def)
  show ?thesis
    unfolding a b c ea eb ec by simp
qed

text \<open>
  Claim C6, as stated, fails where the probe fails: \<^verbatim>\<open>/bin\<close> is mounted, is no symlink and
  has read-only in its flags, \<^verbatim>\<open>statvfs\<close> on it fails, and the re-mount pass makes no mount
  call at all.
\<close>

theorem remount_without_probe_counterexample:
  "mounted mnt_bin_mounted \<and> \<not> is_symlink mnt_bin_mounted
   \<and> flags mnt_bin_mounted AND MS_RDONLY \<noteq> 0
   \<and> remountRO_pass k_nostatvfs [mnt_bin_mounted] proc0 =
       (False, \<lparr>history = [(SYS_statvfs ''/bin'', Answer (- 1) EACCES 0)], df_counter = 0\<rparr>)
   \<and> mount_events (history (snd (remountRO_pass k_nostatvfs [mnt_bin_mounted] proc0))) = []"
  by (simp add: mnt_bin_mounted_def mnt_bin_def MS_RDONLY_def remountRO_def sys_def
      k_nostatvfs_def proc0_def c_str_def mount_events_simps is_mount_simps)

text \<open>
  Claim C6, amended. Whenever \<^verbatim>\<open>mountPt\<close> issues the mount call of a descriptor, its flags
  argument is the descriptor's flags with read-only cleared. The mount pass applies
  \<^verbatim>\<open>mountPt\<close> to the descriptors in order, so every mount call of the pass has read-only
  cleared, and it leaves to every descriptor the read-only bit of its flags, its symlink and
  mandatory marks and its destination. On the full path, once the scratch directories are
  set up, \<^verbatim>\<open>initNsInternal\<close> runs the mount pass over the descriptors of the configuration,
  then the pivot, then the re-mount pass over the descriptors as the mount pass left them,
  and returns what the re-mount pass returns. The re-mount pass takes the descriptors in
  order and stops at the first mandatory descriptor whose re-mount fails. For a descriptor
  it reaches, \<^verbatim>\<open>remountRO\<close> makes no call and succeeds unless the descriptor is mounted, is
  not a symlink and has read-only in its flags; for such a descriptor it probes the
  destination with \<^verbatim>\<open>statvfs\<close>; when the probe fails it fails without a mount call; when
  the probe succeeds it calls mount with the destination as source and target, no
  filesystem type, no options, and the flags remount | read-only | bind plus each of
  nosuid, nodev, noexec, sync, mandlock, noatime, nodiratime, relatime that the probe
  reports, and succeeds exactly when that call does.
\<close>

theorem remount_pass_flags:
  fixes k :: kernel and env :: environ and mpt p q :: mount_t
    and newroot tmpdir destdir stagedir :: string and s s0 s1 t0 t1 t2 :: proc
    and xs ys us vs zs :: "mount_t list" and nsjconf :: nsjconf_t
  defines "M \<equiv> mountPt k mpt newroot tmpdir s"
    and "R \<equiv> remountRO k p s0"
    and "probe \<equiv> k (history s0) (SYS_statvfs (c_str (dst p)))"
    and "wanted \<equiv> mounted p \<and> \<not> is_symlink p \<and> flags p AND MS_RDONLY \<noteq> 0"
    and "L \<equiv> mountPts_loop k newroot tmpdir zs t1"
    and "S \<equiv> initNsInternal_setup k env nsjconf t2"
  defines "D \<equiv> mountPts_loop k (c_str destdir) (c_str stagedir) (mountpts nsjconf) (snd S)"
  shows "(\<forall>e \<in> set (mount_events (new_events s (snd M))).
            mount_flags_arg (fst e) = flags (snd (fst M)) AND NOT MS_RDONLY
            \<and> mount_flags_arg (fst e) AND MS_RDONLY = 0)
       \<and> (\<not> wanted \<longrightarrow> R = (True, s0))
       \<and> (wanted \<and> ret probe = - 1 \<longrightarrow>
            \<not> fst R \<and> new_events s0 (snd R) = [(SYS_statvfs (c_str (dst p)), probe)])
       \<and> (wanted \<and> ret probe \<noteq> - 1 \<longrightarrow>
            (\<exists>a. fst R = (ret a \<noteq> - 1)
               \<and> new_events s0 (snd R) =
                   [(SYS_statvfs (c_str (dst p)), probe),
                    (SYS_mount (Some (c_str (dst p))) (c_str (dst p)) None
                       (remount_flags (word_of_nat (outv probe))) None, a)]))
       \<and> remountRO_pass k (xs @ p # ys) s1 =
           (let (r, s2) = remountRO_pass k xs s1 in
            if \<not> r then (False, s2)
            else
              let (r', s3) = remountRO k p s2 in
              if \<not> r' \<and> is_mandatory p then (False, s3) else remountRO_pass k ys s3)
       \<and> mountPts_loop k newroot tmpdir (us @ q # vs) t0 =
           (let ((r, us'), sa) = mountPts_loop k newroot tmpdir us t0 in
            if \<not> r then ((False, us' @ q # vs), sa)
            else
              let ((rq, q'), sb) = mountPt k q newroot tmpdir sa in
              if \<not> rq \<and> is_mandatory q then ((False, us' @ q' # vs), sb)
              else
                let ((r', vs'), sc) = mountPts_loop k newroot tmpdir vs sb in
                ((r', us' @ q' # vs'), sc))
       \<and> (\<forall>e \<in> set (mount_events (new_events t1 (snd L))).
            mount_flags_arg (fst e) AND MS_RDONLY = 0)
       \<and> list_all2 same_for_remount zs (snd (fst L))
       \<and> (clone_newns nsjconf \<and> fst S = Some (destdir, stagedir) \<longrightarrow>
            initNsInternal k env nsjconf t2 =
              (let nsjconf' = nsjconf\<lparr>mountpts := snd (fst D)\<rparr> in
               if \<not> fst (fst D) then ((False, nsjconf'), snd D)
               else
                 let (r3, sb) = initNsInternal_pivot k nsjconf' destdir stagedir (snd D) in
                 if \<not> r3 then ((False, nsjconf'), sb)
                 else
                   let (r4, sc) = remountRO_pass k (snd (fst D)) sb in
                   ((r4, nsjconf'), sc)))"
proof -
  have m: "mountPt k mpt newroot tmpdir s = ((fst (fst M), snd (fst M)), snd M)"
    by (simp add: M_def)
  have clear: "(x AND NOT MS_RDONLY) AND MS_RDONLY = 0" for x :: "64 word"
    by (simp add: and.assoc)
  have first: "\<forall>e \<in> set (mount_events (new_events s (snd M))).
            mount_flags_arg (fst e) = flags (snd (fst M)) AND NOT MS_RDONLY
            \<and> mount_flags_arg (fst e) AND MS_RDONLY = 0"
    using mountPt_effect [OF m] clear by (auto simp: mount_flags_arg_def)
  have r: "remountRO k p s0 = (fst R, snd R)"
    by (simp add: R_def)
  note eff = remountRO_effect [OF r]
  have second: "\<not> wanted \<longrightarrow> R = (True, s0)"
    using eff unfolding wanted_def by (auto simp: prod_eq_iff)
  have third: "wanted \<and> ret probe = - 1 \<longrightarrow>
            \<not> fst R \<and> new_events s0 (snd R) = [(SYS_statvfs (c_str (dst p)), probe)]"
    using eff unfolding wanted_def probe_def by (auto split: if_splits)
  have fourth: "wanted \<and> ret probe \<noteq> - 1 \<longrightarrow>
            (\<exists>a. fst R = (ret a \<noteq> - 1)
               \<and> new_events s0 (snd R) =
                   [(SYS_statvfs (c_str (dst p)), probe),
                    (SYS_mount (Some (c_str (dst p))) (c_str (dst p)) None
                       (remount_flags (word_of_nat (outv probe))) None, a)])"
    using eff unfolding wanted_def probe_def by (auto split: if_splits)
  have pass: "remountRO_pass k (xs @ p # ys) s1 =
           (let (r, s2) = remountRO_pass k xs s1 in
            if \<not> r then (False, s2)
            else
              let (r', s3) = remountRO k p s2 in
              if \<not> r' \<and> is_mandatory p then (False, s3) else remountRO_pass k ys s3)"
    by (simp add: remountRO_pass_append Let_def case_prod_beta)
  have dec: "mountPts_loop k newroot tmpdir (us @ q # vs) t0 =
           (let ((r, us'), sa) = mountPts_loop k newroot tmpdir us t0 in
            if \<not> r then ((False, us' @ q # vs), sa)
            else
              let ((rq, q'), sb) = mountPt k q newroot tmpdir sa in
              if \<not> rq \<and> is_mandatory q then ((False, us' @ q' # vs), sb)
              else
                let ((r', vs'), sc) = mountPts_loop k newroot tmpdir vs sb in
                ((r', us' @ q' # vs'), sc))"
  proof -
    obtain r us' sa where a: "mountPts_loop k newroot tmpdir us t0 = ((r, us'), sa)"
      by (metis prod.collapse)
    obtain rq q' sb where b: "mountPt k q newroot tmpdir sa = ((rq, q'), sb)"
      by (metis prod.collapse)
    have mand: "is_mandatory q' = is_mandatory q"
      using mountPt_keeps [OF b] by simp
    show ?thesis
      unfolding mountPts_loop_append by (simp add: a b mand Let_def case_prod_beta)
  qed
  obtain evs where h: "history (snd L) = history t1 @ evs"
    and f: "\<forall>e \<in> set (mount_events evs). mount_flags_arg (fst e) AND MS_RDONLY = 0"
    using mountPts_loop_mounts [of k newroot tmpdir zs t1] unfolding L_def by blast
  have all: "\<forall>e \<in> set (mount_events (new_events t1 (snd L))).
            mount_flags_arg (fst e) AND MS_RDONLY = 0"
    using f unfolding new_events_append [OF h] .
  have keep: "list_all2 same_for_remount zs (snd (fst L))"
    unfolding L_def by (rule mountPts_loop_keeps)
  have full: "clone_newns nsjconf \<and> fst S = Some (destdir, stagedir) \<longrightarrow>
            initNsInternal k env nsjconf t2 =
              (let nsjconf' = nsjconf\<lparr>mountpts := snd (fst D)\<rparr> in
               if \<not> fst (fst D) then ((False, nsjconf'), snd D)
               else
                 let (r3, sb) = initNsInternal_pivot k nsjconf' destdir stagedir (snd D) in
                 if \<not> r3 then ((False, nsjconf'), sb)
                 else
                   let (r4, sc) = remountRO_pass k (snd (fst D)) sb in
                   ((r4, nsjconf'), sc))"
    unfolding initNsInternal_def
    by (simp add: S_def [symmetric] D_def [symmetric] Let_def case_prod_beta)
  from first second third fourth pass dec all keep full show ?thesis
    by blast
qed

lemma mountPt_bin:
  "mountPt k_ok mnt_bin root_dir tmp_dir proc0 =
     ((True, mnt_bin_mounted),
      \<lparr>history =
         [(UTIL_createDirRecursively ''/run/user//nsjail.1000.root//bin'', Answer 1 EOTHER 0),
          (SYS_mkdir ''/run/user//nsjail.1000.root//bin'' 457, Answer 0 EOTHER 0),
          (SYS_mount (Some ''/bin'') ''/run/user//nsjail.1000.root//bin'' (Some []) 20480 (Some []),
           Answer 0 EOTHER 0)],
       df_counter = 0\<rparr>)"
  by (simp add: mountPt_def mountPt_mount_def mnt_bin_def mnt_bin_mounted_def root_dir_def
      proc0_def sys_def k_ok_def truthy_def Let_def path_eval MS_RDONLY_def)

lemma remount_flags_4102: "remount_flags 4102 = 2101287"
  by (simp add: remount_flags_def preserved_pairs_def ms_flags st_flags)

theorem remount_pass_flags_witness:
  "mount_events (new_events proc0 (snd (mountPt k_ok mnt_bin root_dir tmp_dir proc0))) =
     [(SYS_mount (Some ''/bin'') ''/run/user//nsjail.1000.root//bin'' (Some []) 20480 (Some []),
       Answer 0 EOTHER 0)]
   \<and> flags (snd (fst (mountPt k_ok mnt_bin root_dir tmp_dir proc0))) = 20481
   \<and> \<not> mounted mnt_bin
   \<and> remountRO k_probe mnt_bin proc0 = (True, proc0)
   \<and> mounted mnt_bin_mounted \<and> \<not> is_symlink mnt_bin_mounted
   \<and> flags mnt_bin_mounted AND MS_RDONLY \<noteq> 0
   \<and> ret (k_probe [] (SYS_statvfs ''/bin'')) \<noteq> - 1
   \<and> fst (remountRO k_probe mnt_bin_mounted proc0)
   \<and> new_events proc0 (snd (remountRO k_probe mnt_bin_mounted proc0)) =
       [(SYS_statvfs ''/bin'', Answer 0 EOTHER 4102),
        (SYS_mount (Some ''/bin'') ''/bin'' None 2101287 None, Answer 0 EOTHER 0)]
   \<and> ret (k_nostatvfs [] (SYS_statvfs ''/bin'')) = - 1
   \<and> \<not> fst (remountRO k_nostatvfs mnt_bin_mounted proc0)
   \<and> new_events proc0 (snd (remountRO k_nostatvfs mnt_bin_mounted proc0)) =
       [(SYS_statvfs ''/bin'', Answer (- 1) EACCES 0)]
   \<and> fst (remountRO_pass k_probe [mnt_cache, mnt_bin_mounted] proc0)
   \<and> map fst (history (snd (remountRO_pass k_probe [mnt_cache, mnt_bin_mounted] proc0))) =
       [SYS_statvfs ''/bin'', SYS_mount (Some ''/bin'') ''/bin'' None 2101287 None]
   \<and> clone_newns conf_cache
   \<and> fst (initNsInternal_setup k_nosrc env_home conf_cache proc0) = Some (root_dir, tmp_dir)
   \<and> fst (initNsInternal k_nosrc env_home conf_cache proc0) =
       (True, conf_cache\<lparr>mountpts := [mnt_cache, mnt_bin_mounted]\<rparr>)
   \<and> map fst (history (snd (initNsInternal k_nosrc env_home conf_cache proc0))) =
       setup_calls @
       [UTIL_createDirRecursively ''/run/user//nsjail.1000.root//cache'',
        SYS_mkdir ''/run/user//nsjail.1000.root//cache'' 457,
        SYS_mount (Some ''/home/user/.cache'') ''/run/user//nsjail.1000.root//cache'' (Some [])
          20480 (Some []),
        UTIL_createDirRecursively ''/run/user//nsjail.1000.root//bin'',
        SYS_mkdir ''/run/user//nsjail.1000.root//bin'' 457,
        SYS_mount (Some ''/bin'') ''/run/user//nsjail.1000.root//bin'' (Some []) 20480 (Some []),
        SYS_umount2 ''/run/user//nsjail.1000.tmp'' 2,
        SYS_pivot_root ''/run/user//nsjail.1000.root'' ''/run/user//nsjail.1000.root'',
        SYS_umount2 ''/'' 2,
        SYS_chdir ''/'',
        SYS_statvfs ''/bin'',
        SYS_mount (Some ''/bin'') ''/bin'' None 4129 None]"
proof -
  note t5 = remount_pass_flags [where k = k_nosrc and env = env_home and nsjconf = conf_cache
      and ?t2.0 = proc0 and destdir = root_dir and stagedir = tmp_dir,
      THEN conjunct2, THEN conjunct2, THEN conjunct2, THEN conjunct2, THEN conjunct2,
      THEN conjunct2, THEN conjunct2, THEN conjunct2]
  have c: "clone_newns conf_cache" "mountpts conf_cache = [mnt_cache, mnt_bin]"
    "c_str root_dir = root_dir" "c_str tmp_dir = tmp_dir"
    by (simp_all add: conf_cache_def conf_mem_cpu_def root_dir_def tmp_dir_def c_str_def)
  have full: "initNsInternal k_nosrc env_home conf_cache proc0 =
     ((True, conf_cache\<lparr>mountpts := [mnt_cache, mnt_bin_mounted]\<rparr>),
      \<lparr>history = map (\<lambda>c. (c, Answer 0 EOTHER 0)) setup_calls @
         [(UTIL_createDirRecursively ''/run/user//nsjail.1000.root//cache'', Answer 1 EOTHER 0),
          (SYS_mkdir ''/run/user//nsjail.1000.root//cache'' 457, Answer 0 EOTHER 0),
          (SYS_mount (Some ''/home/user/.cache'') ''/run/user//nsjail.1000.root//cache'' (Some [])
             20480 (Some []), Answer (- 1) ENOENT 0),
          (UTIL_createDirRecursively ''/run/user//nsjail.1000.root//bin'', Answer 1 EOTHER 0),
          (SYS_mkdir ''/run/user//nsjail.1000.root//bin'' 457, Answer 0 EOTHER 0),
          (SYS_mount (Some ''/bin'') ''/run/user//nsjail.1000.root//bin'' (Some []) 20480 (Some []),
           Answer 0 EOTHER 0),
          (SYS_umount2 ''/run/user//nsjail.1000.tmp'' 2, Answer 0 EOTHER 0),
          (SYS_pivot_root ''/run/user//nsjail.1000.root'' ''/run/user//nsjail.1000.root'',
           Answer 0 EOTHER 0),
          (SYS_umount2 ''/'' 2, Answer 0 EOTHER 0),
          (SYS_chdir ''/'', Answer 0 EOTHER 0),
          (SYS_statvfs ''/bin'', Answer 0 EOTHER 0),
          (SYS_mount (Some ''/bin'') ''/bin'' None 4129 None, Answer 0 EOTHER 0)],
       df_counter = 0\<rparr>)"
    using t5 unfolding setup_cache c(2,3,4)
    by (simp add: c(1) loop_nosrc tail_nosrc del: mountPts_loop.simps remountRO_pass.simps)
  have run: "fst (initNsInternal k_nosrc env_home conf_cache proc0) =
       (True, conf_cache\<lparr>mountpts := [mnt_cache, mnt_bin_mounted]\<rparr>)"
    "map fst (history (snd (initNsInternal k_nosrc env_home conf_cache proc0))) =
       setup_calls @
       [UTIL_createDirRecursively ''/run/user//nsjail.1000.root//cache'',
        SYS_mkdir ''/run/user//nsjail.1000.root//cache'' 457,
        SYS_mount (Some ''/home/user/.cache'') ''/run/user//nsjail.1000.root//cache'' (Some [])
          20480 (Some []),
        UTIL_createDirRecursively ''/run/user//nsjail.1000.root//bin'',
        SYS_mkdir ''/run/user//nsjail.1000.root//bin'' 457,
        SYS_mount (Some ''/bin'') ''/run/user//nsjail.1000.root//bin'' (Some []) 20480 (Some []),
        SYS_umount2 ''/run/user//nsjail.1000.tmp'' 2,
        SYS_pivot_root ''/run/user//nsjail.1000.root'' ''/run/user//nsjail.1000.root'',
        SYS_umount2 ''/'' 2,
        SYS_chdir ''/'',
        SYS_statvfs ''/bin'',
        SYS_mount (Some ''/bin'') ''/bin'' None 4129 None]"
    unfolding full by (simp_all add: comp_def)
  have su: "fst (initNsInternal_setup k_nosrc env_home conf_cache proc0) = Some (root_dir, tmp_dir)"
    unfolding setup_cache by simp
  note t1 = remount_pass_flags [where k = k_ok and mpt = mnt_bin and newroot = root_dir
      and tmpdir = tmp_dir and s = proc0, THEN conjunct1]
  note t2 = remount_pass_flags [where k = k_probe and p = mnt_bin and ?s0.0 = proc0,
      THEN conjunct2, THEN conjunct1]
  note t3 = remount_pass_flags [where k = k_probe and p = mnt_bin_mounted
      and xs = "[mnt_cache]" and ys = "[]" and ?s1.0 = proc0,
      THEN conjunct2, THEN conjunct2, THEN conjunct2, THEN conjunct2, THEN conjunct1]
  note t4 = remount_pass_flags [where k = k_nostatvfs and p = mnt_bin_mounted
      and ?s0.0 = proc0, THEN conjunct2, THEN conjunct2, THEN conjunct1]
  have d: "\<not> mounted mnt_bin" "mounted mnt_bin_mounted" "\<not> is_symlink mnt_bin_mounted"
    "flags mnt_bin_mounted AND MS_RDONLY \<noteq> 0" "c_str (dst mnt_bin_mounted) = ''/bin''"
    "flags mnt_bin_mounted = 20481" "history proc0 = []" "\<not> mounted mnt_cache"
    by (simp_all add: mnt_bin_def mnt_bin_mounted_def mnt_cache_def MS_RDONLY_def c_str_def
        proc0_def)
  have a: "k_probe [] (SYS_statvfs ''/bin'') = Answer 0 EOTHER 4102"
    "k_nostatvfs [] (SYS_statvfs ''/bin'') = Answer (- 1) EACCES 0"
    by (simp_all add: k_probe_def k_nostatvfs_def)
  have e1: "mount_events (new_events proc0 (snd (mountPt k_ok mnt_bin root_dir tmp_dir proc0))) =
     [(SYS_mount (Some ''/bin'') ''/run/user//nsjail.1000.root//bin'' (Some []) 20480 (Some []),
       Answer 0 EOTHER 0)]"
    unfolding mountPt_bin
    by (simp add: new_events_def proc0_def mount_events_simps is_mount_simps)
  have f1: "flags (snd (fst (mountPt k_ok mnt_bin root_dir tmp_dir proc0))) = 20481"
    using t1 e1 by (simp add: mount_flags_arg_def mountPt_bin d)
  have r2: "remountRO k_probe mnt_bin proc0 = (True, proc0)"
    using t2 d(1) by simp
  have r3: "remountRO k_probe mnt_bin_mounted proc0 =
      (True, \<lparr>history = [(SYS_statvfs ''/bin'', Answer 0 EOTHER 4102),
                (SYS_mount (Some ''/bin'') ''/bin'' None 2101287 None, Answer 0 EOTHER 0)],
              df_counter = 0\<rparr>)"
    unfolding remountRO_def remountRO_loop_mountPairs
    by (simp add: d(2,3,4,5) a sys_def proc0_def Let_def remount_flags_4102 k_probe_def k_ok_def)
  have r4: "\<not> fst (remountRO k_nostatvfs mnt_bin_mounted proc0)"
    "new_events proc0 (snd (remountRO k_nostatvfs mnt_bin_mounted proc0)) =
       [(SYS_statvfs ''/bin'', Answer (- 1) EACCES 0)]"
    using t4 d a by simp_all
  have r5: "remountRO_pass k_probe [mnt_cache, mnt_bin_mounted] proc0 =
      (True, \<lparr>history = [(SYS_statvfs ''/bin'', Answer 0 EOTHER 4102),
                (SYS_mount (Some ''/bin'') ''/bin'' None 2101287 None, Answer 0 EOTHER 0)],
              df_counter = 0\<rparr>)"
    using t3 r3 d(8) by (simp add: remountRO_def)
  show ?thesis
    using d a e1 f1 r2 r4 c(1) su run unfolding r3 r5 by (simp add: new_events_def proc0_def)
qed

text \<open>
  Claim C1. A successful \<^verbatim>\<open>addMountPt\<close> leaves \<open>mounted\<close> false. \<^verbatim>\<open>mountPt\<close> issues
  at most one kernel mount call, the one for its descriptor, and \<open>mounted\<close> is true
  afterwards exactly when it was true before or that call succeeded; a failing \<^verbatim>\<open>mountPt\<close>
  leaves \<open>mounted\<close> as it was. \<^verbatim>\<open>mountPt\<close> returns true exactly when none of the calls it
  checks has failed (creating the parent directories, the symlink of a mandatory
  descriptor, opening and writing the staged file, the mount call); when it has issued the
  mount call it returns true exactly when that call succeeded. In the mount pass, once the
  descriptors before \<open>p\<close> have been passed: if \<^verbatim>\<open>mountPt\<close> fails on a mandatory \<open>p\<close>, the
  pass stops there with false, the later descriptors untouched, and \<^verbatim>\<open>initNsInternal\<close>
  returns false in the state that failing \<^verbatim>\<open>mountPt\<close> left, with no further call;
  otherwise, and so when a non-mandatory \<open>p\<close> fails, the pass goes on with the descriptors
  after \<open>p\<close>. When the pass has come through, \<^verbatim>\<open>initNsInternal\<close> goes on with the pivot
  and the re-mount pass, which makes no call for a descriptor that is not mounted, and
  returns what the re-mount pass returns. Outside standalone-exec mode \<^verbatim>\<open>initNs\<close> returns
  what \<^verbatim>\<open>initNsInternal\<close> returns; in standalone-exec mode the sub-child runs
  \<^verbatim>\<open>initNsInternal\<close> and exits with 0 when it returned true and with 255 otherwise. The
  witness runs \<^verbatim>\<open>initNs\<close> to true over a non-mandatory descriptor whose mount fails and
  to false over a mandatory one.
\<close>

theorem mounted_only_by_successful_mount:
  fixes k :: kernel and env :: environ and mnt mpt p :: mount_t and tag :: isDir_t
    and src' dst' fstype options' flags' is_mandatory' src_env dst_env src_content' is_symlink'
    and s s0 s1 s2 :: proc and newroot tmpdir destdir stagedir :: string
    and xs ys :: "mount_t list" and nsjconf :: nsjconf_t and u :: mount_t and t :: proc
  defines "A \<equiv> addMountPt k env mnt src' dst' fstype options' flags' tag is_mandatory'
                 src_env dst_env src_content' is_symlink' s"
    and "M \<equiv> mountPt k mpt newroot tmpdir s0"
    and "L \<equiv> mountPts_loop k newroot tmpdir xs s1"
  defines "P \<equiv> mountPt k p newroot tmpdir (snd L)"
    and "S \<equiv> initNsInternal_setup k env nsjconf s2"
  defines "D \<equiv> mountPts_loop k (c_str destdir) (c_str stagedir) (mountpts nsjconf) (snd S)"
    and "I \<equiv> initNsInternal k env nsjconf s2"
    and "C \<equiv> sys k (SUBPROC_cloneProc (CLONE_FS OR SIGCHLD)) s2"
  defines "J \<equiv> initNsInternal k env nsjconf (snd C)"
  shows "(fst (fst A) \<longrightarrow> \<not> mounted (snd (fst A)))
       \<and> length (mount_events (new_events s0 (snd M))) \<le> 1
       \<and> (\<forall>e \<in> set (mount_events (new_events s0 (snd M))).
             \<exists>sp fl. fst e = SYS_mount (Some sp)
                               (snprintf PATH_MAX (newroot @ ''/'' @ c_str (dst mpt)))
                               (Some (c_str (fs_type mpt))) fl (Some (c_str (options mpt))))
       \<and> (mounted (snd (fst M)) \<longleftrightarrow>
             mounted mpt \<or> (\<exists>e \<in> set (mount_events (new_events s0 (snd M))). ret (snd e) \<noteq> - 1))
       \<and> (\<not> fst (fst M) \<longrightarrow> mounted (snd (fst M)) = mounted mpt)
       \<and> (fst (fst L) \<and> \<not> fst (fst P) \<and> is_mandatory p \<longrightarrow>
             mountPts_loop k newroot tmpdir (xs @ p # ys) s1 =
               ((False, snd (fst L) @ snd (fst P) # ys), snd P))
       \<and> (fst (fst L) \<and> \<not> (\<not> fst (fst P) \<and> is_mandatory p) \<longrightarrow>
             mountPts_loop k newroot tmpdir (xs @ p # ys) s1 =
               (let ((r, ys'), s3) = mountPts_loop k newroot tmpdir ys (snd P) in
                ((r, snd (fst L) @ snd (fst P) # ys'), s3)))
       \<and> (clone_newns nsjconf \<and> fst S = Some (destdir, stagedir) \<and> \<not> fst (fst D) \<longrightarrow>
             initNsInternal k env nsjconf s2 =
               ((False, nsjconf\<lparr>mountpts := snd (fst D)\<rparr>), snd D))
       \<and> (\<forall>e \<in> set (mount_events (new_events s0 (snd M))).
             fst (fst M) = (ret (snd e) \<noteq> - 1))
       \<and> fst (fst M) = (\<forall>e \<in> set (new_events s0 (snd M)). \<not> checked_call_failed mpt e)
       \<and> (clone_newns nsjconf \<and> fst S = Some (destdir, stagedir) \<and> fst (fst D) \<longrightarrow>
             initNsInternal k env nsjconf s2 =
               (let nsjconf' = nsjconf\<lparr>mountpts := snd (fst D)\<rparr>;
                    (r3, s3) = initNsInternal_pivot k nsjconf' destdir stagedir (snd D)
                in if \<not> r3 then ((False, nsjconf'), s3)
                   else
                     let (r4, s4) = remountRO_pass k (snd (fst D)) s3 in
                     ((r4, nsjconf'), s4)))
       \<and> (\<not> mounted u \<longrightarrow> remountRO k u t = (True, t))
       \<and> (mode nsjconf \<noteq> MODE_STANDALONE_EXECVE \<longrightarrow>
             initNs k env nsjconf s2 = Some ((Returned (fst (fst I)), snd (fst I)), snd I))
       \<and> (mode nsjconf = MODE_STANDALONE_EXECVE \<and> ret (fst C) = 0 \<longrightarrow>
             initNs k env nsjconf s2 =
               Some ((Exited (if fst (fst J) then 0 else 255), snd (fst J)), snd J))"
proof -
  have fin: "fst (fst A) \<longrightarrow> \<not> mounted (snd (fst A))"
    unfolding A_def addMountPt_def
    by (cases tag) (auto simp: Let_def case_prod_beta split: option.splits)
  have m: "mountPt k mpt newroot tmpdir s0 = ((fst (fst M), snd (fst M)), snd M)"
    by (simp add: M_def)
  note eff = mountPt_effect [OF m]
  have one: "length (mount_events (new_events s0 (snd M))) \<le> 1"
    using eff by auto
  have dest: "\<forall>e \<in> set (mount_events (new_events s0 (snd M))).
             \<exists>sp fl. fst e = SYS_mount (Some sp)
                               (snprintf PATH_MAX (newroot @ ''/'' @ c_str (dst mpt)))
                               (Some (c_str (fs_type mpt))) fl (Some (c_str (options mpt)))"
    using eff by auto
  have iff: "mounted (snd (fst M)) \<longleftrightarrow>
             mounted mpt \<or> (\<exists>e \<in> set (mount_events (new_events s0 (snd M))). ret (snd e) \<noteq> - 1)"
    using eff by auto
  have fail: "\<not> fst (fst M) \<longrightarrow> mounted (snd (fst M)) = mounted mpt"
    using eff by auto
  have pm: "mountPt k p newroot tmpdir (snd L) = ((fst (fst P), snd (fst P)), snd P)"
    by (simp add: P_def)
  have mand: "is_mandatory (snd (fst P)) = is_mandatory p"
    using mountPt_keeps [OF pm] by simp
  have stop: "fst (fst L) \<and> \<not> fst (fst P) \<and> is_mandatory p \<longrightarrow>
             mountPts_loop k newroot tmpdir (xs @ p # ys) s1 =
               ((False, snd (fst L) @ snd (fst P) # ys), snd P)"
    unfolding mountPts_loop_append [of k newroot tmpdir xs "p # ys" s1]
    using mand by (simp add: L_def [symmetric] P_def [symmetric] Let_def case_prod_beta)
  have go: "fst (fst L) \<and> \<not> (\<not> fst (fst P) \<and> is_mandatory p) \<longrightarrow>
             mountPts_loop k newroot tmpdir (xs @ p # ys) s1 =
               (let ((r, ys'), s3) = mountPts_loop k newroot tmpdir ys (snd P) in
                ((r, snd (fst L) @ snd (fst P) # ys'), s3))"
    unfolding mountPts_loop_append [of k newroot tmpdir xs "p # ys" s1]
    using mand by (simp add: L_def [symmetric] P_def [symmetric] Let_def case_prod_beta)
  have init: "clone_newns nsjconf \<and> fst S = Some (destdir, stagedir) \<and> \<not> fst (fst D) \<longrightarrow>
             initNsInternal k env nsjconf s2 =
               ((False, nsjconf\<lparr>mountpts := snd (fst D)\<rparr>), snd D)"
    unfolding initNsInternal_def
    by (simp add: S_def [symmetric] D_def [symmetric] Let_def case_prod_beta)
  have res: "\<forall>e \<in> set (mount_events (new_events s0 (snd M))).
             fst (fst M) = (ret (snd e) \<noteq> - 1)"
    using eff by auto
  have chk: "fst (fst M) = (\<forall>e \<in> set (new_events s0 (snd M)). \<not> checked_call_failed mpt e)"
    by (rule mountPt_result [OF m])
  have cont: "clone_newns nsjconf \<and> fst S = Some (destdir, stagedir) \<and> fst (fst D) \<longrightarrow>
             initNsInternal k env nsjconf s2 =
               (let nsjconf' = nsjconf\<lparr>mountpts := snd (fst D)\<rparr>;
                    (r3, s3) = initNsInternal_pivot k nsjconf' destdir stagedir (snd D)
                in if \<not> r3 then ((False, nsjconf'), s3)
                   else
                     let (r4, s4) = remountRO_pass k (snd (fst D)) s3 in
                     ((r4, nsjconf'), s4))"
    unfolding initNsInternal_def
    by (simp add: S_def [symmetric] D_def [symmetric] Let_def case_prod_beta)
  have skip: "\<not> mounted u \<longrightarrow> remountRO k u t = (True, t)"
    by (simp add: remountRO_def)
  have tie: "mode nsjconf \<noteq> MODE_STANDALONE_EXECVE \<longrightarrow>
             initNs k env nsjconf s2 = Some ((Returned (fst (fst I)), snd (fst I)), snd I)"
    unfolding initNs_def I_def by (simp add: case_prod_beta)
  have child: "mode nsjconf = MODE_STANDALONE_EXECVE \<and> ret (fst C) = 0 \<longrightarrow>
             initNs k env nsjconf s2 =
               Some ((Exited (if fst (fst J) then 0 else 255), snd (fst J)), snd J)"
    unfolding initNs_def J_def C_def by (simp add: case_prod_beta Let_def)
  from fin one dest iff fail stop go init res chk cont skip tie child show ?thesis
    by blast
qed

lemma mountPt_cache_nosrc:
  "mountPt k_nosrc mnt_cache root_dir tmp_dir proc0 =
     ((False, mnt_cache),
      \<lparr>history =
         [(UTIL_createDirRecursively ''/run/user//nsjail.1000.root//cache'', Answer 1 EOTHER 0),
          (SYS_mkdir ''/run/user//nsjail.1000.root//cache'' 457, Answer 0 EOTHER 0),
          (SYS_mount (Some ''/home/user/.cache'') ''/run/user//nsjail.1000.root//cache'' (Some [])
             20480 (Some []), Answer (- 1) ENOENT 0)],
       df_counter = 0\<rparr>)"
  by (simp add: mountPt_def mountPt_mount_def mnt_cache_def root_dir_def proc0_def sys_def
      k_nosrc_def k_ok_def truthy_def Let_def path_eval MS_RDONLY_def)

theorem mounted_only_by_successful_mount_witness:
  "fst (addMountPt k_ok env_home mount_t_new ''/.cache'' ''/cache'' [] [] 20480 NS_DIR_YES False
          ''HOME'' [] [] False proc0) = (True, mnt_cache)
   \<and> \<not> mounted mnt_cache \<and> \<not> is_mandatory mnt_cache
   \<and> \<not> fst (fst (mountPt k_nosrc mnt_cache root_dir tmp_dir proc0))
   \<and> mount_events (new_events proc0 (snd (mountPt k_nosrc mnt_cache root_dir tmp_dir proc0))) =
       [(SYS_mount (Some ''/home/user/.cache'') ''/run/user//nsjail.1000.root//cache'' (Some [])
           20480 (Some []), Answer (- 1) ENOENT 0)]
   \<and> \<not> mounted (snd (fst (mountPt k_nosrc mnt_cache root_dir tmp_dir proc0)))
   \<and> mode conf_cache \<noteq> MODE_STANDALONE_EXECVE
   \<and> fst (initNsInternal k_nosrc env_home conf_cache proc0) =
       (True, conf_cache\<lparr>mountpts := [mnt_cache, mnt_bin_mounted]\<rparr>)
   \<and> map_option fst (initNs k_nosrc env_home conf_cache proc0) =
       Some (Returned True, conf_cache\<lparr>mountpts := [mnt_cache, mnt_bin_mounted]\<rparr>)
   \<and> map_option fst (initNs k_nobin env_home conf_cache proc0) =
       Some (Returned False, conf_cache\<lparr>mountpts := [mnt_cache\<lparr>mounted := True\<rparr>, mnt_bin]\<rparr>)
   \<and> is_mandatory mnt_bin
   \<and> fst (initNsInternal k_nobin env_home conf_cache proc0) =
       (False, conf_cache\<lparr>mountpts := [mnt_cache\<lparr>mounted := True\<rparr>, mnt_bin]\<rparr>)
   \<and> map fst (history (snd (initNsInternal k_nobin env_home conf_cache proc0))) =
       setup_calls @
       [UTIL_createDirRecursively ''/run/user//nsjail.1000.root//cache'',
        SYS_mkdir ''/run/user//nsjail.1000.root//cache'' 457,
        SYS_mount (Some ''/home/user/.cache'') ''/run/user//nsjail.1000.root//cache'' (Some [])
          20480 (Some []),
        UTIL_createDirRecursively ''/run/user//nsjail.1000.root//bin'',
        SYS_mkdir ''/run/user//nsjail.1000.root//bin'' 457,
        SYS_mount (Some ''/bin'') ''/run/user//nsjail.1000.root//bin'' (Some []) 20480 (Some [])]"
proof -
  note fin = mounted_only_by_successful_mount [where k = k_ok and env = env_home
      and mnt = mount_t_new and src' = "''/.cache''" and dst' = "''/cache''" and fstype = "[]"
      and options' = "[]" and flags' = 20480 and tag = NS_DIR_YES and is_mandatory' = False
      and src_env = "''HOME''" and dst_env = "[]" and src_content' = "[]"
      and is_symlink' = False and s = proc0, THEN conjunct1]
  note one = mounted_only_by_successful_mount [where k = k_nosrc and mpt = mnt_cache
      and newroot = root_dir and tmpdir = tmp_dir and ?s0.0 = proc0,
      THEN conjunct2, THEN conjunct2, THEN conjunct2, THEN conjunct1]
  note stop = mounted_only_by_successful_mount [where k = k_nobin and env = env_home
      and nsjconf = conf_cache and ?s2.0 = proc0 and destdir = root_dir and stagedir = tmp_dir,
      THEN conjunct2, THEN conjunct2, THEN conjunct2, THEN conjunct2, THEN conjunct2,
      THEN conjunct2, THEN conjunct2, THEN conjunct1]
  note cont = mounted_only_by_successful_mount [where k = k_nosrc and env = env_home
      and nsjconf = conf_cache and ?s2.0 = proc0 and destdir = root_dir and stagedir = tmp_dir,
      THEN conjunct2, THEN conjunct2, THEN conjunct2, THEN conjunct2, THEN conjunct2,
      THEN conjunct2, THEN conjunct2, THEN conjunct2, THEN conjunct2, THEN conjunct2,
      THEN conjunct1]
  note tie1 = mounted_only_by_successful_mount [where k = k_nosrc and env = env_home
      and nsjconf = conf_cache and ?s2.0 = proc0,
      THEN conjunct2, THEN conjunct2, THEN conjunct2, THEN conjunct2, THEN conjunct2,
      THEN conjunct2, THEN conjunct2, THEN conjunct2, THEN conjunct2, THEN conjunct2,
      THEN conjunct2, THEN conjunct2, THEN conjunct1]
  note tie2 = mounted_only_by_successful_mount [where k = k_nobin and env = env_home
      and nsjconf = conf_cache and ?s2.0 = proc0,
      THEN conjunct2, THEN conjunct2, THEN conjunct2, THEN conjunct2, THEN conjunct2,
      THEN conjunct2, THEN conjunct2, THEN conjunct2, THEN conjunct2, THEN conjunct2,
      THEN conjunct2, THEN conjunct2, THEN conjunct1]
  note chk = mounted_only_by_successful_mount [where k = k_nosrc and mpt = mnt_cache
      and newroot = root_dir and tmpdir = tmp_dir and ?s0.0 = proc0,
      THEN conjunct2, THEN conjunct2, THEN conjunct2, THEN conjunct2, THEN conjunct2,
      THEN conjunct2, THEN conjunct2, THEN conjunct2, THEN conjunct1]
  have A: "addMountPt k_ok env_home mount_t_new ''/.cache'' ''/cache'' [] [] 20480 NS_DIR_YES
             False ''HOME'' [] [] False proc0 = ((True, mnt_cache), proc0)"
    by (simp add: addMountPt_def env_home_def c_str_def mount_t_new_def mnt_cache_def)
  have d: "\<not> is_mandatory mnt_cache" "is_mandatory mnt_bin"
    by (simp_all add: mnt_cache_def mnt_bin_def)
  have nm: "\<not> mounted mnt_cache"
    using fin unfolding A by simp
  have ev: "mount_events (new_events proc0 (snd (mountPt k_nosrc mnt_cache root_dir tmp_dir proc0))) =
       [(SYS_mount (Some ''/home/user/.cache'') ''/run/user//nsjail.1000.root//cache'' (Some [])
           20480 (Some []), Answer (- 1) ENOENT 0)]"
    unfolding mountPt_cache_nosrc
    by (simp add: new_events_def proc0_def mount_events_simps is_mount_simps)
  have still: "\<not> mounted (snd (fst (mountPt k_nosrc mnt_cache root_dir tmp_dir proc0)))"
    using one nm unfolding ev by simp
  have c: "clone_newns conf_cache" "mountpts conf_cache = [mnt_cache, mnt_bin]"
    "c_str root_dir = root_dir" "c_str tmp_dir = tmp_dir"
    by (simp_all add: conf_cache_def conf_mem_cpu_def root_dir_def tmp_dir_def c_str_def)
  have nobin: "initNsInternal k_nobin env_home conf_cache proc0 =
      ((False, conf_cache\<lparr>mountpts := [mnt_cache\<lparr>mounted := True\<rparr>, mnt_bin]\<rparr>),
       \<lparr>history = map (\<lambda>c. (c, Answer 0 EOTHER 0)) setup_calls @
         [(UTIL_createDirRecursively ''/run/user//nsjail.1000.root//cache'', Answer 1 EOTHER 0),
          (SYS_mkdir ''/run/user//nsjail.1000.root//cache'' 457, Answer 0 EOTHER 0),
          (SYS_mount (Some ''/home/user/.cache'') ''/run/user//nsjail.1000.root//cache'' (Some [])
             20480 (Some []), Answer 0 EOTHER 0),
          (UTIL_createDirRecursively ''/run/user//nsjail.1000.root//bin'', Answer 1 EOTHER 0),
          (SYS_mkdir ''/run/user//nsjail.1000.root//bin'' 457, Answer 0 EOTHER 0),
          (SYS_mount (Some ''/bin'') ''/run/user//nsjail.1000.root//bin'' (Some []) 20480 (Some []),
           Answer (- 1) EACCES 0)],
        df_counter = 0\<rparr>)"
    using stop unfolding setup_cache c(2,3,4)
    by (simp add: loop_nobin c(1) del: mountPts_loop.simps)
  have failed: "\<not> fst (fst (mountPt k_nosrc mnt_cache root_dir tmp_dir proc0))"
    using chk unfolding ev by simp
  have nosrc: "initNsInternal k_nosrc env_home conf_cache proc0 =
      ((True, conf_cache\<lparr>mountpts := [mnt_cache, mnt_bin_mounted]\<rparr>),
       \<lparr>history = map (\<lambda>c. (c, Answer 0 EOTHER 0)) setup_calls @
         [(UTIL_createDirRecursively ''/run/user//nsjail.1000.root//cache'', Answer 1 EOTHER 0),
          (SYS_mkdir ''/run/user//nsjail.1000.root//cache'' 457, Answer 0 EOTHER 0),
          (SYS_mount (Some ''/home/user/.cache'') ''/run/user//nsjail.1000.root//cache'' (Some [])
             20480 (Some []), Answer (- 1) ENOENT 0),
          (UTIL_createDirRecursively ''/run/user//nsjail.1000.root//bin'', Answer 1 EOTHER 0),
          (SYS_mkdir ''/run/user//nsjail.1000.root//bin'' 457, Answer 0 EOTHER 0),
          (SYS_mount (Some ''/bin'') ''/run/user//nsjail.1000.root//bin'' (Some []) 20480 (Some []),
           Answer 0 EOTHER 0),
          (SYS_umount2 ''/run/user//nsjail.1000.tmp'' 2, Answer 0 EOTHER 0),
          (SYS_pivot_root ''/run/user//nsjail.1000.root'' ''/run/user//nsjail.1000.root'',
           Answer 0 EOTHER 0),
          (SYS_umount2 ''/'' 2, Answer 0 EOTHER 0),
          (SYS_chdir ''/'', Answer 0 EOTHER 0),
          (SYS_statvfs ''/bin'', Answer 0 EOTHER 0),
          (SYS_mount (Some ''/bin'') ''/bin'' None 4129 None, Answer 0 EOTHER 0)],
        df_counter = 0\<rparr>)"
    using cont unfolding setup_cache c(2,3,4)
    by (simp add: c(1) loop_nosrc tail_nosrc del: mountPts_loop.simps remountRO_pass.simps)
  have md: "mode conf_cache \<noteq> MODE_STANDALONE_EXECVE"
    by (simp add: conf_cache_def conf_mem_cpu_def)
  have i1: "map_option fst (initNs k_nosrc env_home conf_cache proc0) =
       Some (Returned True, conf_cache\<lparr>mountpts := [mnt_cache, mnt_bin_mounted]\<rparr>)"
    using tie1 md unfolding nosrc by simp
  have i2: "map_option fst (initNs k_nobin env_home conf_cache proc0) =
       Some (Returned False, conf_cache\<lparr>mountpts := [mnt_cache\<lparr>mounted := True\<rparr>, mnt_bin]\<rparr>)"
    using tie2 md unfolding nobin by simp
  show ?thesis
    using A nm d ev still failed md i1 i2 unfolding mountPt_cache_nosrc nobin nosrc
    by (simp add: comp_def)
qed

lemma wait_state_Suc:
  "wait_state k pid s (Suc n) = snd (sys k (SYS_wait4 pid 0) (wait_state k pid s n))"
  by (induction n arbitrary: s) simp_all

lemma wait4_loop_returns:
  assumes "\<forall>i<n. ret (wait_answer k pid s i) \<noteq> pid" and "ret (wait_answer k pid s n) = pid"
  shows "wait4_loop k pid s = Some (outv (wait_answer k pid s n), wait_state k pid s (Suc n))"
  using assms
proof (induction n arbitrary: s)
  case 0
  then show ?case
    by (subst wait4_loop.simps) (simp add: wait_answer_def case_prod_beta)
next
  case (Suc n)
  let ?s1 = "snd (sys k (SYS_wait4 pid 0) s)"
  have first: "ret (fst (sys k (SYS_wait4 pid 0) s)) \<noteq> pid"
    using Suc.prems(1) [rule_format, of 0] by (simp add: wait_answer_def)
  have shift: "wait_answer k pid ?s1 i = wait_answer k pid s (Suc i)" for i
    by (simp add: wait_answer_def)
  have "\<forall>i<n. ret (wait_answer k pid ?s1 i) \<noteq> pid"
    using Suc.prems(1) by (auto simp: shift)
  moreover have "ret (wait_answer k pid ?s1 n) = pid"
    using Suc.prems(2) by (simp add: shift)
  ultimately have "wait4_loop k pid ?s1
      = Some (outv (wait_answer k pid ?s1 n), wait_state k pid ?s1 (Suc n))"
    by (rule Suc.IH)
  then show ?case
    using first by (subst wait4_loop.simps) (simp add: shift case_prod_beta)
qed

lemma wait4_loop_Some:
  assumes "wait4_loop k pid s = Some y"
  shows "\<exists>n. (\<forall>i<n. ret (wait_answer k pid s i) \<noteq> pid) \<and> ret (wait_answer k pid s n) = pid
           \<and> y = (outv (wait_answer k pid s n), wait_state k pid s (Suc n))"
proof -
  define Q :: "kernel \<Rightarrow> int \<Rightarrow> proc \<Rightarrow> nat \<times> proc \<Rightarrow> bool" where
    "Q k pid s y \<longleftrightarrow>
       (\<exists>n. (\<forall>i<n. ret (wait_answer k pid s i) \<noteq> pid) \<and> ret (wait_answer k pid s n) = pid
          \<and> y = (outv (wait_answer k pid s n), wait_state k pid s (Suc n)))" for k pid s y
  have "Q k pid s y"
  proof (rule wait4_loop.raw_induct [where P = Q, OF _ assms])
    fix loop :: "kernel \<Rightarrow> int \<Rightarrow> proc \<Rightarrow> (nat \<times> proc) option"
      and k :: kernel and pid :: int and s :: proc and y :: "nat \<times> proc"
    assume IH: "\<And>k pid s y. loop k pid s = Some y \<Longrightarrow> Q k pid s y"
      and body: "(case sys k (SYS_wait4 pid 0) s of
                    (a1, s1) \<Rightarrow> if ret a1 \<noteq> pid then loop k pid s1 else Some (outv a1, s1))
                 = Some y"
    let ?a = "fst (sys k (SYS_wait4 pid 0) s)"
    let ?s1 = "snd (sys k (SYS_wait4 pid 0) s)"
    have shift: "wait_answer k pid ?s1 i = wait_answer k pid s (Suc i)" for i
      by (simp add: wait_answer_def)
    show "Q k pid s y"
    proof (cases "ret ?a = pid")
      case True
      with body have "y = (outv ?a, ?s1)"
        by (simp add: case_prod_beta)
      with True show ?thesis
        unfolding Q_def by (intro exI [of _ 0]) (simp add: wait_answer_def)
    next
      case False
      with body have "loop k pid ?s1 = Some y"
        by (simp add: case_prod_beta)
      from IH [OF this] obtain n where
        n: "\<forall>i<n. ret (wait_answer k pid ?s1 i) \<noteq> pid" "ret (wait_answer k pid ?s1 n) = pid"
          "y = (outv (wait_answer k pid ?s1 n), wait_state k pid ?s1 (Suc n))"
        unfolding Q_def by blast
      have "\<forall>i<Suc n. ret (wait_answer k pid s i) \<noteq> pid"
      proof (intro allI impI)
        fix i assume i: "i < Suc n"
        show "ret (wait_answer k pid s i) \<noteq> pid"
        proof (cases i)
          case 0
          then show ?thesis using False by (simp add: wait_answer_def)
        next
          case (Suc j)
          with i have "j < n" by simp
          with n(1) have "ret (wait_answer k pid ?s1 j) \<noteq> pid" by blast
          then show ?thesis unfolding Suc shift .
        qed
      qed
      moreover have "ret (wait_answer k pid s (Suc n)) = pid"
        using n(2) unfolding shift .
      moreover have "y = (outv (wait_answer k pid s (Suc n)), wait_state k pid s (Suc (Suc n)))"
        using n(3) unfolding shift by simp
      ultimately show ?thesis
        unfolding Q_def by (intro exI [of _ "Suc n"]) blast
    qed
  qed
  then show ?thesis unfolding Q_def .
qed

lemma wait4_loop_None:
  assumes "\<forall>n. ret (wait_answer k pid s n) \<noteq> pid"
  shows "wait4_loop k pid s = None"
proof (cases "wait4_loop k pid s")
  case None
  then show ?thesis .
next
  case (Some y)
  from wait4_loop_Some [OF this] assms show ?thesis by blast
qed

lemma exit_status_normal:
  "WIFEXITED (exit_status code) \<and> WEXITSTATUS (exit_status code) = code mod 256"
proof -
  have m7: "(127 :: nat) = mask 7" and m8: "(255 :: nat) = mask 8"
    by (simp_all add: mask_eq_exp_minus_1)
  have hi: "(65280 :: nat) = push_bit 8 (mask 8)"
    by (simp add: mask_eq_exp_minus_1 push_bit_eq_mult)
  have a: "push_bit 8 (code mod 256) AND (127 :: nat) = 0"
    unfolding m7 take_bit_eq_mask [symmetric] by (simp add: take_bit_push_bit)
  have b: "push_bit 8 (code mod 256) AND (65280 :: nat) = push_bit 8 (code mod 256)"
    unfolding hi push_bit_and [symmetric] take_bit_eq_mask [symmetric]
    by (simp add: take_bit_eq_mod)
  show ?thesis
    unfolding WIFEXITED_def WEXITSTATUS_def exit_status_def a b
    by (simp add: drop_bit_push_bit)
qed

text \<open>
  Claim C2. In standalone-exec mode \<^verbatim>\<open>initNs\<close> clones. If the clone fails it returns false.
  In the sub-child (the clone returned 0) the whole of \<^verbatim>\<open>initNsInternal\<close> runs and the
  process exits, with code 0 when it returned true and 0xff (255) otherwise. In the parent,
  as soon as a \<^verbatim>\<open>wait4\<close> returns the sub-child's pid, \<^verbatim>\<open>initNs\<close> returns, and returns true
  exactly when the reported status is that of a normal exit with code 0, leaving the
  configuration as it was; if no \<^verbatim>\<open>wait4\<close> ever returns the pid it does not return. A
  child that exits with a code is reported as exited normally with that code (modulo 256):
  so the sub-child's 0 makes the parent return true and its 0xff makes it return false.
\<close>

theorem initNs_standalone_exec:
  fixes k :: kernel and env :: environ and nsjconf :: nsjconf_t and s :: proc
  defines "cl \<equiv> sys k (SUBPROC_cloneProc (CLONE_FS OR SIGCHLD)) s"
  defines "pid \<equiv> ret (fst cl)" and "s1 \<equiv> snd cl"
  defines "I \<equiv> initNsInternal k env nsjconf s1"
  assumes standalone: "mode nsjconf = MODE_STANDALONE_EXECVE"
  shows "(pid = - 1 \<longrightarrow> initNs k env nsjconf s = Some ((Returned False, nsjconf), s1))
       \<and> (pid = 0 \<longrightarrow>
            initNs k env nsjconf s =
              Some ((Exited (if fst (fst I) then 0 else 255), snd (fst I)), snd I))
       \<and> (pid \<noteq> - 1 \<and> pid \<noteq> 0 \<longrightarrow>
            (\<forall>n. (\<forall>i<n. ret (wait_answer k pid s1 i) \<noteq> pid) \<and> ret (wait_answer k pid s1 n) = pid \<longrightarrow>
                  initNs k env nsjconf s =
                    Some ((Returned (WIFEXITED (outv (wait_answer k pid s1 n))
                                     \<and> WEXITSTATUS (outv (wait_answer k pid s1 n)) = 0), nsjconf),
                          wait_state k pid s1 (Suc n)))
            \<and> ((\<forall>n. ret (wait_answer k pid s1 n) \<noteq> pid) \<longrightarrow> initNs k env nsjconf s = None))
       \<and> (\<forall>code. WIFEXITED (exit_status code) \<and> WEXITSTATUS (exit_status code) = code mod 256)
       \<and> (WIFEXITED (exit_status 0) \<and> WEXITSTATUS (exit_status 0) = 0)
       \<and> \<not> (WIFEXITED (exit_status 255) \<and> WEXITSTATUS (exit_status 255) = 0)"
proof -
  have fail: "pid = - 1 \<longrightarrow> initNs k env nsjconf s = Some ((Returned False, nsjconf), s1)"
    using standalone unfolding initNs_def pid_def s1_def cl_def
    by (simp add: Let_def case_prod_beta)
  have child: "pid = 0 \<longrightarrow>
            initNs k env nsjconf s =
              Some ((Exited (if fst (fst I) then 0 else 255), snd (fst I)), snd I)"
    using standalone unfolding initNs_def pid_def s1_def cl_def I_def
    by (simp add: Let_def case_prod_beta)
  have parent: "initNs k env nsjconf s =
      (case wait4_loop k pid s1 of
         None \<Rightarrow> None
       | Some (status, s2) \<Rightarrow>
           Some ((Returned (WIFEXITED status \<and> WEXITSTATUS status = 0), nsjconf), s2))"
    if "pid \<noteq> - 1" "pid \<noteq> 0"
    using standalone that unfolding initNs_def pid_def s1_def cl_def
    by (auto simp: Let_def case_prod_beta split: option.splits)
  have returns: "pid \<noteq> - 1 \<and> pid \<noteq> 0 \<longrightarrow>
            (\<forall>n. (\<forall>i<n. ret (wait_answer k pid s1 i) \<noteq> pid) \<and> ret (wait_answer k pid s1 n) = pid \<longrightarrow>
                  initNs k env nsjconf s =
                    Some ((Returned (WIFEXITED (outv (wait_answer k pid s1 n))
                                     \<and> WEXITSTATUS (outv (wait_answer k pid s1 n)) = 0), nsjconf),
                          wait_state k pid s1 (Suc n)))"
    using parent wait4_loop_returns [of _ k pid s1] by (auto simp del: wait_state.simps)
  have never: "pid \<noteq> - 1 \<and> pid \<noteq> 0 \<longrightarrow>
            ((\<forall>n. ret (wait_answer k pid s1 n) \<noteq> pid) \<longrightarrow> initNs k env nsjconf s = None)"
    using parent wait4_loop_None [of k pid s1] by auto
  have codes: "\<forall>code. WIFEXITED (exit_status code) \<and> WEXITSTATUS (exit_status code) = code mod 256"
    using exit_status_normal by blast
  have two: "WIFEXITED (exit_status 0) \<and> WEXITSTATUS (exit_status 0) = 0"
    "\<not> (WIFEXITED (exit_status 255) \<and> WEXITSTATUS (exit_status 255) = 0)"
    using exit_status_normal [of 0] exit_status_normal [of 255] by simp_all
  from fail child returns never codes two show ?thesis
    by blast
qed

theorem initNs_standalone_exec_witness:
  "mode conf_standalone = MODE_STANDALONE_EXECVE
   \<and> initNs k_ok env_home conf_standalone proc0 =
       Some ((Exited 0, conf_standalone),
             \<lparr>history = [(SUBPROC_cloneProc 529, Answer 0 EOTHER 0),
                         (SYS_chroot ''/srv/jail'', Answer 0 EOTHER 0),
                         (SYS_chdir ''/'', Answer 0 EOTHER 0)],
              df_counter = 0\<rparr>)
   \<and> initNs k_nochroot env_home conf_standalone proc0 =
       Some ((Exited 255, conf_standalone),
             \<lparr>history = [(SUBPROC_cloneProc 529, Answer 0 EOTHER 0),
                         (SYS_chroot ''/srv/jail'', Answer (- 1) EPERM 0)],
              df_counter = 0\<rparr>)
   \<and> initNs k_noclone env_home conf_standalone proc0 =
       Some ((Returned False, conf_standalone),
             \<lparr>history = [(SUBPROC_cloneProc 529, Answer (- 1) EOTHER 0)], df_counter = 0\<rparr>)
   \<and> exit_status 0 = 0 \<and> exit_status 255 = 65280
   \<and> initNs (k_parent 0) env_home conf_standalone proc0 =
       Some ((Returned True, conf_standalone),
             \<lparr>history = [(SUBPROC_cloneProc 529, Answer 4321 EOTHER 0),
                         (SYS_wait4 4321 0, Answer (- 1) EOTHER 0),
                         (SYS_wait4 4321 0, Answer 4321 EOTHER 0)],
              df_counter = 0\<rparr>)
   \<and> initNs (k_parent 65280) env_home conf_standalone proc0 =
       Some ((Returned False, conf_standalone),
             \<lparr>history = [(SUBPROC_cloneProc 529, Answer 4321 EOTHER 0),
                         (SYS_wait4 4321 0, Answer (- 1) EOTHER 0),
                         (SYS_wait4 4321 0, Answer 4321 EOTHER 65280)],
              df_counter = 0\<rparr>)"
proof -
  have m: "mode conf_standalone = MODE_STANDALONE_EXECVE"
    by (simp add: conf_standalone_def)
  note th = initNs_standalone_exec [OF m, where env = env_home and s = proc0]
  have c: "\<not> clone_newns conf_standalone" "chroot conf_standalone = ''/srv/jail''"
    by (simp_all add: conf_standalone_def conf_chroot_def conf_bin_def)
  have fl: "CLONE_FS OR SIGCHLD = 529"
    by (simp add: CLONE_FS_def SIGCHLD_def)
  have child_ok: "initNs k_ok env_home conf_standalone proc0 =
       Some ((Exited 0, conf_standalone),
             \<lparr>history = [(SUBPROC_cloneProc 529, Answer 0 EOTHER 0),
                         (SYS_chroot ''/srv/jail'', Answer 0 EOTHER 0),
                         (SYS_chdir ''/'', Answer 0 EOTHER 0)],
              df_counter = 0\<rparr>)"
    using th [where k = k_ok, THEN conjunct2, THEN conjunct1]
    by (simp add: fl sys_def k_ok_def proc0_def initNsInternal_def initNsInternal_chroot_def c
        c_str_def Let_def)
  have child_no: "initNs k_nochroot env_home conf_standalone proc0 =
       Some ((Exited 255, conf_standalone),
             \<lparr>history = [(SUBPROC_cloneProc 529, Answer 0 EOTHER 0),
                         (SYS_chroot ''/srv/jail'', Answer (- 1) EPERM 0)],
              df_counter = 0\<rparr>)"
    using th [where k = k_nochroot, THEN conjunct2, THEN conjunct1]
    by (simp add: fl sys_def k_nochroot_def k_ok_def proc0_def initNsInternal_def
        initNsInternal_chroot_def c c_str_def Let_def)
  have noclone: "initNs k_noclone env_home conf_standalone proc0 =
       Some ((Returned False, conf_standalone),
             \<lparr>history = [(SUBPROC_cloneProc 529, Answer (- 1) EOTHER 0)], df_counter = 0\<rparr>)"
    using th [where k = k_noclone, THEN conjunct1]
    by (simp add: fl sys_def k_noclone_def proc0_def)
  have st: "exit_status 0 = 0" "exit_status 255 = 65280"
    by (simp_all add: exit_status_def push_bit_eq_mult)
  have w: "WIFEXITED 0 \<and> WEXITSTATUS 0 = 0" "\<not> (WIFEXITED 65280 \<and> WEXITSTATUS 65280 = 0)"
    using th [where k = k_ok, THEN conjunct2, THEN conjunct2, THEN conjunct2, THEN conjunct2]
    unfolding st by simp_all
  have parent: "initNs (k_parent v) env_home conf_standalone proc0 =
       Some ((Returned (WIFEXITED v \<and> WEXITSTATUS v = 0), conf_standalone),
             \<lparr>history = [(SUBPROC_cloneProc 529, Answer 4321 EOTHER 0),
                         (SYS_wait4 4321 0, Answer (- 1) EOTHER 0),
                         (SYS_wait4 4321 0, Answer 4321 EOTHER v)],
              df_counter = 0\<rparr>)" for v
    using th [where k = "k_parent v", THEN conjunct2, THEN conjunct2, THEN conjunct1,
        THEN mp, THEN conjunct1, THEN spec, of 1]
    by (simp add: fl sys_def k_parent_def proc0_def wait_answer_def)
  show ?thesis
    using m child_ok child_no noclone st parent [of 0] parent [of 65280] w by simp
qed

section \<open>Claims about the flag formatter\<close>

lemma flagsToStr_loop_eq:
  "flagsToStr_loop fl tab res msk =
     (res @ concat (map (\<lambda>n. n @ ''|'') (map snd (filter (\<lambda>(flag, name). fl AND flag \<noteq> 0) tab))),
      msk OR foldr (OR) (map fst tab) 0)"
  by (induction tab arbitrary: res msk) (auto simp: ac_simps)

lemma flagsToStr_eq:
  "flagsToStr fl =
     (if fl AND NOT known_mask = 0 \<and> known_names fl \<noteq> []
      then butlast (concat (map (\<lambda>n. n @ ''|'') (known_names fl)))
      else concat (map (\<lambda>n. n @ ''|'') (known_names fl)) @ fmt_alt_hex (fl AND NOT known_mask))"
proof -
  have ne: "concat (map (\<lambda>n. n @ ''|'') ns) \<noteq> [] \<longleftrightarrow> ns \<noteq> []" for ns :: "string list"
    by (cases ns) simp_all
  show ?thesis
    unfolding flagsToStr_def flagsToStr_loop_eq known_names_def [symmetric] known_mask_def [symmetric]
    using ne [of "known_names fl"] by simp
qed

lemma split_on_no_sep: "c \<notin> set t \<Longrightarrow> split_on c t = [t]"
  by (induction t) auto

lemma split_on_token: "c \<notin> set n \<Longrightarrow> split_on c (n @ c # rest) = n # split_on c rest"
  by (induction n) auto

lemma split_on_tokens:
  "\<forall>n \<in> set ns. c \<notin> set n \<Longrightarrow>
   split_on c (concat (map (\<lambda>n. n @ [c]) ns) @ t) = ns @ split_on c t"
  by (induction ns) (simp_all add: split_on_token)

lemma butlast_tokens:
  "ns \<noteq> [] \<Longrightarrow>
   butlast (concat (map (\<lambda>n. n @ [c]) ns)) = concat (map (\<lambda>n. n @ [c]) (butlast ns)) @ last ns"
  by (induction ns) (auto simp: butlast_append)

lemma split_on_butlast_tokens:
  assumes "\<forall>n \<in> set ns. c \<notin> set n" and "ns \<noteq> []"
  shows "split_on c (butlast (concat (map (\<lambda>n. n @ [c]) ns))) = ns"
proof -
  have b: "\<forall>n \<in> set (butlast ns). c \<notin> set n" and l: "c \<notin> set (last ns)"
    using assms by (auto dest: in_set_butlastD)
  show ?thesis
    unfolding butlast_tokens [OF assms(2)]
    using split_on_tokens [OF b, of "last ns"] split_on_no_sep [OF l] assms(2)
    by simp
qed

lemma digit_char_no_bar: "digit_char d \<noteq> CHR ''|''"
  unfolding digit_char_def
  by (cases "d < 16") (auto simp: less_Suc_eq numeral_eq_Suc nth_Cons')

lemma hex_string_no_bar: "CHR ''|'' \<notin> set (hex_string n)"
proof (induction n rule: hex_string.induct)
  case (1 n)
  then show ?case
    by (subst hex_string.simps) (auto simp: digit_char_no_bar [THEN not_sym])
qed

lemma fmt_alt_hex_no_bar: "CHR ''|'' \<notin> set (fmt_alt_hex v)"
  by (simp add: fmt_alt_hex_def hex_string_no_bar)

lemma known_names_no_bar: "\<forall>n \<in> set (known_names fl). CHR ''|'' \<notin> set n"
proof -
  have "\<forall>p \<in> set mountFlags. CHR ''|'' \<notin> set (snd p)"
    by (simp add: mountFlags_def)
  then show ?thesis
    by (auto simp: known_names_def)
qed

lemma and_foldr_or_zero:
  "(fl :: 64 word) AND foldr (OR) (map fst tab) 0 = 0 \<longleftrightarrow> (\<forall>p \<in> set tab. fl AND fst p = 0)"
  by (induction tab) (auto simp: bit.conj_disj_distrib or_eq_0_iff)

lemma no_flag_at_all:
  "known_names fl = [] \<and> fl AND NOT known_mask = 0 \<longleftrightarrow> fl = 0"
proof
  assume a: "known_names fl = [] \<and> fl AND NOT known_mask = 0"
  then have "\<forall>p \<in> set mountFlags. fl AND fst p = 0"
    by (auto simp: known_names_def filter_empty_conv)
  then have "fl AND known_mask = 0"
    unfolding known_mask_def and_foldr_or_zero .
  moreover have "fl = (fl AND known_mask) OR (fl AND NOT known_mask)"
    by (simp add: bit.conj_disj_distrib [symmetric])
  ultimately show "fl = 0" using a by simp
next
  assume "fl = 0"
  then show "known_names fl = [] \<and> fl AND NOT known_mask = 0"
    by (simp add: known_names_def)
qed

text \<open>
  Claim C7, as stated, fails at the zero bitmask: no flag is set and no bit lies outside the
  table, yet the output is the one token \<^verbatim>\<open>0\<close>, the residue printed by \<^verbatim>\<open>"%#tx"\<close>.
\<close>

theorem flagsToStr_zero_counterexample:
  "flagsToStr 0 = ''0''
   \<and> split_on CHR ''|'' (flagsToStr 0) = [''0'']
   \<and> known_names 0 = []
   \<and> (0 :: 64 word) AND NOT known_mask = 0"
  by (simp add: flagsToStr_def mountFlags_def fmt_alt_hex_def known_names_def)

text \<open>
  Claim C7, amended. For every bitmask the output of \<^verbatim>\<open>flagsToStr\<close>, split on \<^verbatim>\<open>|\<close>, is
  the list of the names of the table's flags that the input sets, in table order (hence
  also as a multiset), followed by exactly one more token, the residue \<open>fmt_alt_hex\<close> of
  the bits outside the table, when the input has such bits or is zero, and by nothing
  otherwise.
\<close>

theorem flagsToStr_tokens:
  "split_on CHR ''|'' (flagsToStr fl) =
     known_names fl @
       (if fl = 0 \<or> fl AND NOT known_mask \<noteq> 0 then [fmt_alt_hex (fl AND NOT known_mask)] else [])"
proof (cases "fl AND NOT known_mask = 0 \<and> known_names fl \<noteq> []")
  case True
  then have "fl \<noteq> 0"
    using no_flag_at_all [of fl] by auto
  with True show ?thesis
    unfolding flagsToStr_eq
    using split_on_butlast_tokens [OF known_names_no_bar, of fl] by simp
next
  case False
  then have "fl = 0 \<or> fl AND NOT known_mask \<noteq> 0"
    using no_flag_at_all [of fl] by auto
  with False show ?thesis
    unfolding flagsToStr_eq
    using split_on_tokens [OF known_names_no_bar, of fl "fmt_alt_hex (fl AND NOT known_mask)"]
      split_on_no_sep [OF fmt_alt_hex_no_bar, of "fl AND NOT known_mask"]
    by auto
qed

theorem flagsToStr_tokens_witness:
  "flagsToStr 20481 = ''MS_RDONLY|MS_BIND|MS_REC''
   \<and> split_on CHR ''|'' (flagsToStr 20481) = [''MS_RDONLY'', ''MS_BIND'', ''MS_REC'']
   \<and> flagsToStr 4352 = ''MS_BIND|0x100''
   \<and> split_on CHR ''|'' (flagsToStr 4352) = [''MS_BIND'', ''0x100'']
   \<and> (4352 :: 64 word) AND NOT known_mask = 256
   \<and> split_on CHR ''|'' (flagsToStr 0) = [''0'']"
proof -
  have m: "known_mask = 67108095"
    by (simp add: known_mask_def mountFlags_def ms_flags)
  have n: "known_names 20481 = [''MS_RDONLY'', ''MS_BIND'', ''MS_REC'']"
    "known_names 4352 = [''MS_BIND'']" "known_names 0 = []"
    by (simp_all add: known_names_def mountFlags_def ms_flags)
  have s: "flagsToStr 20481 = ''MS_RDONLY|MS_BIND|MS_REC''" "flagsToStr 4352 = ''MS_BIND|0x100''"
    unfolding flagsToStr_eq n m by (simp_all add: fmt_alt_hex_def fmt_eval)
  show ?thesis
    using flagsToStr_tokens [of 20481] flagsToStr_tokens [of 4352] flagsToStr_tokens [of 0]
    unfolding n m s by (simp add: fmt_alt_hex_def fmt_eval)
qed

end
